theory Spec2Isabelle
  imports Complex_Main
begin

section \<open>Data model of GCodes.cpp\<close>

text \<open>
  The development embeds the parts of \<^verbatim>\<open>src/GCodes/GCodes.cpp\<close> that implement resource
  locking, trigger arbitration, restore points, move synthesis and the hand-over of move
  segments. The class \<^verbatim>\<open>GCodes\<close> becomes the record \<open>GCodes\<close>, passed explicitly and
  returned updated. A \<^verbatim>\<open>GCodeBuffer\<close> is referred to by its identity (the source compares
  addresses, \<^verbatim>\<open>resourceOwners[r] == &gb\<close>); the identity is a natural number here and the
  buffers themselves are looked up in \<open>gcodeSources\<close>. Numbers of type \<^verbatim>\<open>float\<close> are
  idealised as \<^typ>\<open>real\<close>: rounding and overflow are outside the model. The division that
  gives the move time of a straight move has a zero divisor at feed rate zero; it is
  modelled with the infinities and NaN that \<^verbatim>\<open>float\<close> gives there.
\<close>

subsection \<open>Bitmaps\<close>

text \<open>
  The class template \<^verbatim>\<open>Bitmap\<close> (resource, axis and trigger bitmaps) is used through
  \<^verbatim>\<open>SetBit\<close>, \<^verbatim>\<open>ClearBit\<close>, \<^verbatim>\<open>IsBitSet\<close>, \<^verbatim>\<open>Clear\<close>, \<^verbatim>\<open>IsNonEmpty\<close>, \<^verbatim>\<open>IsEmpty\<close>
  and \<^verbatim>\<open>LowestSetBit\<close>. A bitmap is the set of the numbers of its set bits.
\<close>

type_synonym Bitmap = "nat set"

definition SetBit :: "nat \<Rightarrow> Bitmap \<Rightarrow> Bitmap" where
  "SetBit i b = insert i b"

definition ClearBit :: "nat \<Rightarrow> Bitmap \<Rightarrow> Bitmap" where
  "ClearBit i b = b - {i}"

definition IsBitSet :: "Bitmap \<Rightarrow> nat \<Rightarrow> bool" where
  "IsBitSet b i = (i \<in> b)"

definition IsNonEmpty :: "Bitmap \<Rightarrow> bool" where
  "IsNonEmpty b = (b \<noteq> {})"

definition IsEmpty :: "Bitmap \<Rightarrow> bool" where
  "IsEmpty b = (b = {})"

definition LowestSetBit :: "Bitmap \<Rightarrow> nat" where
  "LowestSetBit b = Min b"

subsection \<open>Channels and their machine state stack\<close>

type_synonym Resource = nat
type_synonym Channel = nat

datatype GCodeState =
    normal
  | pausing1
  | waitingForSpecialMoveToComplete
  | waitingForSegmentedMoveToGo

text \<open>
  One frame of a channel's state stack. \<^verbatim>\<open>GetPrevious()\<close> of the latest frame is the head
  of \<open>previousStates\<close> in the buffer, or \<^verbatim>\<open>nullptr\<close> when that list is empty.
\<close>

record GCodeMachineState =
  lockedResources :: Bitmap
  feedRate :: real
  selectedPlane :: nat
  axesRelative :: bool
  g53Active :: bool
  runningSystemMacro :: bool

record GCodeBuffer =
  machineState :: GCodeMachineState
  previousStates :: "GCodeMachineState list"
  bufferState :: GCodeState
  isDoingFile :: bool
  filePosition :: nat

definition GetPrevious :: "GCodeBuffer \<Rightarrow> GCodeMachineState option" where
  "GetPrevious gb = (case previousStates gb of [] \<Rightarrow> None | p # _ \<Rightarrow> Some p)"

subsection \<open>The pending move\<close>

datatype SegmentedMoveState = inactive | active | aborted

text \<open>
  A tool, as far as this file reads it: its offset per axis and its X and Y axis maps.
  A pointer to a tool that may be \<^verbatim>\<open>nullptr\<close> is a \<open>Tool option\<close>.
\<close>

record Tool =
  toolOffset :: "nat \<Rightarrow> real"
  xAxisMap :: Bitmap
  yAxisMap :: Bitmap

type_synonym FilePosition = nat

text \<open>
  \<^verbatim>\<open>RawMove\<close> is what the motion consumer copies (\<^verbatim>\<open>m = moveState\<close> in \<^verbatim>\<open>ReadMove\<close>);
  \<^verbatim>\<open>MovementState\<close> extends it. Arrays indexed by axis or drive are functions.
\<close>

record RawMove =
  coords :: "nat \<Rightarrow> real"
  initialUserC0 :: real
  initialUserC1 :: real
  moveFeedRate :: real
  moveVirtualExtruderPosition :: real
  moveFilePos :: FilePosition
  proportionDone :: real
  cosXyAngle :: real
  tool :: "Tool option"
  moveType :: nat
  applyM220M221 :: bool
  usePressureAdvance :: bool
  canPauseAfter :: bool
  hasPositiveExtrusion :: bool
  isCoordinated :: bool
  checkEndstops :: bool
  reduceAcceleration :: bool
  linearAxesMentioned :: bool
  rotationalAxesMentioned :: bool
  laserPwmOrIoBits :: nat

record MovementState = RawMove +
  currentUserPosition :: "nat \<Rightarrow> real"
  initialCoords :: "nat \<Rightarrow> real"
  currentZHop :: real
  totalSegments :: nat
  segmentsLeft :: nat
  arcCentre :: "nat \<Rightarrow> real"
  arcRadius :: real
  arcCurrentAngle :: real
  currentAngleSine :: real
  currentAngleCosine :: real
  arcAngleIncrement :: real
  angleIncrementSine :: real
  angleIncrementCosine :: real
  segmentsTillNextFullCalc :: nat
  arcAxis0 :: nat
  arcAxis1 :: nat
  doingArcMove :: bool
  xyPlane :: bool
  segMoveState :: SegmentedMoveState

subsection \<open>Restore points\<close>

record RestorePoint =
  rpMoveCoords :: "nat \<Rightarrow> real"
  rpFeedRate :: real
  rpVirtualExtruderPosition :: real
  rpFilePos :: FilePosition
  rpToolNumber :: int
  rpFanSpeed :: real
  rpInitialUserC0 :: real
  rpInitialUserC1 :: real
  rpLaserPwmOrIoBits :: nat

subsection \<open>The GCodes object\<close>

datatype MachineType = fff | laser | cnc

datatype PauseState = notPaused | pausing | paused | resuming

datatype SimulationMode = simOff | simDebug | simNormal | simPartial

text \<open>
  Calls whose effect lies outside the members modelled here are appended, in program
  order, to the list \<open>calls\<close>: \<^verbatim>\<open>reprap.EmergencyStop()\<close>, \<^verbatim>\<open>DoPause\<close> (with the channel
  and the new state passed), \<^verbatim>\<open>platform.SendAlert\<close>, \<^verbatim>\<open>DoFileMacro\<close> for
  \<^verbatim>\<open>trigger<n>.g\<close> (with the channel and \<open>n\<close>), \<^verbatim>\<open>Move::MoveAvailable()\<close>,
  \<^verbatim>\<open>platform.SetLaserPwm(0)\<close> and \<^verbatim>\<open>buildObjects.DoneMoveSincePrintingResumed()\<close>.
\<close>

datatype Call =
    CallEmergencyStop
  | CallDoPause Channel GCodeState
  | CallSendAlert
  | CallDoFileMacro Channel nat
  | CallMoveAvailable
  | CallSetLaserPwmZero
  | CallDoneMoveSincePrintingResumed

record GCodes =
  resourceOwners :: "Resource \<Rightarrow> Channel option"
  gcodeSources :: "Channel \<Rightarrow> GCodeBuffer"
  toBeHomed :: Bitmap
  triggersPending :: Bitmap
  triggerGCode :: Channel
  fileGCode :: Channel
  queuedGCode :: Channel
  moveState :: MovementState
  segmentsLeftToStartAt :: nat
  firstSegmentFractionToSkip :: real
  moveFractionToSkip :: real
  restartInitialUserC0 :: real
  restartInitialUserC1 :: real
  numVisibleAxes :: nat
  numTotalAxes :: nat
  axisLetters :: "nat \<Rightarrow> char"
  numExtruders :: nat
  axisScaleFactors :: "nat \<Rightarrow> real"
  currentBabyStepOffsets :: "nat \<Rightarrow> real"
  virtualExtruderPosition :: real
  lastDefaultFanSpeed :: real
  machineType :: MachineType
  pauseState :: PauseState
  simulationMode :: SimulationMode
  axesVirtuallyHomed :: Bitmap
  noMovesBeforeHoming :: bool
  limitAxes :: bool
  g68Angle :: real
  doingManualBedProbe :: bool
  laserPowerSticky :: bool
  updateUserPositionGb :: "Channel option"
  currentTool :: "Tool option"
  currentToolNumber :: int
  calls :: "Call list"

text \<open>
  The members \<open>currentTool\<close> and \<open>currentToolNumber\<close> stand for what
  \<^verbatim>\<open>reprap.GetCurrentTool()\<close> and \<^verbatim>\<open>reprap.GetCurrentToolNumber()\<close> return.

  Constants declared in headers that are not among the sources are parameters of the
  model, collected in one record.
\<close>

record Config =
  NumResources :: nat
  MoveResource :: Resource
  MaxTriggers :: nat
  noFilePosition :: FilePosition
  ExtruderToLogicalDrive :: "nat \<Rightarrow> nat"
  StepClockRate :: real
  MaxArcDeviation :: real
  MinArcSegmentsPerSec :: real
  MinArcSegmentLength :: real
  MaxArcSegmentLength :: real
  SegmentsPerFulArcCalculation :: nat

text \<open>
  The axis numbers. \<^verbatim>\<open>DoArcMove\<close> selects the second axis of the plane as
  \<^verbatim>\<open>(axis0 + 1) % 3\<close> from \<^verbatim>\<open>{ X_AXIS, Z_AXIS, Y_AXIS }[selectedPlane]\<close> for the planes
  XY, ZX and YZ, which fixes them as 0, 1 and 2.
\<close>

definition X_AXIS :: nat where "X_AXIS = 0"
definition Y_AXIS :: nat where "Y_AXIS = 1"
definition Z_AXIS :: nat where "Z_AXIS = 2"

datatype LimitPositionResult =
  ok | adjusted | intermediateUnreachable | adjustedAndIntermediateUnreachable

text \<open>
  The value of a \<^verbatim>\<open>float\<close> expression that contains a division by a number that may be
  zero: a number, an infinity or NaN.
\<close>

datatype Float = Finite real | PlusInfinity | MinusInfinity | NaN

text \<open>
  What \<^verbatim>\<open>LoadExtrusionAndFeedrateFromGCode\<close> leaves behind: its result (an error message
  or \<^verbatim>\<open>nullptr\<close>) and the members it assigns. Its body reads the tool's drives and mix
  ratios and the E parameters of the command, all outside this file, so the values are
  taken from the environment; the members assigned are those of the source.
\<close>

record ExtrusionEffect =
  leError :: "string option"
  leApplyM220M221 :: bool
  leMoveFeedRate :: real
  leChannelFeedRate :: real
  leExtruderCoords :: "nat \<Rightarrow> real"
  leHasPositiveExtrusion :: bool
  leVirtualExtruderPosition :: real

text \<open>
  \<^verbatim>\<open>LimitPosition\<close> receives the coordinates, the initial coordinates (or \<^verbatim>\<open>nullptr\<close>),
  \<^verbatim>\<open>numVisibleAxes\<close>, the homed axes, the coordinated flag and \<^verbatim>\<open>limitAxes\<close>; it returns
  its verdict and the coordinates, which it may have adjusted.

  The collaborators (\<^verbatim>\<open>Move\<close>, \<^verbatim>\<open>Kinematics\<close>, \<^verbatim>\<open>Tool\<close>, \<^verbatim>\<open>RepRap\<close>,
  \<^verbatim>\<open>PrintMonitor\<close>, \<^verbatim>\<open>GCodeBuffer\<close>, \<^verbatim>\<open>HeightMap\<close>, the trigger items, the object
  tracker, and the C library where the standard leaves its result unspecified) are not
  among the sources. What they answer when called is a parameter of
  every operation: theorems hold for every such environment.
\<close>

record Env =
  triggerCheck :: "nat \<Rightarrow> bool"
  printMonitorIsPrinting :: bool
  bufferReset :: "GCodeBuffer \<Rightarrow> GCodeBuffer"
  bufferMotionCommanded :: "GCodeBuffer \<Rightarrow> GCodeBuffer"
  bufferMotionStopped :: "GCodeBuffer \<Rightarrow> GCodeBuffer"
  GetAssumedInitialPosition :: "nat \<Rightarrow> (nat \<Rightarrow> real) \<Rightarrow> (nat \<Rightarrow> real)"
  MoveGetCurrentUserPosition :: "nat \<Rightarrow> Tool option \<Rightarrow> (nat \<Rightarrow> real) \<Rightarrow> (nat \<Rightarrow> real)"
  LimitPosition ::
    "(nat \<Rightarrow> real) \<Rightarrow> (nat \<Rightarrow> real) option \<Rightarrow> nat \<Rightarrow> Bitmap \<Rightarrow> bool \<Rightarrow> bool \<Rightarrow>
       LimitPositionResult \<times> (nat \<Rightarrow> real)"
  GetAxisMapping :: "Tool option \<Rightarrow> nat \<Rightarrow> Bitmap"
  GetCurrentAxisMapping :: "nat \<Rightarrow> Bitmap"
  GetCurrentXAxes :: Bitmap
  GetCurrentYAxes :: Bitmap
  ToolGetOffset :: "Tool option \<Rightarrow> nat \<Rightarrow> real"
  GetProportionDone :: "MovementState \<Rightarrow> real"
  SetDefaults :: "nat \<Rightarrow> MovementState \<Rightarrow> MovementState"
  GetWorkplaceOffset :: "nat \<Rightarrow> real"
  MustBeHomedAxes :: "Bitmap \<Rightarrow> bool \<Rightarrow> Bitmap"
  RotateCoordinates :: "real \<Rightarrow> (nat \<Rightarrow> real) \<Rightarrow> (nat \<Rightarrow> real)"
  DoingCoordinateRotation :: "Channel \<Rightarrow> bool"
  LoadExtrusionAndFeedrateFromGCode :: "GCodes \<Rightarrow> Channel \<Rightarrow> bool \<Rightarrow> ExtrusionEffect"
  ConvertLaserPwm :: "real \<Rightarrow> nat"
  IsFirstMoveSincePrintingResumed :: bool
  IsCurrentObjectCancelled :: bool
  GetInitialPosition :: RestorePoint
  WaitingForAllMovesFinished :: bool
  IsCodeQueueIdle :: bool
  inMainTask :: bool
  linearAxes :: Bitmap
  rotationalAxes :: Bitmap
  useSegmentation :: bool
  useZSegmentation :: bool
  useG0Segmentation :: bool
  GetReciprocalMinSegmentLength :: real
  GetSegmentsPerSecond :: real
  IsUsingMesh :: bool
  GetMinimumSegments :: "real \<Rightarrow> real \<Rightarrow> nat"
  GridAxisNumber :: "nat \<Rightarrow> nat"
  compatibilityNanoDLP :: "Channel \<Rightarrow> bool"
  DoingFileMacro :: bool
  lrintfNonFinite :: "Float \<Rightarrow> int"

definition LatestMachineState :: "GCodes \<Rightarrow> Channel \<Rightarrow> GCodeMachineState" where
  "LatestMachineState st gb = machineState (gcodeSources st gb)"

text \<open>Assignment through \<^verbatim>\<open>gb.LatestMachineState()\<close>.\<close>

definition updLatest :: "Channel \<Rightarrow> (GCodeMachineState \<Rightarrow> GCodeMachineState) \<Rightarrow> GCodes \<Rightarrow> GCodes" where
  "updLatest gb f st =
     st\<lparr>gcodeSources := (gcodeSources st)
           (gb := (gcodeSources st gb)\<lparr>machineState := f (machineState (gcodeSources st gb))\<rparr>)\<rparr>"

section \<open>Resource locking\<close>

definition LockResource :: "Channel \<Rightarrow> Resource \<Rightarrow> GCodes \<Rightarrow> bool \<times> GCodes" where
  "LockResource gb r st =
     (if resourceOwners st r = Some gb then (True, st)
      else if resourceOwners st r = None then
        (True,
         updLatest gb (\<lambda>ms. ms\<lparr>lockedResources := SetBit r (lockedResources ms)\<rparr>)
           (st\<lparr>resourceOwners := (resourceOwners st)(r := Some gb)\<rparr>))
      else (False, st))"

definition GrabResource :: "Channel \<Rightarrow> Resource \<Rightarrow> GCodes \<Rightarrow> GCodes" where
  "GrabResource gb r st =
     (if resourceOwners st r \<noteq> Some gb then
        updLatest gb (\<lambda>ms. ms\<lparr>lockedResources := SetBit r (lockedResources ms)\<rparr>)
          (st\<lparr>resourceOwners := (resourceOwners st)(r := Some gb)\<rparr>)
      else st)"

definition LockMovement :: "Config \<Rightarrow> Channel \<Rightarrow> GCodes \<Rightarrow> bool \<times> GCodes" where
  "LockMovement cfg gb st = LockResource gb (MoveResource cfg) st"

definition GrabMovement :: "Config \<Rightarrow> Channel \<Rightarrow> GCodes \<Rightarrow> GCodes" where
  "GrabMovement cfg gb st = GrabResource gb (MoveResource cfg) st"

definition UnlockResource :: "Channel \<Rightarrow> Resource \<Rightarrow> GCodes \<Rightarrow> GCodes" where
  "UnlockResource gb r st =
     (if resourceOwners st r = Some gb then
        (updLatest gb (\<lambda>ms. ms\<lparr>lockedResources := ClearBit r (lockedResources ms)\<rparr>) st)
          \<lparr>resourceOwners := (resourceOwners st)(r := None)\<rparr>
      else st)"

definition UnlockMovement :: "Config \<Rightarrow> Channel \<Rightarrow> GCodes \<Rightarrow> GCodes" where
  "UnlockMovement cfg gb st = UnlockResource gb (MoveResource cfg) st"

text \<open>The body of the loop of \<^verbatim>\<open>UnlockAll\<close>, for resource number \<open>i\<close>.\<close>

definition UnlockAll_body :: "Config \<Rightarrow> Channel \<Rightarrow> Bitmap \<Rightarrow> nat \<Rightarrow> GCodes \<Rightarrow> GCodes" where
  "UnlockAll_body cfg gb resourcesToKeep i st =
     (if resourceOwners st i = Some gb \<and> \<not> IsBitSet resourcesToKeep i then
        let st1 = (if i = MoveResource cfg then st\<lparr>toBeHomed := {}\<rparr> else st);
            st2 = st1\<lparr>resourceOwners := (resourceOwners st1)(i := None)\<rparr>
        in updLatest gb (\<lambda>ms. ms\<lparr>lockedResources := ClearBit i (lockedResources ms)\<rparr>) st2
      else st)"

definition UnlockAll :: "Config \<Rightarrow> Channel \<Rightarrow> GCodes \<Rightarrow> GCodes" where
  "UnlockAll cfg gb st =
     (let mc = GetPrevious (gcodeSources st gb);
          resourcesToKeep = (case mc of None \<Rightarrow> {} | Some m \<Rightarrow> lockedResources m)
      in fold (UnlockAll_body cfg gb resourcesToKeep) [0..<NumResources cfg] st)"

text \<open>Sequences of lock operations issued by channels.\<close>

datatype LockOp =
    OpLock Channel Resource
  | OpUnlock Channel Resource
  | OpGrab Channel Resource
  | OpUnlockAll Channel

fun applyOp :: "Config \<Rightarrow> LockOp \<Rightarrow> GCodes \<Rightarrow> GCodes" where
  "applyOp cfg (OpLock gb r) st = snd (LockResource gb r st)"
| "applyOp cfg (OpUnlock gb r) st = UnlockResource gb r st"
| "applyOp cfg (OpGrab gb r) st = GrabResource gb r st"
| "applyOp cfg (OpUnlockAll gb) st = UnlockAll cfg gb st"

definition runOps :: "Config \<Rightarrow> LockOp list \<Rightarrow> GCodes \<Rightarrow> GCodes" where
  "runOps cfg ops st = fold (applyOp cfg) ops st"

definition owns :: "GCodes \<Rightarrow> Channel \<Rightarrow> Resource \<Rightarrow> bool" where
  "owns st gb r = (resourceOwners st r = Some gb)"

text \<open>
  The resources a channel holds that \<^verbatim>\<open>UnlockAll\<close> may release: those it owns whose bit is
  not set in the frame below its latest one.
\<close>

definition parentLocked :: "GCodes \<Rightarrow> Channel \<Rightarrow> Bitmap" where
  "parentLocked st gb =
     (case GetPrevious (gcodeSources st gb) of None \<Rightarrow> {} | Some m \<Rightarrow> lockedResources m)"

definition releasable :: "GCodes \<Rightarrow> Channel \<Rightarrow> Resource \<Rightarrow> bool" where
  "releasable st gb r = (resourceOwners st r = Some gb \<and> \<not> IsBitSet (parentLocked st gb) r)"

text \<open>
  Ownership is mirrored in the owner's latest frame: whoever the owner table names for a
  resource has the bit of that resource set in its latest frame.
\<close>

definition mirrored :: "GCodes \<Rightarrow> bool" where
  "mirrored st =
     (\<forall>r c. resourceOwners st r = Some c \<longrightarrow> IsBitSet (lockedResources (LatestMachineState st c)) r)"

section \<open>Restore points\<close>

text \<open>
  \<^verbatim>\<open>SavePosition\<close> is a \<^verbatim>\<open>const\<close> member: it writes the restore point only. The loop
  over \<^verbatim>\<open>axis < numVisibleAxes\<close> assigns each entry independently.
\<close>

definition SavePosition :: "RestorePoint \<Rightarrow> Channel \<Rightarrow> GCodes \<Rightarrow> RestorePoint" where
  "SavePosition rp gb st =
     rp\<lparr>rpMoveCoords :=
          (\<lambda>axis. if axis < numVisibleAxes st then currentUserPosition (moveState st) axis
                  else rpMoveCoords rp axis),
        rpFeedRate := feedRate (LatestMachineState st gb),
        rpVirtualExtruderPosition := virtualExtruderPosition st,
        rpFilePos := filePosition (gcodeSources st gb),
        rpToolNumber := currentToolNumber st,
        rpFanSpeed := lastDefaultFanSpeed st,
        rpLaserPwmOrIoBits := laserPwmOrIoBits (moveState st)\<rparr>"

text \<open>The channel argument of \<^verbatim>\<open>RestorePosition\<close> is a pointer that may be null.\<close>

definition RestorePosition :: "RestorePoint \<Rightarrow> Channel option \<Rightarrow> GCodes \<Rightarrow> GCodes" where
  "RestorePosition rp gb st =
     (let st1 = st\<lparr>moveState := (moveState st)\<lparr>currentUserPosition :=
                  (\<lambda>axis. if axis < numVisibleAxes st then rpMoveCoords rp axis
                          else currentUserPosition (moveState st) axis)\<rparr>\<rparr>;
          st2 = (case gb of
                   None \<Rightarrow> st1
                 | Some g \<Rightarrow> updLatest g (\<lambda>ms. ms\<lparr>feedRate := rpFeedRate rp\<rparr>) st1)
      in st2\<lparr>moveState := (moveState st2)\<lparr>initialUserC0 := rpInitialUserC0 rp,
                 initialUserC1 := rpInitialUserC1 rp,
                 laserPwmOrIoBits := rpLaserPwmOrIoBits rp\<rparr>\<rparr>)"

section \<open>Publishing and clearing the pending move\<close>

text \<open>
  \<^verbatim>\<open>ClearMove\<close>, \<^verbatim>\<open>NewSingleSegmentMoveAvailable\<close> and \<^verbatim>\<open>NewMoveAvailable\<close>. The memory
  barrier \<^verbatim>\<open>__DMB()\<close> has no counterpart in a sequential model; the order of the
  assignments is the order of the record updates.
\<close>

definition ClearMove :: "GCodes \<Rightarrow> GCodes" where
  "ClearMove st =
     st\<lparr>moveState := (moveState st)\<lparr>segmentsLeft := 0, segMoveState := inactive,
            doingArcMove := False, checkEndstops := False, reduceAcceleration := False,
            moveType := 0, applyM220M221 := False\<rparr>,
        moveFractionToSkip := 0\<rparr>"

definition NewSingleSegmentMoveAvailable :: "GCodes \<Rightarrow> GCodes" where
  "NewSingleSegmentMoveAvailable st =
     (let st1 = st\<lparr>moveState := (moveState st)\<lparr>totalSegments := 1\<rparr>\<rparr>;
          st2 = st1\<lparr>moveState := (moveState st1)\<lparr>segmentsLeft := 1\<rparr>\<rparr>
      in st2\<lparr>calls := calls st2 @ [CallMoveAvailable]\<rparr>)"

definition NewMoveAvailable :: "GCodes \<Rightarrow> GCodes" where
  "NewMoveAvailable st =
     (let sl = totalSegments (moveState st);
          st1 = st\<lparr>moveState := (moveState st)\<lparr>segmentsLeft := sl\<rparr>\<rparr>
      in st1\<lparr>calls := calls st1 @ [CallMoveAvailable]\<rparr>)"

section \<open>Tool offset transforms\<close>

definition ToolOffsetTransform ::
  "GCodes \<Rightarrow> (nat \<Rightarrow> real) \<Rightarrow> Bitmap \<Rightarrow> (nat \<Rightarrow> real) \<Rightarrow> (nat \<Rightarrow> real)" where
  "ToolOffsetTransform st coordsIn explicitAxes coordsOut =
     (let out1 =
        (case currentTool st of
           None \<Rightarrow>
             (\<lambda>axis. if axis < numVisibleAxes st
                     then coordsIn axis * axisScaleFactors st axis + currentBabyStepOffsets st axis
                     else coordsOut axis)
         | Some t \<Rightarrow>
             (\<lambda>axis. if axis < numVisibleAxes st
                        \<and> (axis \<noteq> X_AXIS \<or> IsBitSet (xAxisMap t) X_AXIS)
                        \<and> (axis \<noteq> Y_AXIS \<or> IsBitSet (yAxisMap t) Y_AXIS)
                     then
                       (let totalOffset = currentBabyStepOffsets st axis - toolOffset t axis;
                            inputAxis =
                              (if IsBitSet explicitAxes axis then axis
                               else if IsBitSet (xAxisMap t) axis then X_AXIS
                               else if IsBitSet (yAxisMap t) axis then Y_AXIS
                               else axis)
                        in coordsIn inputAxis * axisScaleFactors st axis + totalOffset)
                     else coordsOut axis))
      in out1(Z_AXIS := out1 Z_AXIS + currentZHop (moveState st)))"

text \<open>
  \<^verbatim>\<open>ToolOffsetInverseTransform\<close>: the loop stores one coordinate per axis and sums the
  coordinates of the axes mapped to X and to Y; afterwards X and Y receive the averages.
\<close>

definition ToolOffsetInverseTransform ::
  "Env \<Rightarrow> GCodes \<Rightarrow> (nat \<Rightarrow> real) \<Rightarrow> (nat \<Rightarrow> real) \<Rightarrow> (nat \<Rightarrow> real)" where
  "ToolOffsetInverseTransform env st coordsIn coordsOut =
     (let out1 =
        (case currentTool st of
           None \<Rightarrow>
             (\<lambda>axis. if axis < numVisibleAxes st
                     then (coordsIn axis - currentBabyStepOffsets st axis) / axisScaleFactors st axis
                     else coordsOut axis)
         | Some t \<Rightarrow>
             (let coord = (\<lambda>axis. (coordsIn axis - (currentBabyStepOffsets st axis - toolOffset t axis))
                                    / axisScaleFactors st axis);
                  xs = filter (IsBitSet (GetCurrentXAxes env)) [0..<numVisibleAxes st];
                  ys = filter (IsBitSet (GetCurrentYAxes env)) [0..<numVisibleAxes st];
                  out0 = (\<lambda>axis. if axis < numVisibleAxes st then coord axis else coordsOut axis);
                  outX = (if length xs \<noteq> 0
                          then out0(X_AXIS := sum_list (map coord xs) / real (length xs))
                          else out0)
              in if length ys \<noteq> 0
                 then outX(Y_AXIS := sum_list (map coord ys) / real (length ys))
                 else outX))
      in out1(Z_AXIS := out1 Z_AXIS - currentZHop (moveState st) / axisScaleFactors st Z_AXIS))"

section \<open>Reset and emergency stop\<close>

text \<open>
  \<^verbatim>\<open>Reset\<close>, for the members the model carries, in the order of the source. Members
  that are not modelled (speed and extrusion factors, workplace coordinates, the numbered
  restore points, the trigger items, the code queue and so on) are left out.
\<close>

definition Reset :: "Config \<Rightarrow> Env \<Rightarrow> GCodes \<Rightarrow> GCodes" where
  "Reset cfg env st =
     (let st1 = st\<lparr>gcodeSources := (\<lambda>c. bufferReset env (gcodeSources st c)),
                   axisScaleFactors := (\<lambda>_. 1),
                   g68Angle := 0\<rparr>;
          st2 = ClearMove (st1\<lparr>moveState := (moveState st1)\<lparr>coords := (\<lambda>_. 0)\<rparr>\<rparr>);
          st3 = st2\<lparr>currentBabyStepOffsets := (\<lambda>_. 0)\<rparr>;
          st4 = st3\<lparr>moveState := (moveState st3)\<lparr>currentZHop := 0, tool := None,
                   moveVirtualExtruderPosition := 0, laserPwmOrIoBits := 0\<rparr>\<rparr>;
          st5 = st4\<lparr>moveState := (moveState st4)\<lparr>coords :=
                   GetAssumedInitialPosition env (numVisibleAxes st4) (coords (moveState st4))\<rparr>\<rparr>;
          st6 = st5\<lparr>moveState := (moveState st5)\<lparr>currentUserPosition :=
                   ToolOffsetInverseTransform env st5 (coords (moveState st5))
                     (currentUserPosition (moveState st5))\<rparr>\<rparr>;
          st7 = st6\<lparr>updateUserPositionGb := None,
                   triggersPending := {},
                   simulationMode := simOff,
                   pauseState := notPaused,
                   doingManualBedProbe := False\<rparr>;
          st8 = st7\<lparr>moveState := (moveState st7)\<lparr>moveFilePos := noFilePosition cfg\<rparr>\<rparr>
      in st8\<lparr>resourceOwners := (\<lambda>_. None)\<rparr>)"

definition DoEmergencyStop :: "Config \<Rightarrow> Env \<Rightarrow> GCodes \<Rightarrow> GCodes" where
  "DoEmergencyStop cfg env st = Reset cfg env (st\<lparr>calls := calls st @ [CallEmergencyStop]\<rparr>)"

section \<open>Triggers\<close>

definition IsTriggerBusy :: "GCodes \<Rightarrow> bool" where
  "IsTriggerBusy st = isDoingFile (gcodeSources st (triggerGCode st))"

definition IsReallyPrinting :: "Env \<Rightarrow> GCodes \<Rightarrow> bool" where
  "IsReallyPrinting env st = (printMonitorIsPrinting env \<and> pauseState st = notPaused)"

text \<open>The first loop of \<^verbatim>\<open>CheckTriggers\<close>: one step for trigger number \<open>i\<close>.\<close>

definition detectTrigger :: "Env \<Rightarrow> nat \<Rightarrow> Bitmap \<Rightarrow> Bitmap" where
  "detectTrigger env i pending =
     (if \<not> IsBitSet pending i \<and> triggerCheck env i then SetBit i pending else pending)"

definition detectTriggers :: "Config \<Rightarrow> Env \<Rightarrow> Bitmap \<Rightarrow> Bitmap" where
  "detectTriggers cfg env pending = fold (detectTrigger env) [0..<MaxTriggers cfg] pending"

definition clearTrigger :: "nat \<Rightarrow> GCodes \<Rightarrow> GCodes" where
  "clearTrigger i st = st\<lparr>triggersPending := ClearBit i (triggersPending st)\<rparr>"

definition CheckTriggers :: "Config \<Rightarrow> Env \<Rightarrow> GCodes \<Rightarrow> GCodes" where
  "CheckTriggers cfg env st =
     (let st1 = st\<lparr>triggersPending := detectTriggers cfg env (triggersPending st)\<rparr>
      in if IsNonEmpty (triggersPending st1) then
           (let lowestTriggerPending = LowestSetBit (triggersPending st1)
            in if lowestTriggerPending = 0 then
                 DoEmergencyStop cfg env (clearTrigger lowestTriggerPending st1)
               else if \<not> IsTriggerBusy st1
                       \<and> bufferState (gcodeSources st1 (triggerGCode st1)) = normal then
                 (if lowestTriggerPending = 1 then
                    (if \<not> IsReallyPrinting env st1 then clearTrigger lowestTriggerPending st1
                     else
                       (case LockMovement cfg (triggerGCode st1) st1 of
                          (True, st2) \<Rightarrow>
                            (let st3 = clearTrigger lowestTriggerPending st2
                             in st3\<lparr>calls := calls st3 @
                                  [CallDoPause (triggerGCode st3) pausing1, CallSendAlert]\<rparr>)
                        | (False, st2) \<Rightarrow> st2))
                  else
                    (let st2 = clearTrigger lowestTriggerPending st1
                     in st2\<lparr>calls := calls st2 @
                          [CallDoFileMacro (triggerGCode st2) lowestTriggerPending]\<rparr>))
               else st1)
         else st1)"


section \<open>Committing a move and handing its segments over\<close>

definition SetState :: "Channel \<Rightarrow> GCodeState \<Rightarrow> GCodes \<Rightarrow> GCodes" where
  "SetState gb s st =
     st\<lparr>gcodeSources := (gcodeSources st)(gb := (gcodeSources st gb)\<lparr>bufferState := s\<rparr>)\<rparr>"

text \<open>
  Arithmetic on \<^verbatim>\<open>unsigned int\<close> wraps modulo \<open>2 ^ 32\<close>: decrementing, and the difference
  \<^verbatim>\<open>totalSegments - (unsigned int)fseg\<close>.
\<close>

definition dec32 :: "nat \<Rightarrow> nat" where
  "dec32 n = (n + 4294967295) mod 4294967296"

lemma dec32_less: "0 < n \<Longrightarrow> dec32 n < n"
proof -
  assume "0 < n"
  then obtain k where k: "n = Suc k" by (cases n) auto
  have "Suc k + 4294967295 = k + 4294967296" by simp
  then have "dec32 n = k mod 4294967296"
    unfolding dec32_def k by (simp only: mod_add_self2)
  also have "\<dots> \<le> k" by (rule mod_less_eq_dividend)
  finally show ?thesis using k by simp
qed

definition sub32 :: "nat \<Rightarrow> int \<Rightarrow> nat" where
  "sub32 n k = nat ((int n - k) mod 4294967296)"

text \<open>The loops over the extruders in \<^verbatim>\<open>FinaliseMove\<close> and in \<^verbatim>\<open>ReadMove\<close>.\<close>

definition extrusionPerSegment :: "Config \<Rightarrow> nat \<Rightarrow> nat \<Rightarrow> (nat \<Rightarrow> real) \<Rightarrow> (nat \<Rightarrow> real)" where
  "extrusionPerSegment cfg n segments c =
     fold (\<lambda>extruder c'. c'(ExtruderToLogicalDrive cfg extruder :=
                               c' (ExtruderToLogicalDrive cfg extruder) / real segments))
       [0..<n] c"

definition reduceExtrusion :: "Config \<Rightarrow> nat \<Rightarrow> real \<Rightarrow> (nat \<Rightarrow> real) \<Rightarrow> (nat \<Rightarrow> real)" where
  "reduceExtrusion cfg n skip c =
     fold (\<lambda>extruder c'. c'(ExtruderToLogicalDrive cfg extruder :=
                               c' (ExtruderToLogicalDrive cfg extruder) * (1 - skip)))
       [0..<n] c"

definition FinaliseMove :: "Config \<Rightarrow> Env \<Rightarrow> Channel \<Rightarrow> GCodes \<Rightarrow> GCodes" where
  "FinaliseMove cfg env gb st =
     (let st1 = st\<lparr>moveState := (moveState st)\<lparr>canPauseAfter :=
                   (\<not> checkEndstops (moveState st) \<and> \<not> doingArcMove (moveState st))\<rparr>\<rparr>;
          st2 = st1\<lparr>moveState := (moveState st1)\<lparr>moveFilePos :=
                   (if gb = fileGCode st1 then filePosition (gcodeSources st1 gb)
                    else noFilePosition cfg)\<rparr>\<rparr>;
          st3 = st2\<lparr>gcodeSources := (gcodeSources st2)
                   (gb := bufferMotionCommanded env (gcodeSources st2 gb))\<rparr>
      in if IsCurrentObjectCancelled env then
           (if machineType st3 = laser then st3\<lparr>calls := calls st3 @ [CallSetLaserPwmZero]\<rparr>
            else st3)
         else if totalSegments (moveState st3) > 1 then
           (let st4 = st3\<lparr>moveState := (moveState st3)\<lparr>segMoveState := active\<rparr>\<rparr>;
                st5 = SetState gb waitingForSegmentedMoveToGo st4;
                st6 = st5\<lparr>moveState := (moveState st5)\<lparr>coords :=
                         extrusionPerSegment cfg (numExtruders st5) (totalSegments (moveState st5))
                           (coords (moveState st5))\<rparr>\<rparr>
            in if moveFractionToSkip st6 \<noteq> 0 then
                 (let fseg = \<lfloor>real (totalSegments (moveState st6)) * moveFractionToSkip st6\<rfloor>
                  in NewMoveAvailable
                       (st6\<lparr>segmentsLeftToStartAt := sub32 (totalSegments (moveState st6)) fseg,
                            firstSegmentFractionToSkip :=
                              moveFractionToSkip st6 * real (totalSegments (moveState st6))
                                - real_of_int fseg\<rparr>))
               else
                 NewMoveAvailable
                   (st6\<lparr>segmentsLeftToStartAt := totalSegments (moveState st6),
                        firstSegmentFractionToSkip := moveFractionToSkip st6\<rparr>))
         else
           (let st4 = st3\<lparr>moveState := (moveState st3)\<lparr>segMoveState := inactive\<rparr>\<rparr>
            in NewMoveAvailable
                 (st4\<lparr>segmentsLeftToStartAt := totalSegments (moveState st4),
                      firstSegmentFractionToSkip := moveFractionToSkip st4\<rparr>)))"

text \<open>
  \<^verbatim>\<open>ReadMove\<close>, branch \<^verbatim>\<open>segmentsLeft == 1\<close>: the copy \<open>m\<close> is completed and the move is
  cleared.
\<close>

definition ReadMove_last :: "Config \<Rightarrow> RawMove \<Rightarrow> GCodes \<Rightarrow> RawMove option \<times> GCodes" where
  "ReadMove_last cfg m st =
     (let m1 = (if segmentsLeftToStartAt st = 1 \<and> firstSegmentFractionToSkip st \<noteq> 0
                then m\<lparr>coords := reduceExtrusion cfg (numExtruders st)
                                    (firstSegmentFractionToSkip st) (coords m)\<rparr>
                else m);
          m2 = m1\<lparr>proportionDone := 1\<rparr>;
          m3 = (if doingArcMove (moveState st) then m2\<lparr>canPauseAfter := True\<rparr> else m2)
      in (Some m3, ClearMove st))"

text \<open>
  \<^verbatim>\<open>ReadMove\<close>, other branch, first part: the arc angle advances and the start point of
  the next segment is computed for every visible drive; the same values go into the
  copy's coordinates, returned here as the second component.
\<close>

definition ReadMove_advance :: "Config \<Rightarrow> Env \<Rightarrow> GCodes \<Rightarrow> GCodes \<times> (nat \<Rightarrow> real)" where
  "ReadMove_advance cfg env st =
     (let ms = moveState st;
          ms1 =
            (if doingArcMove ms then
               (let a = ms\<lparr>arcCurrentAngle := arcCurrentAngle ms + arcAngleIncrement ms\<rparr>;
                    b = (if segmentsTillNextFullCalc a = 0 then
                           a\<lparr>segmentsTillNextFullCalc := SegmentsPerFulArcCalculation cfg,
                             currentAngleCosine := cos (arcCurrentAngle a),
                             currentAngleSine := sin (arcCurrentAngle a)\<rparr>
                         else
                           (let newCosine = currentAngleCosine a * angleIncrementCosine a
                                              - currentAngleSine a * angleIncrementSine a;
                                newSine = currentAngleSine a * angleIncrementCosine a
                                            + currentAngleCosine a * angleIncrementSine a
                            in a\<lparr>segmentsTillNextFullCalc := dec32 (segmentsTillNextFullCalc a),
                                 currentAngleCosine := newCosine,
                                 currentAngleSine := newSine\<rparr>))
                in b\<lparr>cosXyAngle := (if xyPlane b then angleIncrementCosine b else 1)\<rparr>)
             else ms);
          axisMap0 = (if doingArcMove ms then GetAxisMapping env (tool ms1) (arcAxis0 ms1) else {});
          axisMap1 = (if doingArcMove ms then GetAxisMapping env (tool ms1) (arcAxis1 ms1) else {});
          newInitial =
            (\<lambda>drive.
               if drive < numVisibleAxes st then
                 (if doingArcMove ms1 \<and> IsBitSet axisMap1 drive then
                    arcCentre ms1 drive
                      + arcRadius ms1 * axisScaleFactors st drive * currentAngleSine ms1
                  else if doingArcMove ms1 \<and> IsBitSet axisMap0 drive then
                    arcCentre ms1 drive
                      + arcRadius ms1 * axisScaleFactors st drive * currentAngleCosine ms1
                  else
                    initialCoords ms1 drive
                      + (coords ms1 drive - initialCoords ms1 drive) / real (segmentsLeft ms1))
               else initialCoords ms1 drive)
      in (st\<lparr>moveState := ms1\<lparr>initialCoords := newInitial\<rparr>\<rparr>,
          (\<lambda>drive. if drive < numVisibleAxes st then newInitial drive else coords ms drive)))"

text \<open>
  \<^verbatim>\<open>ReadMove\<close>, other branch, last part: the limit check on the copy's coordinates, the
  reduction of the extrusion of a partly skipped first segment, the decrement of
  \<^verbatim>\<open>segmentsLeft\<close> and the proportion done.
\<close>

definition ReadMove_deliver ::
  "Config \<Rightarrow> Env \<Rightarrow> RawMove \<Rightarrow> GCodes \<Rightarrow> RawMove option \<times> GCodes" where
  "ReadMove_deliver cfg env m st =
     (case LimitPosition env (coords m) None (numVisibleAxes st) (axesVirtuallyHomed st) True
             (limitAxes st) of
        (lp, limited) \<Rightarrow>
          if lp \<noteq> ok then
            (None, st\<lparr>moveState := (moveState st)\<lparr>segMoveState := aborted,
                        doingArcMove := False, segmentsLeft := 0\<rparr>\<rparr>)
          else
            (let m1 = m\<lparr>coords := limited\<rparr>;
                 m2 = (if segmentsLeftToStartAt st = segmentsLeft (moveState st)
                          \<and> firstSegmentFractionToSkip st \<noteq> 0
                       then m1\<lparr>coords := reduceExtrusion cfg (numExtruders st)
                                            (firstSegmentFractionToSkip st) (coords m1)\<rparr>
                       else m1);
                 st1 = st\<lparr>moveState := (moveState st)\<lparr>segmentsLeft :=
                          dec32 (segmentsLeft (moveState st))\<rparr>\<rparr>
             in (Some (m2\<lparr>proportionDone := GetProportionDone env (moveState st1)\<rparr>), st1)))"

text \<open>
  The loop \<^verbatim>\<open>while (true)\<close> of \<^verbatim>\<open>ReadMove\<close>. It takes another turn only after skipping a
  segment that was already printed, which lowers \<^verbatim>\<open>segmentsLeft\<close>.
\<close>

function ReadMove_loop :: "Config \<Rightarrow> Env \<Rightarrow> GCodes \<Rightarrow> RawMove option \<times> GCodes" where
  "ReadMove_loop cfg env st =
     (let m = RawMove.truncate (moveState st)
      in if segmentsLeft (moveState st) = 1 then ReadMove_last cfg m st
         else
           (let st1 = fst (ReadMove_advance cfg env st);
                m1 = m\<lparr>coords := snd (ReadMove_advance cfg env st)\<rparr>
            in if segmentsLeftToStartAt st1 < segmentsLeft (moveState st1) then
                 ReadMove_loop cfg env
                   (st1\<lparr>moveState := (moveState st1)\<lparr>segmentsLeft :=
                          dec32 (segmentsLeft (moveState st1))\<rparr>\<rparr>)
               else ReadMove_deliver cfg env m1 st1))"
  by pat_completeness auto
termination
proof (relation "measure (\<lambda>(cfg, env, st). segmentsLeft (moveState st))")
  show "wf (measure (\<lambda>(cfg, env, st). segmentsLeft (moveState st)))" by simp
next
  fix cfg :: Config and env :: Env and st :: GCodes and x xa xb
  assume a: "xa = fst (ReadMove_advance cfg env st)"
    and b: "segmentsLeftToStartAt xa < segmentsLeft (moveState xa)"
  have s: "segmentsLeft (moveState xa) = segmentsLeft (moveState st)"
    by (simp add: a ReadMove_advance_def Let_def)
  have "0 < segmentsLeft (moveState st)" using b s by simp
  then have "dec32 (segmentsLeft (moveState st)) < segmentsLeft (moveState st)"
    by (rule dec32_less)
  then show "((cfg, env, xa\<lparr>moveState := (moveState xa)\<lparr>segmentsLeft :=
                   dec32 (segmentsLeft (moveState xa))\<rparr>\<rparr>), cfg, env, st)
             \<in> measure (\<lambda>(cfg, env, st). segmentsLeft (moveState st))"
    using s by simp
qed

definition ReadMove :: "Config \<Rightarrow> Env \<Rightarrow> GCodes \<Rightarrow> RawMove option \<times> GCodes" where
  "ReadMove cfg env st =
     (if segmentsLeft (moveState st) = 0 then (None, st) else ReadMove_loop cfg env st)"

section \<open>Waiting for standstill and travelling to the start point\<close>

definition UpdateCurrentUserPosition :: "Env \<Rightarrow> Channel \<Rightarrow> GCodes \<Rightarrow> GCodes" where
  "UpdateCurrentUserPosition env gb st =
     (let st1 = st\<lparr>moveState := (moveState st)\<lparr>coords :=
                   MoveGetCurrentUserPosition env 0 (currentTool st) (coords (moveState st))\<rparr>\<rparr>;
          st2 = st1\<lparr>moveState := (moveState st1)\<lparr>currentUserPosition :=
                   ToolOffsetInverseTransform env st1 (coords (moveState st1))
                     (currentUserPosition (moveState st1))\<rparr>\<rparr>
      in if g68Angle st2 \<noteq> 0 \<and> DoingCoordinateRotation env gb then
           st2\<lparr>moveState := (moveState st2)\<lparr>currentUserPosition :=
                  RotateCoordinates env (- g68Angle st2) (currentUserPosition (moveState st2))\<rparr>\<rparr>
         else st2)"

definition LockMovementAndWaitForStandstill ::
  "Config \<Rightarrow> Env \<Rightarrow> Channel \<Rightarrow> GCodes \<Rightarrow> bool \<times> GCodes" where
  "LockMovementAndWaitForStandstill cfg env gb st =
     (case LockMovement cfg gb st of
        (False, st1) \<Rightarrow> (False, st1)
      | (True, st1) \<Rightarrow>
          if segmentsLeft (moveState st1) \<noteq> 0 then (False, st1)
          else if \<not> WaitingForAllMovesFinished env then (False, st1)
          else if gb \<noteq> queuedGCode st1 \<and> \<not> IsCodeQueueIdle env then (False, st1)
          else
            (let st2 = st1\<lparr>gcodeSources := (gcodeSources st1)
                          (gb := bufferMotionStopped env (gcodeSources st1 gb))\<rparr>
             in if inMainTask env then (True, UpdateCurrentUserPosition env gb st2)
                else (True, st2\<lparr>updateUserPositionGb := Some gb\<rparr>)))"

definition SetMoveBufferDefaults :: "Env \<Rightarrow> GCodes \<Rightarrow> GCodes" where
  "SetMoveBufferDefaults env st =
     st\<lparr>moveState := SetDefaults env (numTotalAxes st) (moveState st)\<rparr>"

definition TravelToStartPoint :: "Config \<Rightarrow> Env \<Rightarrow> Channel \<Rightarrow> GCodes \<Rightarrow> bool \<times> GCodes" where
  "TravelToStartPoint cfg env gb st =
     (case LockMovementAndWaitForStandstill cfg env gb st of
        (False, st1) \<Rightarrow> (False, st1)
      | (True, st1) \<Rightarrow>
          (let st2 = SetMoveBufferDefaults env st1;
               st3 = st2\<lparr>moveState := (moveState st2)\<lparr>initialCoords :=
                        ToolOffsetTransform st2 (currentUserPosition (moveState st2)) {}
                          (initialCoords (moveState st2))\<rparr>\<rparr>;
               st4 = st3\<lparr>moveState := (moveState st3)\<lparr>coords :=
                        ToolOffsetTransform st3 (rpMoveCoords (GetInitialPosition env)) {}
                          (coords (moveState st3))\<rparr>\<rparr>;
               st5 = st4\<lparr>moveState := (moveState st4)\<lparr>
                        moveFeedRate := rpFeedRate (GetInitialPosition env),
                        tool := currentTool st4,
                        rotationalAxesMentioned := True,
                        linearAxesMentioned := True\<rparr>\<rparr>
           in (True, NewSingleSegmentMoveAvailable st5)))"

section \<open>Arc moves\<close>

text \<open>
  Functions of the C library and small helpers of the firmware's headers, by their
  mathematical meaning: \<^verbatim>\<open>fsquare\<close>, \<^verbatim>\<open>fastSqrtf\<close> (the square root), \<^verbatim>\<open>atan2\<close>,
  \<^verbatim>\<open>constrain\<close> (clamp between a minimum and a maximum), the constants \<^verbatim>\<open>TwoPi\<close> and
  \<^verbatim>\<open>DegreesToRadians\<close>, and the conversion of a non-negative \<^verbatim>\<open>float\<close> to
  \<^verbatim>\<open>unsigned int\<close>, which drops the fraction.
\<close>

definition fsquare :: "real \<Rightarrow> real" where
  "fsquare x = x * x"

definition atan2 :: "real \<Rightarrow> real \<Rightarrow> real" where
  "atan2 y x =
     (if 0 < x then arctan (y / x)
      else if x < 0 \<and> 0 \<le> y then arctan (y / x) + pi
      else if x < 0 \<and> y < 0 then arctan (y / x) - pi
      else if 0 < y then pi / 2
      else if y < 0 then - (pi / 2)
      else 0)"

definition constrain :: "real \<Rightarrow> real \<Rightarrow> real \<Rightarrow> real" where
  "constrain val vmin vmax = max (min val vmax) vmin"

definition TwoPi :: real where
  "TwoPi = 2 * pi"

definition DegreesToRadians :: real where
  "DegreesToRadians = pi / 180"

definition toUnsigned :: "real \<Rightarrow> nat" where
  "toUnsigned x = nat \<lfloor>x\<rfloor>"

text \<open>
  A decoded command: for each parameter letter, absent or the value that the accessor
  used by the code for that letter returns (\<^verbatim>\<open>GetDistance\<close> for axes, R, I, J and K,
  \<^verbatim>\<open>GetFValue\<close> for S, \<^verbatim>\<open>GetIValue\<close> for P). \<^verbatim>\<open>gb.Seen(c)\<close> is \<open>cmd c \<noteq> None\<close>.
\<close>

type_synonym Command = "char \<Rightarrow> real option"

datatype MoveResult = Finished | NotFinished | Failed string

definition GetCurrentToolOffset :: "GCodes \<Rightarrow> nat \<Rightarrow> real" where
  "GetCurrentToolOffset st axis = (case currentTool st of None \<Rightarrow> 0 | Some t \<Rightarrow> toolOffset t axis)"

text \<open>
  The end point of the arc on one axis of the plane: \<open>initialUserC\<close> is the start
  coordinate on that axis.
\<close>

definition arcNewAxisPos ::
  "Env \<Rightarrow> Channel \<Rightarrow> Command \<Rightarrow> GCodes \<Rightarrow> nat \<Rightarrow> real \<Rightarrow> real" where
  "arcNewAxisPos env gb cmd st axis initialUserC =
     (case cmd (axisLetters st axis) of
        Some d \<Rightarrow>
          (if axesRelative (LatestMachineState st gb) then d + initialUserC
           else if g53Active (LatestMachineState st gb) then
             d + GetCurrentToolOffset st axis
           else if \<not> runningSystemMacro (LatestMachineState st gb) then
             d + GetWorkplaceOffset env axis
           else d)
      | None \<Rightarrow> initialUserC)"

text \<open>
  The radius form: from the radius and the chord, the ratio \<open>hDivD\<close> and the centre
  offsets \<open>iParam\<close> and \<open>jParam\<close>, or an error.
\<close>

definition arcFromRadius :: "bool \<Rightarrow> real \<Rightarrow> real \<Rightarrow> real \<Rightarrow> string + (real \<times> real \<times> real)" where
  "arcFromRadius clockwise rParam deltaAxis0 deltaAxis1 =
     (let dSquared = fsquare deltaAxis0 + fsquare deltaAxis1
      in if dSquared = 0 then
           Inl ''G2/G3: distance between start and end points must not be zero when specifying a radius''
         else
           (let hSquared = fsquare rParam - dSquared / 4
            in case (if 0 \<le> hSquared then Inr (sqrt (hSquared / dSquared))
                     else if hSquared < - 0.02 * fsquare rParam then
                       Inl ''G2/G3: radius is too small to reach endpoint''
                     else Inr 0) of
                 Inl e \<Rightarrow> Inl e
               | Inr h \<Rightarrow>
                   (let hDivD = (if (clockwise \<and> rParam < 0) \<or> (\<not> clockwise \<and> 0 < rParam)
                                 then - h else h)
                    in Inr (hDivD,
                            deltaAxis0 / 2 + deltaAxis1 * hDivD,
                            deltaAxis1 / 2 - deltaAxis0 * hDivD))))"

text \<open>The centre offsets, from R or from I, J, K.\<close>

definition arcOffsets ::
  "Command \<Rightarrow> bool \<Rightarrow> nat \<Rightarrow> nat \<Rightarrow> real \<Rightarrow> real \<Rightarrow> string + (real \<times> real)" where
  "arcOffsets cmd clockwise axis0 axis1 deltaAxis0 deltaAxis1 =
     (case cmd CHR ''R'' of
        Some rParam \<Rightarrow>
          (case arcFromRadius clockwise rParam deltaAxis0 deltaAxis1 of
             Inl e \<Rightarrow> Inl e
           | Inr (hDivD, iParam, jParam) \<Rightarrow> Inr (iParam, jParam))
      | None \<Rightarrow>
          (let iParam = (case cmd (char_of (of_char CHR ''I'' + axis0)) of Some d \<Rightarrow> d | None \<Rightarrow> 0);
               jParam = (case cmd (char_of (of_char CHR ''I'' + axis1)) of Some d \<Rightarrow> d | None \<Rightarrow> 0)
           in if iParam = 0 \<and> jParam = 0 then Inl ''G2/G3: no I J K or R parameter''
              else Inr (iParam, jParam)))"

text \<open>The total angle moved.\<close>

definition arcTotalArc :: "bool \<Rightarrow> bool \<Rightarrow> real \<Rightarrow> real \<Rightarrow> real" where
  "arcTotalArc clockwise wholeCircle arcCurrentAngle' finalTheta =
     (if wholeCircle then TwoPi
      else
        (let totalArc = (if clockwise then arcCurrentAngle' - finalTheta
                         else finalTheta - arcCurrentAngle')
         in if totalArc < 0 then totalArc + TwoPi else totalArc))"

definition CheckEnoughAxesHomed :: "Env \<Rightarrow> GCodes \<Rightarrow> Bitmap \<Rightarrow> bool" where
  "CheckEnoughAxesHomed env st axesMoved =
     IsNonEmpty (MustBeHomedAxes env axesMoved (noMovesBeforeHoming st) - axesVirtuallyHomed st)"

definition Intersects :: "Bitmap \<Rightarrow> Bitmap \<Rightarrow> bool" where
  "Intersects a b = (a \<inter> b \<noteq> {})"

text \<open>The members assigned by \<^verbatim>\<open>LoadExtrusionAndFeedrateFromGCode\<close>.\<close>

definition applyExtrusionEffect :: "ExtrusionEffect \<Rightarrow> Channel \<Rightarrow> GCodes \<Rightarrow> GCodes" where
  "applyExtrusionEffect le gb st =
     (let st1 = updLatest gb (\<lambda>ms. ms\<lparr>feedRate := leChannelFeedRate le\<rparr>) st
      in st1\<lparr>moveState := (moveState st1)\<lparr>
               applyM220M221 := leApplyM220M221 le,
               moveFeedRate := leMoveFeedRate le,
               coords := (\<lambda>drive. if numTotalAxes st1 \<le> drive then leExtruderCoords le drive
                                  else coords (moveState st1) drive),
               hasPositiveExtrusion := leHasPositiveExtrusion le,
               moveVirtualExtruderPosition := virtualExtruderPosition st1\<rparr>,
             virtualExtruderPosition := leVirtualExtruderPosition le\<rparr>)"

text \<open>
  \<^verbatim>\<open>DoArcMove\<close> is embedded in three parts, in the order of the source. The first part
  records the start point in \<^verbatim>\<open>initialUserC0\<close> and \<^verbatim>\<open>initialUserC1\<close> and reads the end
  point in the selected plane (\<open>DoArcMove_endpoints\<close>), then obtains the centre offsets.
  It yields the state and either an error message or the two axes of the plane, the end
  point and the offsets. The selected plane is 0, 1 or 2.
\<close>

definition DoArcMove_endpoints ::
  "Env \<Rightarrow> Channel \<Rightarrow> Command \<Rightarrow> GCodes \<Rightarrow> GCodes \<times> nat \<times> nat \<times> real \<times> real" where
  "DoArcMove_endpoints env gb cmd st =
     (let plane = selectedPlane (LatestMachineState st gb);
          axis0 = [X_AXIS, Z_AXIS, Y_AXIS] ! plane;
          axis1 = (axis0 + 1) mod 3;
          ms = moveState st;
          st1 = (if 0 < moveFractionToSkip st then
                   st\<lparr>moveState := ms\<lparr>initialUserC0 := restartInitialUserC0 st,
                                       initialUserC1 := restartInitialUserC1 st\<rparr>\<rparr>
                 else
                   st\<lparr>moveState := ms\<lparr>initialUserC0 := currentUserPosition ms axis0,
                                       initialUserC1 := currentUserPosition ms axis1\<rparr>\<rparr>);
          newAxisPos0 = arcNewAxisPos env gb cmd st1 axis0 (initialUserC0 (moveState st1));
          newAxisPos1 = arcNewAxisPos env gb cmd st1 axis1 (initialUserC1 (moveState st1))
      in (st1, axis0, axis1, newAxisPos0, newAxisPos1))"

definition DoArcMove_begin ::
  "Env \<Rightarrow> Channel \<Rightarrow> Command \<Rightarrow> bool \<Rightarrow> GCodes \<Rightarrow>
     GCodes \<times> (string + (nat \<times> nat \<times> real \<times> real \<times> real \<times> real))" where
  "DoArcMove_begin env gb cmd clockwise st =
     (case DoArcMove_endpoints env gb cmd st of
        (st1, axis0, axis1, newAxisPos0, newAxisPos1) \<Rightarrow>
          (st1,
           case arcOffsets cmd clockwise axis0 axis1
                  (newAxisPos0 - initialUserC0 (moveState st1))
                  (newAxisPos1 - initialUserC1 (moveState st1)) of
             Inl e \<Rightarrow> Inl e
           | Inr (iParam, jParam) \<Rightarrow> Inr (axis0, axis1, newAxisPos0, newAxisPos1, iParam, jParam)))"

text \<open>The loop over the additional axes: one step, for \<open>axis\<close>.\<close>

definition arcOtherAxis ::
  "Env \<Rightarrow> Channel \<Rightarrow> Command \<Rightarrow> GCodes \<Rightarrow> nat \<Rightarrow> nat \<Rightarrow> nat \<Rightarrow>
     (nat \<Rightarrow> real) \<times> Bitmap \<Rightarrow> (nat \<Rightarrow> real) \<times> Bitmap" where
  "arcOtherAxis env gb cmd st axis0 axis1 axis acc =
     (case acc of (userPosition, axesMentioned) \<Rightarrow>
        (if axis \<noteq> axis0 \<and> axis \<noteq> axis1 then
           (case cmd (axisLetters st axis) of
              Some moveArg \<Rightarrow>
                ((if axesRelative (LatestMachineState st gb) then
                    userPosition(axis := userPosition axis + moveArg * (1 - moveFractionToSkip st))
                  else if g53Active (LatestMachineState st gb) then
                    userPosition(axis := moveArg + GetCurrentToolOffset st axis)
                  else if runningSystemMacro (LatestMachineState st gb) then
                    userPosition(axis := moveArg)
                  else userPosition(axis := moveArg + GetWorkplaceOffset env axis)),
                 SetBit axis axesMentioned)
            | None \<Rightarrow> acc)
         else acc))"

text \<open>
  The values that the second part hands to the third: the axes of the plane, the arc
  centre in user coordinates, the final angle, whether the arc is a whole circle, and
  the axes mentioned.
\<close>

record ArcLocals =
  alAxis0 :: nat
  alAxis1 :: nat
  alUserArcCentre0 :: real
  alUserArcCentre1 :: real
  alFinalTheta :: real
  alWholeCircle :: bool
  alAxesMentioned :: Bitmap

text \<open>
  The second part: the new user position, the homing check, the angles and the radius,
  the transform to machine coordinates and the limit check.
\<close>

definition DoArcMove_geometry ::
  "Env \<Rightarrow> Channel \<Rightarrow> Command \<Rightarrow> nat \<Rightarrow> nat \<Rightarrow> real \<Rightarrow> real \<Rightarrow> real \<Rightarrow> real \<Rightarrow>
     GCodes \<Rightarrow> GCodes \<times> (string + ArcLocals)" where
  "DoArcMove_geometry env gb cmd axis0 axis1 newAxisPos0 newAxisPos1 iParam jParam st =
     (let st1 = st\<lparr>moveState := (moveState st)\<lparr>initialCoords :=
                   (\<lambda>i. if i < numVisibleAxes st then coords (moveState st) i
                         else initialCoords (moveState st) i)\<rparr>\<rparr>;
          userArcCentre0 = initialUserC0 (moveState st1) + iParam;
          userArcCentre1 = initialUserC1 (moveState st1) + jParam;
          st2 = st1\<lparr>moveState := (moveState st1)\<lparr>currentUserPosition :=
                   (currentUserPosition (moveState st1))(axis0 := newAxisPos0)\<rparr>\<rparr>;
          st3 = st2\<lparr>moveState := (moveState st2)\<lparr>currentUserPosition :=
                   (currentUserPosition (moveState st2))(axis1 := newAxisPos1)\<rparr>\<rparr>;
          wholeCircle = (initialUserC0 (moveState st3) = currentUserPosition (moveState st3) axis0
                         \<and> initialUserC1 (moveState st3) = currentUserPosition (moveState st3) axis1);
          others = fold (arcOtherAxis env gb cmd st3 axis0 axis1) [0..<numVisibleAxes st3]
                     (currentUserPosition (moveState st3), SetBit axis1 (SetBit axis0 {}));
          axesMentioned = snd others;
          st4 = st3\<lparr>moveState := (moveState st3)\<lparr>currentUserPosition := fst others\<rparr>\<rparr>
      in if CheckEnoughAxesHomed env st4 axesMentioned then
           (st4, Inl ''G2/G3: insufficient axes homed'')
         else
           (let finalTheta = atan2 (currentUserPosition (moveState st4) axis1 - userArcCentre1)
                                   (currentUserPosition (moveState st4) axis0 - userArcCentre0);
                st5 = st4\<lparr>moveState := (moveState st4)\<lparr>
                         arcRadius := sqrt (iParam * iParam + jParam * jParam),
                         arcCurrentAngle := atan2 (- jParam) (- iParam)\<rparr>\<rparr>;
                rotating = (g68Angle st5 \<noteq> 0 \<and> DoingCoordinateRotation env gb);
                st6 = (if rotating then
                         st5\<lparr>moveState := (moveState st5)\<lparr>
                                coords := ToolOffsetTransform st5
                                   (RotateCoordinates env (g68Angle st5)
                                      (currentUserPosition (moveState st5)))
                                   axesMentioned (coords (moveState st5)),
                                arcCurrentAngle := arcCurrentAngle (moveState st5)
                                   - g68Angle st5 * DegreesToRadians\<rparr>\<rparr>
                       else
                         st5\<lparr>moveState := (moveState st5)\<lparr>
                                coords := ToolOffsetTransform st5
                                   (currentUserPosition (moveState st5))
                                   axesMentioned (coords (moveState st5))\<rparr>\<rparr>);
                rotatedCentre = RotateCoordinates env (g68Angle st5)
                                  (\<lambda>i. if i = 0 then userArcCentre0 else userArcCentre1);
                locals = \<lparr>alAxis0 = axis0, alAxis1 = axis1,
                           alUserArcCentre0 = (if rotating then rotatedCentre 0 else userArcCentre0),
                           alUserArcCentre1 = (if rotating then rotatedCentre 1 else userArcCentre1),
                           alFinalTheta = (if rotating then finalTheta - g68Angle st5 * DegreesToRadians
                                           else finalTheta),
                           alWholeCircle = wholeCircle,
                           alAxesMentioned = axesMentioned\<rparr>
            in case LimitPosition env (coords (moveState st6)) None (numVisibleAxes st6)
                      (axesVirtuallyHomed st6) True (limitAxes st6) of
                 (lp, limited) \<Rightarrow>
                   (let st7 = st6\<lparr>moveState := (moveState st6)\<lparr>coords := limited\<rparr>\<rparr>
                    in if lp \<noteq> ok then (st7, Inl ''G2/G3: outside machine limits'')
                       else (st7, Inr locals))))"

text \<open>The laser power or the I/O bits of an arc move.\<close>

definition arcLaserOrIoBits :: "Env \<Rightarrow> Command \<Rightarrow> GCodes \<Rightarrow> GCodes" where
  "arcLaserOrIoBits env cmd st =
     (if machineType st = laser then
        (case cmd CHR ''S'' of
           Some v \<Rightarrow> st\<lparr>moveState := (moveState st)\<lparr>laserPwmOrIoBits := ConvertLaserPwm env v\<rparr>\<rparr>
         | None \<Rightarrow>
             if laserPowerSticky st then st
             else st\<lparr>moveState := (moveState st)\<lparr>laserPwmOrIoBits := 0\<rparr>\<rparr>)
      else
        (case cmd CHR ''P'' of
           Some v \<Rightarrow> st\<lparr>moveState := (moveState st)\<lparr>laserPwmOrIoBits :=
                        nat (\<lfloor>v\<rfloor> mod 65536)\<rparr>\<rparr>
         | None \<Rightarrow> st))"

text \<open>The number of segments and the angle increment, then the commit.\<close>

definition DoArcMove_segments ::
  "Config \<Rightarrow> Env \<Rightarrow> Channel \<Rightarrow> bool \<Rightarrow> ArcLocals \<Rightarrow> nat \<Rightarrow> GCodes \<Rightarrow> GCodes" where
  "DoArcMove_segments cfg env gb clockwise al plane st =
     (let totalArc = arcTotalArc clockwise (alWholeCircle al)
                       (arcCurrentAngle (moveState st)) (alFinalTheta al);
          arcSegmentLength =
            constrain
              (min (sqrt (8 * arcRadius (moveState st) * MaxArcDeviation cfg))
                   (moveFeedRate (moveState st) * StepClockRate cfg * (1 / MinArcSegmentsPerSec cfg)))
              (MinArcSegmentLength cfg) (MaxArcSegmentLength cfg);
          st1 = st\<lparr>moveState := (moveState st)\<lparr>totalSegments :=
                   max (toUnsigned (arcRadius (moveState st) * totalArc / arcSegmentLength + 0.8)) 1\<rparr>\<rparr>;
          st2 = st1\<lparr>moveState := (moveState st1)\<lparr>arcAngleIncrement :=
                   totalArc / real (totalSegments (moveState st1))\<rparr>\<rparr>;
          st3 = (if clockwise then
                   st2\<lparr>moveState := (moveState st2)\<lparr>arcAngleIncrement :=
                          - arcAngleIncrement (moveState st2)\<rparr>\<rparr>
                 else st2);
          st4 = st3\<lparr>moveState := (moveState st3)\<lparr>
                   angleIncrementSine := sin (arcAngleIncrement (moveState st3)),
                   angleIncrementCosine := cos (arcAngleIncrement (moveState st3)),
                   segmentsTillNextFullCalc := 0,
                   arcAxis0 := alAxis0 al,
                   arcAxis1 := alAxis1 al,
                   doingArcMove := True,
                   xyPlane := (plane = 0),
                   linearAxesMentioned := Intersects (alAxesMentioned al) (linearAxes env),
                   rotationalAxesMentioned := Intersects (alAxesMentioned al) (rotationalAxes env)\<rparr>\<rparr>
      in UnlockAll cfg gb (FinaliseMove cfg env gb st4))"

text \<open>
  The third part: default move parameters, the arc centre in machine coordinates,
  extrusion and feed rate, the first move after resuming, laser power or I/O bits, and
  the segments.
\<close>

definition DoArcMove_commit ::
  "Config \<Rightarrow> Env \<Rightarrow> Channel \<Rightarrow> Command \<Rightarrow> bool \<Rightarrow> ArcLocals \<Rightarrow> GCodes \<Rightarrow>
     MoveResult \<times> GCodes" where
  "DoArcMove_commit cfg env gb cmd clockwise al st =
     (let plane = selectedPlane (LatestMachineState st gb);
          st1 = st\<lparr>moveState := (moveState st)\<lparr>checkEndstops := False,
                   reduceAcceleration := False, moveType := 0, tool := currentTool st,
                   isCoordinated := True\<rparr>\<rparr>;
          axis0Mapping = GetCurrentAxisMapping env (alAxis0 al);
          axis1Mapping = GetCurrentAxisMapping env (alAxis1 al);
          st2 = st1\<lparr>moveState := (moveState st1)\<lparr>arcCentre :=
                   (\<lambda>axis.
                      if axis < numVisibleAxes st1 \<and> IsBitSet axis0Mapping axis then
                        alUserArcCentre0 al * axisScaleFactors st1 axis
                          + currentBabyStepOffsets st1 axis
                          - ToolGetOffset env (currentTool st1) axis
                      else if axis < numVisibleAxes st1 \<and> IsBitSet axis1Mapping axis then
                        alUserArcCentre1 al * axisScaleFactors st1 axis
                          + currentBabyStepOffsets st1 axis
                          - ToolGetOffset env (currentTool st1) axis
                      else arcCentre (moveState st1) axis)\<rparr>\<rparr>;
          le = LoadExtrusionAndFeedrateFromGCode env st2 gb True;
          st3 = applyExtrusionEffect le gb st2
      in case leError le of
           Some e \<Rightarrow> (Failed e, st3)
         | None \<Rightarrow>
             if IsFirstMoveSincePrintingResumed env \<and> hasPositiveExtrusion (moveState st3) then
               (case TravelToStartPoint cfg env gb st3 of
                  (True, st4) \<Rightarrow>
                    (NotFinished, st4\<lparr>calls := calls st4 @ [CallDoneMoveSincePrintingResumed]\<rparr>)
                | (False, st4) \<Rightarrow> (NotFinished, st4))
             else
               (let st4 = (if IsFirstMoveSincePrintingResumed env
                           then st3\<lparr>calls := calls st3 @ [CallDoneMoveSincePrintingResumed]\<rparr>
                           else st3);
                    st5 = arcLaserOrIoBits env cmd st4;
                    st6 = st5\<lparr>moveState := (moveState st5)\<lparr>usePressureAdvance :=
                             hasPositiveExtrusion (moveState st5)\<rparr>\<rparr>
                in (Finished, DoArcMove_segments cfg env gb clockwise al plane st6)))"

definition DoArcMove ::
  "Config \<Rightarrow> Env \<Rightarrow> Channel \<Rightarrow> Command \<Rightarrow> bool \<Rightarrow> GCodes \<Rightarrow> MoveResult \<times> GCodes" where
  "DoArcMove cfg env gb cmd clockwise st =
     (case DoArcMove_begin env gb cmd clockwise st of
        (st1, Inl e) \<Rightarrow> (Failed e, st1)
      | (st1, Inr (axis0, axis1, newAxisPos0, newAxisPos1, iParam, jParam)) \<Rightarrow>
          (case DoArcMove_geometry env gb cmd axis0 axis1 newAxisPos0 newAxisPos1 iParam jParam st1 of
             (st2, Inl e) \<Rightarrow> (Failed e, st2)
           | (st2, Inr al) \<Rightarrow> DoArcMove_commit cfg env gb cmd clockwise al st2))"

section \<open>Straight moves\<close>

text \<open>
  \<^verbatim>\<open>lrintf\<close> of the C library rounds to the nearest integer, halfway cases to the even
  neighbour (the default rounding mode).
\<close>

definition lrintf :: "real \<Rightarrow> int" where
  "lrintf x =
     (let f = \<lfloor>x\<rfloor>; d = x - of_int f
      in if d < 1 / 2 then f
         else if 1 / 2 < d then f + 1
         else if even f then f else f + 1)"

text \<open>
  \<^verbatim>\<open>DoStraightMove\<close> is embedded from the comment ``Set up the move'' to its end. What
  precedes in the source parses the command and delivers the move type, feed rate,
  extrusion and user position in \<^verbatim>\<open>moveState\<close>, the set \<^verbatim>\<open>axesMentioned\<close> and the copy
  \<^verbatim>\<open>initialUserPosition\<close> of the user position before the move; the last two are
  arguments here.

  The position limit check with its two tries: it yields the state, or an error message
  with the state reached.
\<close>

definition DoStraightMove_limits ::
  "Env \<Rightarrow> Bitmap \<Rightarrow> GCodes \<Rightarrow> (string \<times> GCodes) + GCodes" where
  "DoStraightMove_limits env effectiveAxesHomed st =
     (case LimitPosition env (coords (moveState st)) (Some (initialCoords (moveState st)))
             (numVisibleAxes st) effectiveAxesHomed (isCoordinated (moveState st)) (limitAxes st) of
        (lp, limited) \<Rightarrow>
          (let st1 = st\<lparr>moveState := (moveState st)\<lparr>coords := limited\<rparr>\<rparr>
           in if lp = ok then Inr st1
              else if (lp = adjusted \<or> lp = adjustedAndIntermediateUnreachable)
                      \<and> machineType st1 \<noteq> fff then
                Inl (''G0/G1: target position outside machine limits'', st1)
              else
                (let st2 = (if lp = adjusted \<or> lp = adjustedAndIntermediateUnreachable then
                              st1\<lparr>moveState := (moveState st1)\<lparr>currentUserPosition :=
                                     ToolOffsetInverseTransform env st1 (coords (moveState st1))
                                       (currentUserPosition (moveState st1))\<rparr>\<rparr>
                            else st1)
                 in if lp = adjusted then Inr st2
                    else if isCoordinated (moveState st2)
                            \<and> ((machineType st2 = fff \<and> \<not> hasPositiveExtrusion (moveState st2))
                                \<or> (machineType st2 = laser \<and> laserPwmOrIoBits (moveState st2) = 0))
                    then
                      (case LimitPosition env (coords (moveState st2))
                              (Some (initialCoords (moveState st2))) (numVisibleAxes st2)
                              effectiveAxesHomed False (limitAxes st2) of
                         (lp2, limited2) \<Rightarrow>
                           (let st3 = st2\<lparr>moveState := (moveState st2)\<lparr>coords := limited2\<rparr>\<rparr>
                            in if lp2 = ok then
                                 Inr (st3\<lparr>moveState := (moveState st3)\<lparr>isCoordinated := False\<rparr>\<rparr>)
                               else Inl (''G0/G1: target position not reachable from current position'',
                                         st3)))
                    else Inl (''G0/G1: target position not reachable from current position'', st2))))"

text \<open>
  Division, multiplication and \<^verbatim>\<open>min<float>\<close> where the move time is computed. The
  dividend and the divisor are numbers; a zero divisor gives an infinity with the sign of
  the dividend, and NaN when the dividend is zero too. The reals have one zero: it
  stands for the positive zero of \<^verbatim>\<open>float\<close>. An infinity times zero is NaN.
  \<^verbatim>\<open>min<float>(a, b)\<close> is \<^verbatim>\<open>a\<close> when \<^verbatim>\<open>a < b\<close> and \<^verbatim>\<open>b\<close> otherwise, and a comparison with
  NaN is false. The C standard leaves the result of \<^verbatim>\<open>lrintf\<close> at an infinity or NaN
  unspecified: it is what the C library of the environment returns.
\<close>

definition divide_float :: "real \<Rightarrow> real \<Rightarrow> Float" where
  "divide_float x y =
     (if y \<noteq> 0 then Finite (x / y)
      else if 0 < x then PlusInfinity
      else if x < 0 then MinusInfinity
      else NaN)"

fun times_float :: "Float \<Rightarrow> real \<Rightarrow> Float" where
  "times_float (Finite x) y = Finite (x * y)"
| "times_float PlusInfinity y =
     (if 0 < y then PlusInfinity else if y < 0 then MinusInfinity else NaN)"
| "times_float MinusInfinity y =
     (if 0 < y then MinusInfinity else if y < 0 then PlusInfinity else NaN)"
| "times_float NaN y = NaN"

fun min_float :: "real \<Rightarrow> Float \<Rightarrow> Float" where
  "min_float a (Finite b) = Finite (if a < b then a else b)"
| "min_float a PlusInfinity = Finite a"
| "min_float a MinusInfinity = MinusInfinity"
| "min_float a NaN = NaN"

fun lrintf_float :: "Env \<Rightarrow> Float \<Rightarrow> int" where
  "lrintf_float env (Finite x) = lrintf x"
| "lrintf_float env PlusInfinity = lrintfNonFinite env PlusInfinity"
| "lrintf_float env MinusInfinity = lrintfNonFinite env MinusInfinity"
| "lrintf_float env NaN = lrintfNonFinite env NaN"

text \<open>The number of segments of a straight move on the axes mentioned.\<close>

definition straightSegments :: "Config \<Rightarrow> Env \<Rightarrow> (nat \<Rightarrow> real) \<Rightarrow> GCodes \<Rightarrow> nat" where
  "straightSegments cfg env initialUserPosition st =
     (let ms = moveState st;
          kinematic =
            (if useSegmentation env \<and> simulationMode st \<noteq> simNormal
                \<and> (hasPositiveExtrusion ms \<or> isCoordinated ms \<or> useG0Segmentation env) then
               (let xy = fsquare (currentUserPosition ms X_AXIS - initialUserPosition X_AXIS)
                           + fsquare (currentUserPosition ms Y_AXIS - initialUserPosition Y_AXIS);
                    moveLengthSquared =
                      (if useZSegmentation env
                       then xy + fsquare (currentUserPosition ms Z_AXIS - initialUserPosition Z_AXIS)
                       else xy);
                    moveLength = sqrt moveLengthSquared;
                    moveTime = divide_float moveLength (moveFeedRate ms * StepClockRate cfg)
                in nat (max 1 (lrintf_float env
                                 (min_float (moveLength * GetReciprocalMinSegmentLength env)
                                            (times_float moveTime (GetSegmentsPerSecond env))))))
             else 1)
      in if IsUsingMesh env \<and> (isCoordinated ms \<or> machineType st = fff) then
           (let minMeshSegments =
                  max 1 (GetMinimumSegments env
                           (currentUserPosition ms (GridAxisNumber env 0)
                              - initialUserPosition (GridAxisNumber env 0))
                           (currentUserPosition ms (GridAxisNumber env 1)
                              - initialUserPosition (GridAxisNumber env 1)))
            in if kinematic < minMeshSegments then minMeshSegments else kinematic)
         else kinematic)"

text \<open>The end of \<^verbatim>\<open>DoStraightMove\<close>, common to all three branches.\<close>

definition DoStraightMove_finish ::
  "Config \<Rightarrow> Env \<Rightarrow> Channel \<Rightarrow> Bitmap \<Rightarrow> GCodes \<Rightarrow> GCodes" where
  "DoStraightMove_finish cfg env gb axesMentioned st =
     (let st1 = st\<lparr>moveState := (moveState st)\<lparr>doingArcMove := False,
                   linearAxesMentioned := Intersects axesMentioned (linearAxes env),
                   rotationalAxesMentioned := Intersects axesMentioned (rotationalAxes env)\<rparr>\<rparr>
      in UnlockAll cfg gb (FinaliseMove cfg env gb st1))"

definition DoStraightMove_setup ::
  "Config \<Rightarrow> Env \<Rightarrow> Channel \<Rightarrow> Bitmap \<Rightarrow> (nat \<Rightarrow> real) \<Rightarrow> GCodes \<Rightarrow> MoveResult \<times> GCodes" where
  "DoStraightMove_setup cfg env gb axesMentioned initialUserPosition st =
     (if moveType (moveState st) \<noteq> 0 then
        (let st1 = st\<lparr>moveState := (moveState st)\<lparr>totalSegments := 1\<rparr>\<rparr>;
             st2 = SetState gb waitingForSpecialMoveToComplete st1
         in (Finished, DoStraightMove_finish cfg env gb axesMentioned st2))
      else if IsEmpty axesMentioned then
        (let st1 = st\<lparr>moveState := (moveState st)\<lparr>totalSegments := 1\<rparr>\<rparr>
         in (Finished, DoStraightMove_finish cfg env gb axesMentioned st1))
      else
        (let st1 = (if g68Angle st \<noteq> 0 \<and> DoingCoordinateRotation env gb then
                      st\<lparr>moveState := (moveState st)\<lparr>coords :=
                            ToolOffsetTransform st
                              (RotateCoordinates env (g68Angle st) (currentUserPosition (moveState st)))
                              axesMentioned (coords (moveState st))\<rparr>\<rparr>
                    else
                      st\<lparr>moveState := (moveState st)\<lparr>coords :=
                            ToolOffsetTransform st (currentUserPosition (moveState st))
                              axesMentioned (coords (moveState st))\<rparr>\<rparr>);
             effectiveAxesHomed = (if doingManualBedProbe st1
                                   then ClearBit Z_AXIS (axesVirtuallyHomed st1)
                                   else axesVirtuallyHomed st1)
         in case DoStraightMove_limits env effectiveAxesHomed st1 of
              Inl (e, st2) \<Rightarrow> (Failed e, st2)
            | Inr st2 \<Rightarrow>
                (let st3 = (if compatibilityNanoDLP env gb \<and> \<not> DoingFileMacro env
                            then SetState gb waitingForSpecialMoveToComplete st2 else st2);
                     st4 = st3\<lparr>moveState := (moveState st3)\<lparr>usePressureAdvance :=
                              (hasPositiveExtrusion (moveState st3)
                               \<and> IsNonEmpty (ClearBit Z_AXIS axesMentioned))\<rparr>\<rparr>;
                     st5 = st4\<lparr>moveState := (moveState st4)\<lparr>totalSegments :=
                              straightSegments cfg env initialUserPosition st4\<rparr>\<rparr>
                 in (Finished, DoStraightMove_finish cfg env gb axesMentioned st5))))"

text \<open>
  The length that the segmentation of a straight move uses: that of the displacement of
  the user position in X and Y, and in Z as well when the kinematics segments in Z. No
  other axis counts.
\<close>

definition straightMoveLength :: "Env \<Rightarrow> (nat \<Rightarrow> real) \<Rightarrow> MovementState \<Rightarrow> real" where
  "straightMoveLength env initialUserPosition ms =
     sqrt (fsquare (currentUserPosition ms X_AXIS - initialUserPosition X_AXIS)
           + fsquare (currentUserPosition ms Y_AXIS - initialUserPosition Y_AXIS)
           + (if useZSegmentation env
              then fsquare (currentUserPosition ms Z_AXIS - initialUserPosition Z_AXIS)
              else 0))"

section \<open>Example states, commands and environments\<close>

text \<open>
  Concrete values on which the operations are evaluated: an idle machine with three axes
  and no tool, an environment in which every collaborator agrees, and variations of
  them.
\<close>

definition idleFrame :: GCodeMachineState where
  "idleFrame = \<lparr>lockedResources = {}, feedRate = 50, selectedPlane = 0, axesRelative = False,
     g53Active = False, runningSystemMacro = False\<rparr>"

definition idleBuffer :: GCodeBuffer where
  "idleBuffer = \<lparr>machineState = idleFrame, previousStates = [], bufferState = normal,
     isDoingFile = False, filePosition = 0\<rparr>"

definition idleMove :: MovementState where
  "idleMove = \<lparr>coords = (\<lambda>_. 0), initialUserC0 = 0, initialUserC1 = 0, moveFeedRate = 50,
     moveVirtualExtruderPosition = 0, moveFilePos = 0, proportionDone = 0, cosXyAngle = 1,
     tool = None, moveType = 0, applyM220M221 = False, usePressureAdvance = False,
     canPauseAfter = True, hasPositiveExtrusion = False, isCoordinated = False,
     checkEndstops = False, reduceAcceleration = False, linearAxesMentioned = False,
     rotationalAxesMentioned = False, laserPwmOrIoBits = 0,
     currentUserPosition = (\<lambda>_. 0), initialCoords = (\<lambda>_. 0), currentZHop = 0,
     totalSegments = 0,
     segmentsLeft = 0, arcCentre = (\<lambda>_. 0), arcRadius = 0, arcCurrentAngle = 0,
     currentAngleSine = 0, currentAngleCosine = 1, arcAngleIncrement = 0,
     angleIncrementSine = 0, angleIncrementCosine = 1, segmentsTillNextFullCalc = 0,
     arcAxis0 = 0, arcAxis1 = 1, doingArcMove = False, xyPlane = True,
     segMoveState = inactive\<rparr>"

definition idleGCodes :: GCodes where
  "idleGCodes = \<lparr>resourceOwners = (\<lambda>_. None), gcodeSources = (\<lambda>_. idleBuffer),
     toBeHomed = {}, triggersPending = {}, triggerGCode = 6, fileGCode = 0, queuedGCode = 7,
     moveState = idleMove, segmentsLeftToStartAt = 0, firstSegmentFractionToSkip = 0,
     moveFractionToSkip = 0, restartInitialUserC0 = 0, restartInitialUserC1 = 0,
     numVisibleAxes = 3, numTotalAxes = 3,
     axisLetters = (\<lambda>axis. ''XYZUVWABCD'' ! axis), numExtruders = 1, axisScaleFactors = (\<lambda>_. 1),
     currentBabyStepOffsets = (\<lambda>_. 0), virtualExtruderPosition = 0,
     lastDefaultFanSpeed = 0, machineType = fff, pauseState = notPaused,
     simulationMode = simOff, axesVirtuallyHomed = {0, 1, 2}, noMovesBeforeHoming = False,
     limitAxes = True, g68Angle = 0, doingManualBedProbe = False, laserPowerSticky = False,
     updateUserPositionGb = None, currentTool = None, currentToolNumber = 0, calls = []\<rparr>"

definition duetConfig :: Config where
  "duetConfig = \<lparr>NumResources = 4, MoveResource = 0, MaxTriggers = 32,
     noFilePosition = 4294967295, ExtruderToLogicalDrive = (\<lambda>e. 31 - e),
     StepClockRate = 750000, MaxArcDeviation = 1 / 20, MinArcSegmentsPerSec = 50,
     MinArcSegmentLength = 1 / 10, MaxArcSegmentLength = 2,
     SegmentsPerFulArcCalculation = 8\<rparr>"

definition idleRestorePoint :: RestorePoint where
  "idleRestorePoint = \<lparr>rpMoveCoords = (\<lambda>_. 0), rpFeedRate = 0, rpVirtualExtruderPosition = 0,
     rpFilePos = 0, rpToolNumber = -1, rpFanSpeed = 0, rpInitialUserC0 = 0,
     rpInitialUserC1 = 0, rpLaserPwmOrIoBits = 0\<rparr>"

definition idleEnv :: Env where
  "idleEnv = \<lparr>triggerCheck = (\<lambda>_. False), printMonitorIsPrinting = True,
     bufferReset = (\<lambda>_. idleBuffer), bufferMotionCommanded = (\<lambda>b. b),
     bufferMotionStopped = (\<lambda>b. b), GetAssumedInitialPosition = (\<lambda>_ c. c),
     MoveGetCurrentUserPosition = (\<lambda>_ _ c. c),
     LimitPosition = (\<lambda>c _ _ _ _ _. (ok, c)),
     GetAxisMapping = (\<lambda>_ axis. {axis}), GetCurrentAxisMapping = (\<lambda>axis. {axis}),
     GetCurrentXAxes = {0}, GetCurrentYAxes = {1}, ToolGetOffset = (\<lambda>_ _. 0),
     GetProportionDone = (\<lambda>ms. real (totalSegments ms - segmentsLeft ms) / real (totalSegments ms)),
     SetDefaults = (\<lambda>_ ms. ms),
     GetWorkplaceOffset = (\<lambda>_. 0), MustBeHomedAxes = (\<lambda>_ _. {}),
     RotateCoordinates = (\<lambda>_ c. c), DoingCoordinateRotation = (\<lambda>_. False),
     LoadExtrusionAndFeedrateFromGCode = (\<lambda>st gb _.
        \<lparr>leError = None, leApplyM220M221 = False,
         leMoveFeedRate = feedRate (machineState (gcodeSources st gb)),
         leChannelFeedRate = feedRate (machineState (gcodeSources st gb)),
         leExtruderCoords = (\<lambda>_. 0), leHasPositiveExtrusion = False,
         leVirtualExtruderPosition = virtualExtruderPosition st\<rparr>),
     ConvertLaserPwm = (\<lambda>_. 0),
     IsFirstMoveSincePrintingResumed = False, IsCurrentObjectCancelled = False,
     GetInitialPosition = idleRestorePoint, WaitingForAllMovesFinished = True,
     IsCodeQueueIdle = True, inMainTask = True, linearAxes = {0, 1, 2},
     rotationalAxes = {}, useSegmentation = False, useZSegmentation = False,
     useG0Segmentation = False, GetReciprocalMinSegmentLength = 1 / 4,
     GetSegmentsPerSecond = 100, IsUsingMesh = False, GetMinimumSegments = (\<lambda>_ _. 1),
     GridAxisNumber = (\<lambda>i. i), compatibilityNanoDLP = (\<lambda>_. False),
     DoingFileMacro = False, lrintfNonFinite = (\<lambda>_. 0)\<rparr>"

definition macroState :: GCodes where
  "macroState =
     idleGCodes\<lparr>resourceOwners := (\<lambda>_. None)(0 := Some 1, 1 := Some 1, 2 := Some 2),
       gcodeSources := (\<lambda>_. idleBuffer)
         (1 := idleBuffer\<lparr>machineState := idleFrame\<lparr>lockedResources := {0, 1}\<rparr>,
                 previousStates := [idleFrame\<lparr>lockedResources := {1}\<rparr>]\<rparr>,
          2 := idleBuffer\<lparr>machineState := idleFrame\<lparr>lockedResources := {2}\<rparr>\<rparr>),
       toBeHomed := {0, 1, 2}\<rparr>"

definition printingState :: GCodes where
  "printingState =
     idleGCodes\<lparr>moveState := idleMove\<lparr>currentUserPosition := (\<lambda>_. 0)(0 := 10, 1 := 20, 2 := 3)\<rparr>,
       gcodeSources := (\<lambda>_. idleBuffer)(0 := idleBuffer\<lparr>machineState := idleFrame\<lparr>feedRate := 30\<rparr>\<rparr>),
       currentToolNumber := 0\<rparr>"

definition afterToolChange :: GCodes where
  "afterToolChange =
     idleGCodes\<lparr>moveState := idleMove\<lparr>currentUserPosition := (\<lambda>_. 0)(0 := 100, 2 := 50)\<rparr>,
       currentToolNumber := 1\<rparr>"



definition semicircleCmd :: Command where
  "semicircleCmd = (\<lambda>_. None)(CHR ''X'' := Some 10, CHR ''I'' := Some 5)"

definition circleCmd :: Command where
  "circleCmd = (\<lambda>_. None)(CHR ''J'' := Some 5)"

definition lastArcSegment :: GCodes where
  "lastArcSegment =
     idleGCodes\<lparr>moveState := idleMove\<lparr>doingArcMove := True, canPauseAfter := False,
        totalSegments := 4, segmentsLeft := 1\<rparr>, segmentsLeftToStartAt := 4\<rparr>"

definition earlierArcSegment :: GCodes where
  "earlierArcSegment =
     idleGCodes\<lparr>moveState := idleMove\<lparr>doingArcMove := True, canPauseAfter := False,
        totalSegments := 4, segmentsLeft := 2\<rparr>, segmentsLeftToStartAt := 4\<rparr>"

definition radiusCmd :: "real \<Rightarrow> Command" where
  "radiusCmd x = (\<lambda>_. None)(CHR ''X'' := Some x, CHR ''R'' := Some 100)"

definition scaraEnv :: Env where
  "scaraEnv = idleEnv\<lparr>useSegmentation := True\<rparr>"

definition straightMoveState :: GCodes where
  "straightMoveState =
     idleGCodes\<lparr>moveState := idleMove\<lparr>currentUserPosition := (\<lambda>_. 0)(0 := 5),
        moveFeedRate := 1 / 750000, isCoordinated := True\<rparr>\<rparr>"

definition zeroFeedRateState :: GCodes where
  "zeroFeedRateState =
     idleGCodes\<lparr>moveState := idleMove\<lparr>currentUserPosition := (\<lambda>_. 0)(0 := 100),
        moveFeedRate := 0, isCoordinated := True\<rparr>\<rparr>"

section \<open>Properties of resource locking\<close>

lemma resourceOwners_updLatest [simp]: "resourceOwners (updLatest gb f st) = resourceOwners st"
  by (simp add: updLatest_def)

lemma toBeHomed_updLatest [simp]: "toBeHomed (updLatest gb f st) = toBeHomed st"
  by (simp add: updLatest_def)

lemma gcodeSources_updLatest_other [simp]:
  "c \<noteq> gb \<Longrightarrow> gcodeSources (updLatest gb f st) c = gcodeSources st c"
  by (simp add: updLatest_def)

lemma machineState_updLatest [simp]:
  "machineState (gcodeSources (updLatest gb f st) gb) = f (machineState (gcodeSources st gb))"
  by (simp add: updLatest_def)

lemma previousStates_updLatest [simp]:
  "previousStates (gcodeSources (updLatest gb f st) c) = previousStates (gcodeSources st c)"
  by (simp add: updLatest_def)

lemma LockResource_success:
  "resourceOwners st r = None \<or> resourceOwners st r = Some gb \<Longrightarrow>
   fst (LockResource gb r st) \<and> resourceOwners (snd (LockResource gb r st)) r = Some gb"
  by (auto simp: LockResource_def)

lemma LockResource_failure:
  "resourceOwners st r \<noteq> None \<Longrightarrow> resourceOwners st r \<noteq> Some gb \<Longrightarrow>
   LockResource gb r st = (False, st)"
  by (simp add: LockResource_def)

lemma UnlockResource_owner:
  "resourceOwners st r = Some gb \<Longrightarrow> resourceOwners (UnlockResource gb r st) r = None"
  by (simp add: UnlockResource_def)

lemma UnlockResource_not_owner:
  "resourceOwners st r \<noteq> Some gb \<Longrightarrow> UnlockResource gb r st = st"
  by (simp add: UnlockResource_def)

lemma UnlockAll_body_owners:
  "resourceOwners (UnlockAll_body cfg gb keep i st) r =
     (if r = i \<and> resourceOwners st r = Some gb \<and> r \<notin> keep then None else resourceOwners st r)"
  by (simp add: UnlockAll_body_def IsBitSet_def Let_def)

lemma UnlockAll_fold_owners:
  "resourceOwners (fold (UnlockAll_body cfg gb keep) [0..<n] st) r =
     (if r < n \<and> resourceOwners st r = Some gb \<and> r \<notin> keep then None else resourceOwners st r)"
  by (induction n) (auto simp: UnlockAll_body_owners less_Suc_eq)

lemma UnlockAll_body_bits:
  "lockedResources (machineState (gcodeSources (UnlockAll_body cfg gb keep i st) gb)) =
     lockedResources (machineState (gcodeSources st gb)) -
       {r. r = i \<and> resourceOwners st r = Some gb \<and> r \<notin> keep}"
  by (auto simp: UnlockAll_body_def IsBitSet_def Let_def ClearBit_def)

lemma UnlockAll_fold_bits:
  "lockedResources (machineState (gcodeSources (fold (UnlockAll_body cfg gb keep) [0..<n] st) gb)) =
     lockedResources (machineState (gcodeSources st gb)) -
       {r. r < n \<and> resourceOwners st r = Some gb \<and> r \<notin> keep}"
proof (induction n)
  case 0
  show ?case by simp
next
  case (Suc n)
  show ?case
    by (simp add: UnlockAll_body_bits UnlockAll_fold_owners Suc) (auto simp: less_Suc_eq)
qed

lemma UnlockAll_body_toBeHomed:
  "toBeHomed (UnlockAll_body cfg gb keep i st) =
     (if i = MoveResource cfg \<and> resourceOwners st i = Some gb \<and> i \<notin> keep then {} else toBeHomed st)"
  by (auto simp: UnlockAll_body_def IsBitSet_def Let_def)

lemma UnlockAll_fold_toBeHomed:
  "toBeHomed (fold (UnlockAll_body cfg gb keep) [0..<n] st) =
     (if MoveResource cfg < n \<and> resourceOwners st (MoveResource cfg) = Some gb \<and> MoveResource cfg \<notin> keep
      then {} else toBeHomed st)"
  by (induction n) (auto simp: UnlockAll_body_toBeHomed UnlockAll_fold_owners less_Suc_eq)

lemma UnlockAll_body_others:
  "c \<noteq> gb \<Longrightarrow> gcodeSources (UnlockAll_body cfg gb keep i st) c = gcodeSources st c"
  by (simp add: UnlockAll_body_def Let_def)

lemma UnlockAll_fold_others:
  "c \<noteq> gb \<Longrightarrow> gcodeSources (fold (UnlockAll_body cfg gb keep) [0..<n] st) c = gcodeSources st c"
  by (induction n) (auto simp: UnlockAll_body_others)


lemma mirrored_LockResource: "mirrored st \<Longrightarrow> mirrored (snd (LockResource gb r st))"
  by (auto simp: mirrored_def LockResource_def LatestMachineState_def updLatest_def
      IsBitSet_def SetBit_def)

lemma mirrored_GrabResource: "mirrored st \<Longrightarrow> mirrored (GrabResource gb r st)"
  by (auto simp: mirrored_def GrabResource_def LatestMachineState_def updLatest_def
      IsBitSet_def SetBit_def)

lemma mirrored_UnlockResource: "mirrored st \<Longrightarrow> mirrored (UnlockResource gb r st)"
  by (auto simp: mirrored_def UnlockResource_def LatestMachineState_def updLatest_def
      IsBitSet_def ClearBit_def)

lemma mirrored_UnlockAll:
  assumes "mirrored st"
  shows "mirrored (UnlockAll cfg gb st)"
proof -
  let ?keep = "parentLocked st gb"
  let ?n = "NumResources cfg"
  have u: "UnlockAll cfg gb st = fold (UnlockAll_body cfg gb ?keep) [0..<?n] st"
    by (simp add: UnlockAll_def parentLocked_def)
  show ?thesis
    unfolding mirrored_def
  proof (intro allI impI)
    fix r c
    assume o: "resourceOwners (UnlockAll cfg gb st) r = Some c"
    then have before: "resourceOwners st r = Some c"
      and kept: "\<not> (r < ?n \<and> resourceOwners st r = Some gb \<and> r \<notin> ?keep)"
      by (auto simp: u UnlockAll_fold_owners split: if_splits)
    have bit: "r \<in> lockedResources (machineState (gcodeSources st c))"
      using assms before by (simp add: mirrored_def IsBitSet_def LatestMachineState_def)
    show "IsBitSet (lockedResources (LatestMachineState (UnlockAll cfg gb st) c)) r"
    proof (cases "c = gb")
      case True
      then show ?thesis
        using bit kept before
        by (simp add: u LatestMachineState_def IsBitSet_def UnlockAll_fold_bits)
    next
      case False
      then show ?thesis
        using bit by (simp add: u LatestMachineState_def IsBitSet_def UnlockAll_fold_others)
    qed
  qed
qed

lemma mirrored_applyOp: "mirrored st \<Longrightarrow> mirrored (applyOp cfg op st)"
  by (cases op)
    (simp_all add: mirrored_LockResource mirrored_GrabResource mirrored_UnlockResource
      mirrored_UnlockAll)

lemma mirrored_runOps: "mirrored st \<Longrightarrow> mirrored (runOps cfg ops st)"
  unfolding runOps_def
  by (induction ops arbitrary: st) (simp_all add: mirrored_applyOp)

lemma mirrored_idle: "mirrored idleGCodes"
  by (simp add: mirrored_def idleGCodes_def)

text \<open>
  Claim C1. Whatever sequence of \<^verbatim>\<open>LockResource\<close>, \<^verbatim>\<open>UnlockResource\<close>, \<^verbatim>\<open>GrabResource\<close> and
  \<^verbatim>\<open>UnlockAll\<close> calls the channels make, a resource has at most one owner afterwards.
  \<^verbatim>\<open>LockResource\<close> succeeds, and leaves the caller as owner, when the resource is free or
  already the caller's; otherwise it returns false and changes nothing.
  \<^verbatim>\<open>UnlockResource\<close> clears the owner when the caller is the owner and changes nothing
  when it is not. The owner recorded in the table has its bit set in its latest frame,
  and the sequence of calls preserves this.
\<close>

theorem lock_mutual_exclusion:
  "(owns (runOps cfg ops st0) c1 r \<and> owns (runOps cfg ops st0) c2 r \<longrightarrow> c1 = c2) \<and>
   (mirrored st0 \<longrightarrow> mirrored (runOps cfg ops st0)) \<and>
   (resourceOwners st r = None \<or> resourceOwners st r = Some gb \<longrightarrow>
      fst (LockResource gb r st) \<and> owns (snd (LockResource gb r st)) gb r) \<and>
   (resourceOwners st r \<noteq> None \<and> resourceOwners st r \<noteq> Some gb \<longrightarrow>
      LockResource gb r st = (False, st)) \<and>
   (owns st gb r \<longrightarrow> resourceOwners (UnlockResource gb r st) r = None) \<and>
   (\<not> owns st gb r \<longrightarrow> UnlockResource gb r st = st)"
proof (intro conjI impI)
  assume "owns (runOps cfg ops st0) c1 r \<and> owns (runOps cfg ops st0) c2 r"
  then show "c1 = c2" by (auto simp: owns_def)
next
  assume "mirrored st0"
  then show "mirrored (runOps cfg ops st0)" by (rule mirrored_runOps)
next
  assume "resourceOwners st r = None \<or> resourceOwners st r = Some gb"
  then show "fst (LockResource gb r st)" using LockResource_success by blast
next
  assume "resourceOwners st r = None \<or> resourceOwners st r = Some gb"
  then show "owns (snd (LockResource gb r st)) gb r"
    unfolding owns_def using LockResource_success by blast
next
  assume "resourceOwners st r \<noteq> None \<and> resourceOwners st r \<noteq> Some gb"
  then show "LockResource gb r st = (False, st)" using LockResource_failure by blast
next
  assume "owns st gb r"
  then show "resourceOwners (UnlockResource gb r st) r = None"
    by (simp add: owns_def UnlockResource_owner)
next
  assume "\<not> owns st gb r"
  then show "UnlockResource gb r st = st" by (simp add: owns_def UnlockResource_not_owner)
qed

lemma idle_owner [simp]: "resourceOwners idleGCodes r = None"
  by (simp add: idleGCodes_def)

theorem lock_mutual_exclusion_witness:
  "owns (runOps duetConfig [OpLock 1 0, OpLock 2 0, OpGrab 3 1, OpUnlock 2 1, OpUnlockAll 3] idleGCodes) 1 0 \<and>
   \<not> owns (runOps duetConfig [OpLock 1 0, OpLock 2 0, OpGrab 3 1, OpUnlock 2 1, OpUnlockAll 3] idleGCodes) 2 0 \<and>
   mirrored (runOps duetConfig [OpLock 1 0, OpLock 2 0, OpGrab 3 1, OpUnlock 2 1, OpUnlockAll 3] idleGCodes) \<and>
   fst (LockResource 1 0 idleGCodes) \<and>
   owns (snd (LockResource 1 0 idleGCodes)) 1 0 \<and>
   LockResource 2 0 (snd (LockResource 1 0 idleGCodes)) = (False, snd (LockResource 1 0 idleGCodes)) \<and>
   resourceOwners (UnlockResource 1 0 (snd (LockResource 1 0 idleGCodes))) 0 = None \<and>
   UnlockResource 2 0 (snd (LockResource 1 0 idleGCodes)) = snd (LockResource 1 0 idleGCodes)"
proof -
  let ?s1 = "snd (LockResource 1 0 idleGCodes)"
  let ?ops = "[OpLock 1 0, OpLock 2 0, OpGrab 3 1, OpUnlock 2 1, OpUnlockAll 3]"
  have own1: "resourceOwners ?s1 0 = Some 1"
    by (simp add: LockResource_def)
  have run: "owns (runOps duetConfig ?ops idleGCodes) 1 0"
    by (simp add: runOps_def owns_def LockResource_def GrabResource_def UnlockResource_def
        UnlockAll_def UnlockAll_fold_owners)
  have a: "\<not> owns (runOps duetConfig ?ops idleGCodes) 2 0"
    using lock_mutual_exclusion [of duetConfig ?ops idleGCodes 1 0 2] run by auto
  have m: "mirrored (runOps duetConfig ?ops idleGCodes)"
    using lock_mutual_exclusion [of duetConfig ?ops idleGCodes 1 0 2] mirrored_idle by simp
  have b: "fst (LockResource 1 0 idleGCodes) \<and> owns (snd (LockResource 1 0 idleGCodes)) 1 0"
    using lock_mutual_exclusion [of duetConfig ?ops idleGCodes 1 0 2 idleGCodes 1] by simp
  have c: "LockResource 2 0 ?s1 = (False, ?s1)"
    using lock_mutual_exclusion [of duetConfig ?ops idleGCodes 1 0 2 ?s1 2] own1 by simp
  have d: "resourceOwners (UnlockResource 1 0 ?s1) 0 = None"
    using lock_mutual_exclusion [of duetConfig ?ops idleGCodes 1 0 2 ?s1 1] own1
    by (simp add: owns_def)
  have e: "UnlockResource 2 0 ?s1 = ?s1"
    using lock_mutual_exclusion [of duetConfig ?ops idleGCodes 1 0 2 ?s1 2] own1
    by (simp add: owns_def)
  show ?thesis using run a m b c d e by simp
qed

text \<open>
  Claim C4. \<^verbatim>\<open>UnlockAll\<close> called by a channel releases exactly the resources that the
  channel owns and whose bit is not set in the frame below its latest one: for each of
  them the owner entry becomes empty and the bit in the channel's latest frame is cleared;
  every other resource keeps its owner and the state of that bit. When the movement
  resource is among the released ones the axes waiting to be homed are cleared, and
  otherwise they are left as they were.
\<close>

theorem UnlockAll_releases_exactly:
  assumes "r < NumResources cfg"
  shows "(releasable st gb r \<longrightarrow>
            resourceOwners (UnlockAll cfg gb st) r = None \<and>
            \<not> IsBitSet (lockedResources (LatestMachineState (UnlockAll cfg gb st) gb)) r) \<and>
         (\<not> releasable st gb r \<longrightarrow>
            resourceOwners (UnlockAll cfg gb st) r = resourceOwners st r \<and>
            IsBitSet (lockedResources (LatestMachineState (UnlockAll cfg gb st) gb)) r =
              IsBitSet (lockedResources (LatestMachineState st gb)) r) \<and>
         (MoveResource cfg < NumResources cfg \<and> releasable st gb (MoveResource cfg) \<longrightarrow>
            toBeHomed (UnlockAll cfg gb st) = {}) \<and>
         (\<not> releasable st gb (MoveResource cfg) \<longrightarrow>
            toBeHomed (UnlockAll cfg gb st) = toBeHomed st)"
proof -
  let ?keep = "parentLocked st gb"
  have unfold: "UnlockAll cfg gb st = fold (UnlockAll_body cfg gb ?keep) [0..<NumResources cfg] st"
    by (simp add: UnlockAll_def parentLocked_def)
  have owners: "resourceOwners (UnlockAll cfg gb st) r =
      (if releasable st gb r then None else resourceOwners st r)"
    using assms by (simp add: unfold UnlockAll_fold_owners releasable_def IsBitSet_def)
  have bits: "lockedResources (LatestMachineState (UnlockAll cfg gb st) gb) =
      lockedResources (LatestMachineState st gb) -
        {x. x < NumResources cfg \<and> releasable st gb x}"
    by (simp add: unfold LatestMachineState_def UnlockAll_fold_bits releasable_def IsBitSet_def)
  have homed: "toBeHomed (UnlockAll cfg gb st) =
      (if MoveResource cfg < NumResources cfg \<and> releasable st gb (MoveResource cfg)
       then {} else toBeHomed st)"
    by (simp add: unfold UnlockAll_fold_toBeHomed releasable_def IsBitSet_def)
  show ?thesis
    using assms by (simp add: owners bits homed IsBitSet_def)
qed

lemma macroState_releasable:
  "releasable macroState 1 0" "\<not> releasable macroState 1 1" "\<not> releasable macroState 1 2"
  by (simp_all add: releasable_def macroState_def parentLocked_def GetPrevious_def IsBitSet_def
      idleBuffer_def idleFrame_def)

theorem UnlockAll_releases_exactly_witness:
  "releasable macroState 1 0 \<and>
   resourceOwners (UnlockAll duetConfig 1 macroState) 0 = None \<and>
   \<not> IsBitSet (lockedResources (LatestMachineState (UnlockAll duetConfig 1 macroState) 1)) 0 \<and>
   resourceOwners (UnlockAll duetConfig 1 macroState) 1 = Some 1 \<and>
   IsBitSet (lockedResources (LatestMachineState (UnlockAll duetConfig 1 macroState) 1)) 1 \<and>
   resourceOwners (UnlockAll duetConfig 1 macroState) 2 = Some 2 \<and>
   toBeHomed (UnlockAll duetConfig 1 macroState) = {}"
proof -
  have n: "(0::nat) < NumResources duetConfig" "(1::nat) < NumResources duetConfig"
    "(2::nat) < NumResources duetConfig" "MoveResource duetConfig = 0"
    by (simp_all add: duetConfig_def)
  have o: "resourceOwners macroState 1 = Some 1" "resourceOwners macroState 2 = Some 2"
    "IsBitSet (lockedResources (LatestMachineState macroState 1)) 1"
    by (simp_all add: macroState_def LatestMachineState_def IsBitSet_def)
  show ?thesis
    using UnlockAll_releases_exactly [OF n(1), of macroState 1]
      UnlockAll_releases_exactly [OF n(2), of macroState 1]
      UnlockAll_releases_exactly [OF n(3), of macroState 1]
      macroState_releasable n o
    by simp
qed

text \<open>
  Claim C3, as the code has it. \<^verbatim>\<open>GrabResource\<close> always leaves the grabbing channel as
  the owner; when the resource was not already its own, the bit is set in the grabbing
  channel's latest frame. The frames of every other channel, the previous owner's
  included, are left exactly as they were: the previous owner's lock bit stays set.
\<close>

theorem GrabResource_transfers_ownership:
  "owns (GrabResource gb r st) gb r \<and>
   (resourceOwners st r \<noteq> Some gb \<longrightarrow>
      IsBitSet (lockedResources (LatestMachineState (GrabResource gb r st) gb)) r) \<and>
   (old \<noteq> gb \<longrightarrow> gcodeSources (GrabResource gb r st) old = gcodeSources st old) \<and>
   (old \<noteq> gb \<and> IsBitSet (lockedResources (LatestMachineState st old)) r \<longrightarrow>
      IsBitSet (lockedResources (LatestMachineState (GrabResource gb r st) old)) r) \<and>
   previousStates (gcodeSources (GrabResource gb r st) gb) = previousStates (gcodeSources st gb)"
  by (simp add: GrabResource_def owns_def LatestMachineState_def IsBitSet_def SetBit_def)

theorem GrabResource_transfers_ownership_witness:
  "owns (GrabResource 11 0 macroState) 11 0 \<and>
   IsBitSet (lockedResources (LatestMachineState (GrabResource 11 0 macroState) 11)) 0 \<and>
   gcodeSources (GrabResource 11 0 macroState) 1 = gcodeSources macroState 1 \<and>
   IsBitSet (lockedResources (LatestMachineState (GrabResource 11 0 macroState) 1)) 0"
proof -
  have "resourceOwners macroState 0 \<noteq> Some 11"
    "IsBitSet (lockedResources (LatestMachineState macroState 1)) 0"
    by (simp_all add: macroState_def LatestMachineState_def IsBitSet_def)
  then show ?thesis
    using GrabResource_transfers_ownership [of 11 0 macroState 1] by simp
qed

text \<open>
  The claim as the specification words it says that the previous owner's lock bit is
  cleared. Channel 1 owns the movement resource with its bit set; after the auto-pause
  channel 11 grabs it, channel 11 is the owner and channel 1 still has the bit set.
\<close>

theorem GrabResource_old_owner_bit_counterexample:
  "owns macroState 1 0 \<and>
   IsBitSet (lockedResources (LatestMachineState macroState 1)) 0 \<and>
   owns (GrabResource 11 0 macroState) 11 0 \<and>
   IsBitSet (lockedResources (LatestMachineState (GrabResource 11 0 macroState) 1)) 0"
  by (simp add: GrabResource_def owns_def LatestMachineState_def IsBitSet_def SetBit_def
      macroState_def)

section \<open>Properties of restore points\<close>

text \<open>
  Claim C9, as the code has it. A restore point saved by \<^verbatim>\<open>SavePosition\<close> and restored by
  \<^verbatim>\<open>RestorePosition\<close> with a channel brings back, whatever happened in between, the user
  coordinates of the visible axes and the feed rate (into the latest frame of the channel
  given to \<^verbatim>\<open>RestorePosition\<close>) that were in effect when saving. The tool number in effect
  is recorded in the restore point, but \<^verbatim>\<open>RestorePosition\<close> selects no tool: the active
  tool and its number stay what they were before the restore.
\<close>

theorem SavePosition_RestorePosition_roundtrip:
  "(axis < numVisibleAxes st \<and> axis < numVisibleAxes st' \<longrightarrow>
      currentUserPosition (moveState (RestorePosition (SavePosition rp gb st) (Some gb') st')) axis =
        currentUserPosition (moveState st) axis) \<and>
   feedRate (LatestMachineState (RestorePosition (SavePosition rp gb st) (Some gb') st') gb') =
     feedRate (LatestMachineState st gb) \<and>
   rpToolNumber (SavePosition rp gb st) = currentToolNumber st \<and>
   currentToolNumber (RestorePosition (SavePosition rp gb st) gbo st') = currentToolNumber st' \<and>
   currentTool (RestorePosition (SavePosition rp gb st) gbo st') = currentTool st'"
  by (simp add: RestorePosition_def SavePosition_def LatestMachineState_def updLatest_def Let_def
      split: option.split)

theorem SavePosition_RestorePosition_roundtrip_witness:
  "currentUserPosition (moveState
      (RestorePosition (SavePosition idleRestorePoint 0 printingState) (Some 0) afterToolChange)) 1 = 20 \<and>
   feedRate (LatestMachineState
      (RestorePosition (SavePosition idleRestorePoint 0 printingState) (Some 0) afterToolChange) 0) = 30 \<and>
   rpToolNumber (SavePosition idleRestorePoint 0 printingState) = 0 \<and>
   currentToolNumber
      (RestorePosition (SavePosition idleRestorePoint 0 printingState) (Some 0) afterToolChange) = 1"
proof -
  have "(1::nat) < numVisibleAxes printingState" "(1::nat) < numVisibleAxes afterToolChange"
    "currentUserPosition (moveState printingState) 1 = 20"
    "feedRate (LatestMachineState printingState 0) = 30"
    "currentToolNumber printingState = 0" "currentToolNumber afterToolChange = 1"
    by (simp_all add: printingState_def afterToolChange_def idleGCodes_def LatestMachineState_def)
  then show ?thesis
    using SavePosition_RestorePosition_roundtrip
      [of 1 printingState afterToolChange idleRestorePoint 0 0 "Some 0"]
    by simp
qed

text \<open>
  The tool number is not reproduced: saved while tool 0 is active, restored after tool 1
  has been selected, the active tool number is still 1.
\<close>

theorem RestorePosition_tool_counterexample:
  "currentToolNumber printingState = 0 \<and>
   currentToolNumber
     (RestorePosition (SavePosition idleRestorePoint 0 printingState) (Some 0) afterToolChange) = 1"
  by (simp add: RestorePosition_def SavePosition_def printingState_def afterToolChange_def
      updLatest_def Let_def)

section \<open>Properties of trigger arbitration\<close>

lemma detectTriggers_upto:
  "fold (detectTrigger env) [0..<n] p = p \<union> {i. i < n \<and> triggerCheck env i}"
  by (induction n) (auto simp: detectTrigger_def IsBitSet_def SetBit_def less_Suc_eq)

lemma detectTriggers_eq:
  "detectTriggers cfg env p = p \<union> {i. i < MaxTriggers cfg \<and> triggerCheck env i}"
  by (simp add: detectTriggers_def detectTriggers_upto)

lemma detectTriggers_finite: "finite p \<Longrightarrow> finite (detectTriggers cfg env p)"
  by (simp add: detectTriggers_eq)

lemma triggersPending_Reset [simp]: "triggersPending (Reset cfg env st) = {}"
  by (simp add: Reset_def Let_def)

lemma calls_Reset [simp]: "calls (Reset cfg env st) = calls st"
  by (simp add: Reset_def Let_def ClearMove_def)

lemma CheckTriggers_none:
  "detectTriggers cfg env (triggersPending st) = {} \<Longrightarrow>
   CheckTriggers cfg env st = st\<lparr>triggersPending := {}\<rparr>"
  by (simp add: CheckTriggers_def IsNonEmpty_def)










section \<open>Properties of committing and reading moves\<close>

lemma moveState_updLatest [simp]: "moveState (updLatest gb f st) = moveState st"
  by (simp add: updLatest_def)

lemma calls_updLatest [simp]: "calls (updLatest gb f st) = calls st"
  by (simp add: updLatest_def)

lemma UnlockAll_body_moveState [simp]:
  "moveState (UnlockAll_body cfg gb keep i st) = moveState st"
  by (simp add: UnlockAll_body_def Let_def)

lemma UnlockAll_body_calls [simp]:
  "calls (UnlockAll_body cfg gb keep i st) = calls st"
  by (simp add: UnlockAll_body_def Let_def)

lemma UnlockAll_fold_moveState:
  "moveState (fold (UnlockAll_body cfg gb keep) xs st) = moveState st"
  by (induction xs arbitrary: st) simp_all

lemma UnlockAll_fold_calls:
  "calls (fold (UnlockAll_body cfg gb keep) xs st) = calls st"
  by (induction xs arbitrary: st) simp_all

lemma moveState_UnlockAll [simp]: "moveState (UnlockAll cfg gb st) = moveState st"
  by (simp add: UnlockAll_def Let_def UnlockAll_fold_moveState)

lemma calls_UnlockAll [simp]: "calls (UnlockAll cfg gb st) = calls st"
  by (simp add: UnlockAll_def Let_def UnlockAll_fold_calls)

lemma NewMoveAvailable_moveState:
  "moveState (NewMoveAvailable st) = (moveState st)\<lparr>segmentsLeft := totalSegments (moveState st)\<rparr>"
  by (simp add: NewMoveAvailable_def Let_def)

lemma NewMoveAvailable_calls:
  "calls (NewMoveAvailable st) = calls st @ [CallMoveAvailable]"
  by (simp add: NewMoveAvailable_def Let_def)

text \<open>What \<^verbatim>\<open>FinaliseMove\<close> does to the members that matter for arcs.\<close>

lemma FinaliseMove_canPauseAfter:
  "canPauseAfter (moveState (FinaliseMove cfg env gb st)) =
     (\<not> checkEndstops (moveState st) \<and> \<not> doingArcMove (moveState st))"
  by (simp add: FinaliseMove_def Let_def NewMoveAvailable_moveState SetState_def)

lemma FinaliseMove_doingArcMove:
  "doingArcMove (moveState (FinaliseMove cfg env gb st)) = doingArcMove (moveState st)"
  by (simp add: FinaliseMove_def Let_def NewMoveAvailable_moveState SetState_def)

lemma FinaliseMove_totalSegments:
  "totalSegments (moveState (FinaliseMove cfg env gb st)) = totalSegments (moveState st)"
  by (simp add: FinaliseMove_def Let_def NewMoveAvailable_moveState SetState_def)

lemma FinaliseMove_arcAngleIncrement:
  "arcAngleIncrement (moveState (FinaliseMove cfg env gb st)) = arcAngleIncrement (moveState st)"
  by (simp add: FinaliseMove_def Let_def NewMoveAvailable_moveState SetState_def)

lemma FinaliseMove_arcCentre:
  "arcCentre (moveState (FinaliseMove cfg env gb st)) = arcCentre (moveState st)"
  by (simp add: FinaliseMove_def Let_def NewMoveAvailable_moveState SetState_def)

lemma FinaliseMove_segmentsLeft:
  "segmentsLeft (moveState (FinaliseMove cfg env gb st)) =
     (if IsCurrentObjectCancelled env then segmentsLeft (moveState st)
      else totalSegments (moveState st))"
  by (simp add: FinaliseMove_def Let_def NewMoveAvailable_moveState SetState_def)

lemma FinaliseMove_calls:
  "calls (FinaliseMove cfg env gb st) =
     (if IsCurrentObjectCancelled env
      then (if machineType st = laser then calls st @ [CallSetLaserPwmZero] else calls st)
      else calls st @ [CallMoveAvailable])"
  by (simp add: FinaliseMove_def Let_def NewMoveAvailable_calls SetState_def)


lemma dec32_eq: "0 < n \<Longrightarrow> n < 4294967296 \<Longrightarrow> dec32 n = n - 1"
proof -
  assume "0 < n" and b: "n < 4294967296"
  then obtain k where k: "n = Suc k" by (cases n) auto
  have "Suc k + 4294967295 = k + 4294967296" by simp
  then have "dec32 n = k mod 4294967296"
    unfolding dec32_def k by (simp only: mod_add_self2)
  then show ?thesis using k b by simp
qed

lemma ReadMove_advance_frame:
  "segmentsLeft (moveState (fst (ReadMove_advance cfg env st))) = segmentsLeft (moveState st)"
  "doingArcMove (moveState (fst (ReadMove_advance cfg env st))) = doingArcMove (moveState st)"
  "canPauseAfter (moveState (fst (ReadMove_advance cfg env st))) = canPauseAfter (moveState st)"
  "segmentsLeftToStartAt (fst (ReadMove_advance cfg env st)) = segmentsLeftToStartAt st"
  by (simp_all add: ReadMove_advance_def Let_def)

lemma ReadMove_last_arc:
  assumes "doingArcMove (moveState st)" and "ReadMove_last cfg m st = (r, st')"
  shows "\<exists>m'. r = Some m' \<and> canPauseAfter m'" and "segmentsLeft (moveState st') = 0"
  using assms by (auto simp: ReadMove_last_def Let_def ClearMove_def)

lemma ReadMove_deliver_arc:
  assumes "ReadMove_deliver cfg env m st = (Some m', st')"
  shows "canPauseAfter m' = canPauseAfter m"
    and "segmentsLeft (moveState st') = dec32 (segmentsLeft (moveState st))"
    and "doingArcMove (moveState st') = doingArcMove (moveState st)"
    and "canPauseAfter (moveState st') = canPauseAfter (moveState st)"
  using assms by (auto simp: ReadMove_deliver_def Let_def split: prod.splits if_splits)

lemma ReadMove_loop_arc:
  "doingArcMove (moveState st) \<Longrightarrow> \<not> canPauseAfter (moveState st) \<Longrightarrow>
   0 < segmentsLeft (moveState st) \<Longrightarrow> segmentsLeft (moveState st) < 4294967296 \<Longrightarrow>
   ReadMove_loop cfg env st = (Some m, st') \<Longrightarrow>
   (canPauseAfter m \<longleftrightarrow> segmentsLeft (moveState st') = 0) \<and>
   segmentsLeft (moveState st') < segmentsLeft (moveState st) \<and>
   (segmentsLeft (moveState st') \<noteq> 0 \<longrightarrow>
      doingArcMove (moveState st') \<and> \<not> canPauseAfter (moveState st'))"
proof (induction cfg env st rule: ReadMove_loop.induct)
  case (1 cfg env st)
  let ?n = "segmentsLeft (moveState st)"
  let ?adv = "fst (ReadMove_advance cfg env st)"
  let ?m = "RawMove.truncate (moveState st)"
  show ?case
  proof (cases "?n = 1")
    case True
    then have "ReadMove_last cfg ?m st = (Some m, st')"
      using "1.prems"(5) by (simp add: ReadMove_loop.simps [of cfg env st])
    from ReadMove_last_arc [OF "1.prems"(1) this] True show ?thesis by auto
  next
    case False
    then have n2: "1 < ?n" using "1.prems"(3) by simp
    have d: "dec32 ?n = ?n - 1" using "1.prems"(3,4) by (rule dec32_eq)
    show ?thesis
    proof (cases "segmentsLeftToStartAt st < ?n")
      case True
      let ?next = "?adv\<lparr>moveState := (moveState ?adv)\<lparr>segmentsLeft :=
                          dec32 (segmentsLeft (moveState ?adv))\<rparr>\<rparr>"
      have eq: "ReadMove_loop cfg env ?next = (Some m, st')"
        using "1.prems"(5) False True
        by (simp add: ReadMove_loop.simps [of cfg env st] ReadMove_advance_frame Let_def)
      have ih: "(canPauseAfter m \<longleftrightarrow> segmentsLeft (moveState st') = 0) \<and>
          segmentsLeft (moveState st') < segmentsLeft (moveState ?next) \<and>
          (segmentsLeft (moveState st') \<noteq> 0 \<longrightarrow>
             doingArcMove (moveState st') \<and> \<not> canPauseAfter (moveState st'))"
      proof (rule "1.IH" [OF refl False refl refl _ _ _ _ _ eq])
        show "segmentsLeftToStartAt ?adv < segmentsLeft (moveState ?adv)"
          using True by (simp add: ReadMove_advance_frame)
        show "doingArcMove (moveState ?next)"
          using "1.prems"(1) by (simp add: ReadMove_advance_frame)
        show "\<not> canPauseAfter (moveState ?next)"
          using "1.prems"(2) by (simp add: ReadMove_advance_frame)
        show "0 < segmentsLeft (moveState ?next)"
          using n2 d by (simp add: ReadMove_advance_frame)
        show "segmentsLeft (moveState ?next) < 4294967296"
          using "1.prems"(4) d by (simp add: ReadMove_advance_frame)
      qed
      have "segmentsLeft (moveState ?next) < ?n"
        using n2 d by (simp add: ReadMove_advance_frame)
      with ih show ?thesis by auto
    next
      case nskip: False
      let ?m1 = "?m\<lparr>coords := snd (ReadMove_advance cfg env st)\<rparr>"
      have eq: "ReadMove_deliver cfg env ?m1 ?adv = (Some m, st')"
        using "1.prems"(5) False nskip
        by (simp add: ReadMove_loop.simps [of cfg env st] ReadMove_advance_frame Let_def)
      have c: "canPauseAfter ?m1 = canPauseAfter (moveState st)"
        by (simp add: RawMove.truncate_def)
      from ReadMove_deliver_arc [OF eq] c "1.prems"(1,2) n2 d
      show ?thesis by (simp add: ReadMove_advance_frame)
    qed
  qed
qed

section \<open>Properties of arc moves\<close>

lemma plane_axes_differ: "(a + 1) mod 3 \<noteq> (a::nat)" "a \<noteq> (a + 1) mod 3"
  by presburger+

lemma DoArcMove_begin_Inr:
  assumes "DoArcMove_begin env gb cmd clockwise st = (st1, Inr (axis0, axis1, e0, e1, i, j))"
  shows "axis0 \<noteq> axis1"
    and "arcOffsets cmd clockwise axis0 axis1
           (e0 - initialUserC0 (moveState st1)) (e1 - initialUserC1 (moveState st1)) = Inr (i, j)"
    and "segmentsLeft (moveState st1) = segmentsLeft (moveState st)"
    and "totalSegments (moveState st1) = totalSegments (moveState st)"
    and "calls st1 = calls st"
    and "numVisibleAxes st1 = numVisibleAxes st"
    and "axisScaleFactors st1 = axisScaleFactors st"
    and "currentBabyStepOffsets st1 = currentBabyStepOffsets st"
    and "currentTool st1 = currentTool st"
    and "g68Angle st1 = g68Angle st"
  using assms plane_axes_differ
  by (auto simp: DoArcMove_begin_def DoArcMove_endpoints_def Let_def split: sum.splits if_splits)

lemma DoArcMove_begin_Inl:
  assumes "DoArcMove_begin env gb cmd clockwise st = (st1, Inl e)"
  shows "segmentsLeft (moveState st1) = segmentsLeft (moveState st)"
    and "totalSegments (moveState st1) = totalSegments (moveState st)"
    and "calls st1 = calls st"
  using assms
  by (auto simp: DoArcMove_begin_def DoArcMove_endpoints_def Let_def split: sum.splits if_splits)

lemma arcOtherAxis_keeps:
  "a = axis0 \<or> a = axis1 \<Longrightarrow>
   fst (fold (arcOtherAxis env gb cmd st axis0 axis1) xs acc) a = fst acc a"
proof (induction xs arbitrary: acc)
  case Nil
  show ?case by simp
next
  case (Cons x xs)
  have "fst (arcOtherAxis env gb cmd st axis0 axis1 x acc) a = fst acc a"
    using Cons.prems
    by (cases acc) (auto simp: arcOtherAxis_def split: option.splits)
  with Cons show ?case by simp
qed


lemma DoArcMove_geometry_frame:
  assumes "DoArcMove_geometry env gb cmd axis0 axis1 e0 e1 i j st = (st2, r)"
  shows "segmentsLeft (moveState st2) = segmentsLeft (moveState st)"
    and "totalSegments (moveState st2) = totalSegments (moveState st)"
    and "calls st2 = calls st"
    and "numVisibleAxes st2 = numVisibleAxes st"
    and "axisScaleFactors st2 = axisScaleFactors st"
    and "currentBabyStepOffsets st2 = currentBabyStepOffsets st"
    and "currentTool st2 = currentTool st"
    and "gcodeSources st2 = gcodeSources st"
    and "initialUserC0 (moveState st2) = initialUserC0 (moveState st)"
    and "initialUserC1 (moveState st2) = initialUserC1 (moveState st)"
  using assms
  by (auto simp: DoArcMove_geometry_def Let_def split: if_splits prod.splits)

lemma DoArcMove_geometry_Inr:
  assumes "DoArcMove_geometry env gb cmd axis0 axis1 e0 e1 i j st = (st2, Inr al)"
    and "axis0 \<noteq> axis1"
  shows "alWholeCircle al = (initialUserC0 (moveState st) = e0 \<and> initialUserC1 (moveState st) = e1)"
    and "alFinalTheta al - arcCurrentAngle (moveState st2) =
           atan2 (e1 - (initialUserC1 (moveState st) + j)) (e0 - (initialUserC0 (moveState st) + i))
             - atan2 (- j) (- i)"
    and "alAxis0 al = axis0" and "alAxis1 al = axis1"
    and "\<not> (g68Angle st \<noteq> 0 \<and> DoingCoordinateRotation env gb) \<Longrightarrow>
           alUserArcCentre0 al = initialUserC0 (moveState st) + i \<and>
           alUserArcCentre1 al = initialUserC1 (moveState st) + j"
    and "arcRadius (moveState st2) = sqrt (i * i + j * j)"
  using assms
  by (auto simp: DoArcMove_geometry_def Let_def arcOtherAxis_keeps
      split: if_splits prod.splits)

lemma arcLaserOrIoBits_frame:
  "arcCurrentAngle (moveState (arcLaserOrIoBits env cmd st)) = arcCurrentAngle (moveState st)"
  "arcRadius (moveState (arcLaserOrIoBits env cmd st)) = arcRadius (moveState st)"
  "arcCentre (moveState (arcLaserOrIoBits env cmd st)) = arcCentre (moveState st)"
  "checkEndstops (moveState (arcLaserOrIoBits env cmd st)) = checkEndstops (moveState st)"
  "segmentsLeft (moveState (arcLaserOrIoBits env cmd st)) = segmentsLeft (moveState st)"
  "calls (arcLaserOrIoBits env cmd st) = calls st"
  by (simp_all add: arcLaserOrIoBits_def split: option.split)

lemma applyExtrusionEffect_frame:
  "arcCurrentAngle (moveState (applyExtrusionEffect le gb st)) = arcCurrentAngle (moveState st)"
  "arcRadius (moveState (applyExtrusionEffect le gb st)) = arcRadius (moveState st)"
  "arcCentre (moveState (applyExtrusionEffect le gb st)) = arcCentre (moveState st)"
  "checkEndstops (moveState (applyExtrusionEffect le gb st)) = checkEndstops (moveState st)"
  "segmentsLeft (moveState (applyExtrusionEffect le gb st)) = segmentsLeft (moveState st)"
  "totalSegments (moveState (applyExtrusionEffect le gb st)) = totalSegments (moveState st)"
  "calls (applyExtrusionEffect le gb st) = calls st"
  by (simp_all add: applyExtrusionEffect_def Let_def)

text \<open>The committed arc: segments, angle increment, flags.\<close>

lemma DoArcMove_segments_facts:
  assumes "st' = DoArcMove_segments cfg env gb clockwise al plane st"
    and "totalArc = arcTotalArc clockwise (alWholeCircle al)
                      (arcCurrentAngle (moveState st)) (alFinalTheta al)"
  shows "1 \<le> totalSegments (moveState st')"
    and "real (totalSegments (moveState st')) * arcAngleIncrement (moveState st') =
           (if clockwise then - totalArc else totalArc)"
    and "arcCentre (moveState st') = arcCentre (moveState st)"
    and "\<not> canPauseAfter (moveState st')"
    and "doingArcMove (moveState st')"
    and "segmentsLeft (moveState st') =
           (if IsCurrentObjectCancelled env then segmentsLeft (moveState st)
            else totalSegments (moveState st'))"
    and "calls st' =
           (if IsCurrentObjectCancelled env
            then (if machineType st = laser then calls st @ [CallSetLaserPwmZero] else calls st)
            else calls st @ [CallMoveAvailable])"
  unfolding assms
  by (simp_all add: DoArcMove_segments_def Let_def FinaliseMove_totalSegments
      FinaliseMove_arcAngleIncrement FinaliseMove_arcCentre FinaliseMove_canPauseAfter
      FinaliseMove_doingArcMove FinaliseMove_segmentsLeft FinaliseMove_calls)

lemma DoArcMove_commit_Finished:
  assumes "DoArcMove_commit cfg env gb cmd clockwise al st = (Finished, st')"
  obtains st6 where
    "st' = DoArcMove_segments cfg env gb clockwise al (selectedPlane (LatestMachineState st gb)) st6"
    "arcCurrentAngle (moveState st6) = arcCurrentAngle (moveState st)"
    "arcRadius (moveState st6) = arcRadius (moveState st)"
    "arcCentre (moveState st6) =
       (\<lambda>axis.
          if axis < numVisibleAxes st \<and> IsBitSet (GetCurrentAxisMapping env (alAxis0 al)) axis then
            alUserArcCentre0 al * axisScaleFactors st axis + currentBabyStepOffsets st axis
              - ToolGetOffset env (currentTool st) axis
          else if axis < numVisibleAxes st \<and> IsBitSet (GetCurrentAxisMapping env (alAxis1 al)) axis then
            alUserArcCentre1 al * axisScaleFactors st axis + currentBabyStepOffsets st axis
              - ToolGetOffset env (currentTool st) axis
          else arcCentre (moveState st) axis)"
proof -
  let ?st1 = "st\<lparr>moveState := (moveState st)\<lparr>checkEndstops := False,
                   reduceAcceleration := False, moveType := 0, tool := currentTool st,
                   isCoordinated := True\<rparr>\<rparr>"
  let ?centre = "(\<lambda>axis.
          if axis < numVisibleAxes st \<and> IsBitSet (GetCurrentAxisMapping env (alAxis0 al)) axis then
            alUserArcCentre0 al * axisScaleFactors st axis + currentBabyStepOffsets st axis
              - ToolGetOffset env (currentTool st) axis
          else if axis < numVisibleAxes st \<and> IsBitSet (GetCurrentAxisMapping env (alAxis1 al)) axis then
            alUserArcCentre1 al * axisScaleFactors st axis + currentBabyStepOffsets st axis
              - ToolGetOffset env (currentTool st) axis
          else arcCentre (moveState st) axis)"
  let ?st2 = "?st1\<lparr>moveState := (moveState ?st1)\<lparr>arcCentre := ?centre\<rparr>\<rparr>"
  let ?le = "LoadExtrusionAndFeedrateFromGCode env ?st2 gb True"
  let ?st3 = "applyExtrusionEffect ?le gb ?st2"
  let ?st4 = "(if IsFirstMoveSincePrintingResumed env
                then ?st3\<lparr>calls := calls ?st3 @ [CallDoneMoveSincePrintingResumed]\<rparr>
                else ?st3)"
  let ?st5 = "arcLaserOrIoBits env cmd ?st4"
  let ?st6 = "?st5\<lparr>moveState := (moveState ?st5)\<lparr>usePressureAdvance :=
                             hasPositiveExtrusion (moveState ?st5)\<rparr>\<rparr>"
  have "st' = DoArcMove_segments cfg env gb clockwise al
                (selectedPlane (LatestMachineState st gb)) ?st6"
    using assms
    by (simp add: DoArcMove_commit_def Let_def LatestMachineState_def
        split: option.splits if_splits prod.splits bool.splits cong: if_cong)
  moreover have "arcCurrentAngle (moveState ?st6) = arcCurrentAngle (moveState st)"
    by (simp add: arcLaserOrIoBits_frame applyExtrusionEffect_frame)
  moreover have "arcRadius (moveState ?st6) = arcRadius (moveState st)"
    by (simp add: arcLaserOrIoBits_frame applyExtrusionEffect_frame)
  moreover have "arcCentre (moveState ?st6) = ?centre"
    by (simp add: arcLaserOrIoBits_frame applyExtrusionEffect_frame)
  ultimately show thesis by (rule that)
qed

lemma DoArcMove_Finished:
  assumes "DoArcMove cfg env gb cmd clockwise st = (Finished, st')"
  obtains st1 axis0 axis1 e0 e1 i j st2 al where
    "DoArcMove_begin env gb cmd clockwise st = (st1, Inr (axis0, axis1, e0, e1, i, j))"
    "DoArcMove_geometry env gb cmd axis0 axis1 e0 e1 i j st1 = (st2, Inr al)"
    "DoArcMove_commit cfg env gb cmd clockwise al st2 = (Finished, st')"
  using assms
  by (auto simp: DoArcMove_def split: prod.splits sum.splits)

lemma atan2_examples: "atan2 0 (- 5) = pi" "atan2 0 5 = 0"
  by (simp_all add: atan2_def)

lemma char_of_IJK:
  "char_of (73::nat) = CHR ''I''" "char_of (74::nat) = CHR ''J''" "char_of (75::nat) = CHR ''K''"
  by code_simp+

lemma idle_begin_semicircle:
  "snd (DoArcMove_begin idleEnv 0 semicircleCmd False idleGCodes) = Inr (0, 1, 10, 0, 5, 0)"
    "initialUserC0 (moveState (fst (DoArcMove_begin idleEnv 0 semicircleCmd False idleGCodes))) = 0"
    "initialUserC1 (moveState (fst (DoArcMove_begin idleEnv 0 semicircleCmd False idleGCodes))) = 0"
  by (simp_all add: DoArcMove_begin_def DoArcMove_endpoints_def Let_def idleGCodes_def idleEnv_def semicircleCmd_def
      LatestMachineState_def idleBuffer_def idleFrame_def idleMove_def X_AXIS_def Y_AXIS_def
      Z_AXIS_def arcNewAxisPos_def arcOffsets_def char_of_IJK)


lemma DoArcMove_idle_geometry:
  "\<exists>st2 al. DoArcMove_geometry idleEnv gb cmd axis0 axis1 e0 e1 i j st = (st2, Inr al)"
  by (simp add: DoArcMove_geometry_def Let_def idleEnv_def CheckEnoughAxesHomed_def
      IsNonEmpty_def)

lemma DoArcMove_idle_commit:
  "fst (DoArcMove_commit cfg idleEnv gb cmd clockwise al st) = Finished"
  by (simp add: DoArcMove_commit_def Let_def idleEnv_def)

lemma DoArcMove_idle_Finished:
  assumes "snd (DoArcMove_begin idleEnv gb cmd clockwise st) = Inr r"
  shows "fst (DoArcMove cfg idleEnv gb cmd clockwise st) = Finished"
proof -
  obtain st1 where b: "DoArcMove_begin idleEnv gb cmd clockwise st = (st1, Inr r)"
    using assms by (cases "DoArcMove_begin idleEnv gb cmd clockwise st") simp
  obtain axis0 axis1 e0 e1 i j where r: "r = (axis0, axis1, e0, e1, i, j)"
    by (cases r) auto
  obtain st2 al where g:
    "DoArcMove_geometry idleEnv gb cmd axis0 axis1 e0 e1 i j st1 = (st2, Inr al)"
    using DoArcMove_idle_geometry by blast
  show ?thesis
    by (simp add: DoArcMove_def b r g DoArcMove_idle_commit)
qed

text \<open>
  Claim C7. Let the first part of \<^verbatim>\<open>DoArcMove\<close> deliver the start point \<open>(c0, c1)\<close>, the
  end point \<open>(e0, e1)\<close> and the centre offsets \<open>(i, j)\<close>, and let the move be committed.
  For start \<open>(0, 0)\<close>, end \<open>(10, 0)\<close>, \<open>I = 5\<close>, \<open>J = 0\<close>, anticlockwise, the total arc
  is \<open>\<pi>\<close>: this is the value of the local \<^verbatim>\<open>totalArc\<close> and it is what the committed
  segments sweep together. The centre is \<open>(5, 0)\<close>: without coordinate rotation, every
  axis mapped to the first axis of the plane has centre \<open>5\<close> and every axis mapped to the
  second has centre \<open>0\<close>, in machine coordinates (scaled, with baby stepping and tool
  offset). When the start point equals the end point, the total arc is \<open>2\<pi>\<close>.
\<close>

theorem DoArcMove_total_arc:
  assumes "DoArcMove cfg env gb cmd clockwise st = (Finished, st')"
    and "DoArcMove_begin env gb cmd clockwise st = (st1, Inr (axis0, axis1, e0, e1, i, j))"
    and "c0 = initialUserC0 (moveState st1)" and "c1 = initialUserC1 (moveState st1)"
  shows "(c0 = 0 \<and> c1 = 0 \<and> e0 = 10 \<and> e1 = 0 \<and> i = 5 \<and> j = 0 \<and> \<not> clockwise \<longrightarrow>
            arcTotalArc clockwise False (atan2 (- j) (- i))
              (atan2 (e1 - (c1 + j)) (e0 - (c0 + i))) = pi \<and>
            real (totalSegments (moveState st')) * arcAngleIncrement (moveState st') = pi \<and>
            (\<not> (g68Angle st \<noteq> 0 \<and> DoingCoordinateRotation env gb) \<and> axis < numVisibleAxes st \<longrightarrow>
               (IsBitSet (GetCurrentAxisMapping env axis0) axis \<longrightarrow>
                  arcCentre (moveState st') axis =
                    5 * axisScaleFactors st axis + currentBabyStepOffsets st axis
                      - ToolGetOffset env (currentTool st) axis) \<and>
               (\<not> IsBitSet (GetCurrentAxisMapping env axis0) axis \<and>
                IsBitSet (GetCurrentAxisMapping env axis1) axis \<longrightarrow>
                  arcCentre (moveState st') axis =
                    0 * axisScaleFactors st axis + currentBabyStepOffsets st axis
                      - ToolGetOffset env (currentTool st) axis))) \<and>
         (c0 = e0 \<and> c1 = e1 \<longrightarrow>
            arcTotalArc clockwise True (atan2 (- j) (- i))
              (atan2 (e1 - (c1 + j)) (e0 - (c0 + i))) = 2 * pi \<and>
            real (totalSegments (moveState st')) * arcAngleIncrement (moveState st') =
              (if clockwise then - (2 * pi) else 2 * pi))"
proof -
  from assms(1) obtain s1 a0 a1 x0 x1 i' j' st2 al where
    b: "DoArcMove_begin env gb cmd clockwise st = (s1, Inr (a0, a1, x0, x1, i', j'))" and
    g: "DoArcMove_geometry env gb cmd a0 a1 x0 x1 i' j' s1 = (st2, Inr al)" and
    c: "DoArcMove_commit cfg env gb cmd clockwise al st2 = (Finished, st')"
    by (rule DoArcMove_Finished)
  from b assms(2) have eqs: "s1 = st1" "a0 = axis0" "a1 = axis1" "x0 = e0" "x1 = e1" "i' = i" "j' = j"
    by simp_all
  note g = g [unfolded eqs] and b = b [unfolded eqs]
  have ne: "axis0 \<noteq> axis1" using b by (rule DoArcMove_begin_Inr)
  from c obtain st6 where
    s: "st' = DoArcMove_segments cfg env gb clockwise al (selectedPlane (LatestMachineState st2 gb)) st6"
    and ang: "arcCurrentAngle (moveState st6) = arcCurrentAngle (moveState st2)"
    and cen: "arcCentre (moveState st6) =
       (\<lambda>axis.
          if axis < numVisibleAxes st2 \<and> IsBitSet (GetCurrentAxisMapping env (alAxis0 al)) axis then
            alUserArcCentre0 al * axisScaleFactors st2 axis + currentBabyStepOffsets st2 axis
              - ToolGetOffset env (currentTool st2) axis
          else if axis < numVisibleAxes st2 \<and> IsBitSet (GetCurrentAxisMapping env (alAxis1 al)) axis then
            alUserArcCentre1 al * axisScaleFactors st2 axis + currentBabyStepOffsets st2 axis
              - ToolGetOffset env (currentTool st2) axis
          else arcCentre (moveState st2) axis)"
    by (rule DoArcMove_commit_Finished)
  let ?total = "arcTotalArc clockwise (alWholeCircle al) (arcCurrentAngle (moveState st6)) (alFinalTheta al)"
  have sweep: "real (totalSegments (moveState st')) * arcAngleIncrement (moveState st') =
      (if clockwise then - ?total else ?total)"
    using s refl by (rule DoArcMove_segments_facts(2))
  have cen': "arcCentre (moveState st') = arcCentre (moveState st6)"
    using s refl by (rule DoArcMove_segments_facts(3))
  have whole: "alWholeCircle al = (c0 = e0 \<and> c1 = e1)"
    using DoArcMove_geometry_Inr(1) [OF g ne] assms(3,4) by simp
  have diff: "alFinalTheta al - arcCurrentAngle (moveState st6) =
      atan2 (e1 - (c1 + j)) (e0 - (c0 + i)) - atan2 (- j) (- i)"
    using DoArcMove_geometry_Inr(2) [OF g ne] assms(3,4) ang by simp
  have frame: "numVisibleAxes st2 = numVisibleAxes st" "axisScaleFactors st2 = axisScaleFactors st"
    "currentBabyStepOffsets st2 = currentBabyStepOffsets st" "currentTool st2 = currentTool st"
    "g68Angle st1 = g68Angle st"
    using DoArcMove_geometry_frame [OF g] DoArcMove_begin_Inr [OF b] by simp_all
  have ax: "alAxis0 al = axis0" "alAxis1 al = axis1"
    using DoArcMove_geometry_Inr [OF g ne] by simp_all
  show ?thesis
  proof (intro conjI impI)
    assume h: "c0 = 0 \<and> c1 = 0 \<and> e0 = 10 \<and> e1 = 0 \<and> i = 5 \<and> j = 0 \<and> \<not> clockwise"
    show "arcTotalArc clockwise False (atan2 (- j) (- i)) (atan2 (e1 - (c1 + j)) (e0 - (c0 + i))) = pi"
      using h by (simp add: arcTotalArc_def atan2_examples TwoPi_def)
    have "\<not> alWholeCircle al" using whole h by simp
    moreover have "alFinalTheta al - arcCurrentAngle (moveState st6) = - pi"
      using diff h by (simp add: atan2_examples)
    ultimately have "?total = pi"
      by (simp add: arcTotalArc_def TwoPi_def Let_def h)
    then show "real (totalSegments (moveState st')) * arcAngleIncrement (moveState st') = pi"
      using sweep h by simp
  next
    assume h: "c0 = 0 \<and> c1 = 0 \<and> e0 = 10 \<and> e1 = 0 \<and> i = 5 \<and> j = 0 \<and> \<not> clockwise"
      and r: "\<not> (g68Angle st \<noteq> 0 \<and> DoingCoordinateRotation env gb) \<and> axis < numVisibleAxes st"
    have uc: "alUserArcCentre0 al = 5 \<and> alUserArcCentre1 al = 0"
      using DoArcMove_geometry_Inr(5) [OF g ne] r frame assms(3,4) h by simp
    show "IsBitSet (GetCurrentAxisMapping env axis0) axis \<Longrightarrow>
        arcCentre (moveState st') axis =
          5 * axisScaleFactors st axis + currentBabyStepOffsets st axis
            - ToolGetOffset env (currentTool st) axis"
      using r by (simp add: cen' cen frame ax uc)
    show "\<not> IsBitSet (GetCurrentAxisMapping env axis0) axis \<and>
          IsBitSet (GetCurrentAxisMapping env axis1) axis \<Longrightarrow>
        arcCentre (moveState st') axis =
          0 * axisScaleFactors st axis + currentBabyStepOffsets st axis
            - ToolGetOffset env (currentTool st) axis"
      using r by (simp add: cen' cen frame ax uc)
  next
    assume h: "c0 = e0 \<and> c1 = e1"
    show "arcTotalArc clockwise True (atan2 (- j) (- i)) (atan2 (e1 - (c1 + j)) (e0 - (c0 + i))) = 2 * pi"
      by (simp add: arcTotalArc_def TwoPi_def)
    have "?total = 2 * pi" using whole h by (simp add: arcTotalArc_def TwoPi_def)
    then show "real (totalSegments (moveState st')) * arcAngleIncrement (moveState st') =
        (if clockwise then - (2 * pi) else 2 * pi)"
      using sweep by (cases clockwise) simp_all
  qed
qed


lemma idle_begin_circle:
  "snd (DoArcMove_begin idleEnv 0 circleCmd True idleGCodes) = Inr (0, 1, 0, 0, 0, 5)"
    "initialUserC0 (moveState (fst (DoArcMove_begin idleEnv 0 circleCmd True idleGCodes))) = 0"
    "initialUserC1 (moveState (fst (DoArcMove_begin idleEnv 0 circleCmd True idleGCodes))) = 0"
  by (simp_all add: DoArcMove_begin_def DoArcMove_endpoints_def Let_def idleGCodes_def idleEnv_def
      circleCmd_def LatestMachineState_def idleBuffer_def idleFrame_def idleMove_def X_AXIS_def
      Y_AXIS_def Z_AXIS_def arcNewAxisPos_def arcOffsets_def char_of_IJK)

theorem DoArcMove_total_arc_witness:
  "fst (DoArcMove duetConfig idleEnv 0 semicircleCmd False idleGCodes) = Finished \<and>
   real (totalSegments (moveState (snd (DoArcMove duetConfig idleEnv 0 semicircleCmd False idleGCodes))))
     * arcAngleIncrement (moveState (snd (DoArcMove duetConfig idleEnv 0 semicircleCmd False idleGCodes)))
     = pi \<and>
   arcCentre (moveState (snd (DoArcMove duetConfig idleEnv 0 semicircleCmd False idleGCodes))) 0 = 5 \<and>
   arcCentre (moveState (snd (DoArcMove duetConfig idleEnv 0 semicircleCmd False idleGCodes))) 1 = 0 \<and>
   fst (DoArcMove duetConfig idleEnv 0 circleCmd True idleGCodes) = Finished \<and>
   real (totalSegments (moveState (snd (DoArcMove duetConfig idleEnv 0 circleCmd True idleGCodes))))
     * arcAngleIncrement (moveState (snd (DoArcMove duetConfig idleEnv 0 circleCmd True idleGCodes)))
     = - (2 * pi)"
proof -
  let ?semi = "DoArcMove duetConfig idleEnv 0 semicircleCmd False idleGCodes"
  let ?bsemi = "DoArcMove_begin idleEnv 0 semicircleCmd False idleGCodes"
  let ?circ = "DoArcMove duetConfig idleEnv 0 circleCmd True idleGCodes"
  let ?bcirc = "DoArcMove_begin idleEnv 0 circleCmd True idleGCodes"
  have f1: "fst ?semi = Finished"
    using idle_begin_semicircle(1) by (rule DoArcMove_idle_Finished)
  then have r1: "?semi = (Finished, snd ?semi)" by (simp add: prod_eq_iff)
  have b1: "?bsemi = (fst ?bsemi, Inr (0, 1, 10, 0, 5, 0))"
    using idle_begin_semicircle(1) by (simp add: prod_eq_iff)
  have f2: "fst ?circ = Finished"
    using idle_begin_circle(1) by (rule DoArcMove_idle_Finished)
  then have r2: "?circ = (Finished, snd ?circ)" by (simp add: prod_eq_iff)
  have b2: "?bcirc = (fst ?bcirc, Inr (0, 1, 0, 0, 0, 5))"
    using idle_begin_circle(1) by (simp add: prod_eq_iff)
  have env: "g68Angle idleGCodes = 0" "numVisibleAxes idleGCodes = 3"
    "axisScaleFactors idleGCodes = (\<lambda>_. 1)" "currentBabyStepOffsets idleGCodes = (\<lambda>_. 0)"
    "GetCurrentAxisMapping idleEnv = (\<lambda>axis. {axis})" "ToolGetOffset idleEnv = (\<lambda>_ _. 0)"
    by (simp_all add: idleGCodes_def idleEnv_def)
  have x: "real (totalSegments (moveState (snd ?semi))) * arcAngleIncrement (moveState (snd ?semi)) = pi
      \<and> arcCentre (moveState (snd ?semi)) 0 = 5"
    using DoArcMove_total_arc [OF r1 b1 refl refl, of 0] idle_begin_semicircle(2,3) env
    by (simp add: IsBitSet_def)
  have y: "arcCentre (moveState (snd ?semi)) 1 = 0"
    using DoArcMove_total_arc [OF r1 b1 refl refl, of 1] idle_begin_semicircle(2,3) env
    by (simp add: IsBitSet_def)
  have z: "real (totalSegments (moveState (snd ?circ))) * arcAngleIncrement (moveState (snd ?circ))
      = - (2 * pi)"
    using DoArcMove_total_arc [OF r2 b2 refl refl, of 0] idle_begin_circle(2,3)
    by simp
  show ?thesis using f1 f2 x y z by simp
qed

section \<open>Pausing after arc segments\<close>

lemma DoArcMove_Finished_flags:
  assumes "DoArcMove cfg env gb cmd clockwise st = (Finished, st')"
  shows "\<not> canPauseAfter (moveState st')" and "doingArcMove (moveState st')"
    and "1 \<le> totalSegments (moveState st')"
    and "\<not> IsCurrentObjectCancelled env \<Longrightarrow>
           segmentsLeft (moveState st') = totalSegments (moveState st')"
proof -
  from assms obtain st1 axis0 axis1 e0 e1 i j st2 al where
    c: "DoArcMove_commit cfg env gb cmd clockwise al st2 = (Finished, st')"
    by (rule DoArcMove_Finished)
  from c obtain st6 where
    s: "st' = DoArcMove_segments cfg env gb clockwise al (selectedPlane (LatestMachineState st2 gb)) st6"
    by (rule DoArcMove_commit_Finished)
  show "\<not> canPauseAfter (moveState st')" using s refl by (rule DoArcMove_segments_facts(4))
  show "doingArcMove (moveState st')" using s refl by (rule DoArcMove_segments_facts(5))
  show "1 \<le> totalSegments (moveState st')" using s refl by (rule DoArcMove_segments_facts(1))
  show "segmentsLeft (moveState st') = totalSegments (moveState st')"
    if "\<not> IsCurrentObjectCancelled env"
    using DoArcMove_segments_facts(6) [OF s refl] that by simp
qed

lemma ReadMove_arc:
  assumes "doingArcMove (moveState st)" "\<not> canPauseAfter (moveState st)"
    "0 < segmentsLeft (moveState st)" "segmentsLeft (moveState st) < 4294967296"
    "ReadMove cfg env st = (Some m, st')"
  shows "(canPauseAfter m \<longleftrightarrow> segmentsLeft (moveState st') = 0) \<and>
         segmentsLeft (moveState st') < segmentsLeft (moveState st) \<and>
         (segmentsLeft (moveState st') \<noteq> 0 \<longrightarrow>
            doingArcMove (moveState st') \<and> \<not> canPauseAfter (moveState st'))"
proof -
  have "ReadMove_loop cfg env st = (Some m, st')"
    using assms(3,5) by (simp add: ReadMove_def)
  with assms(1-4) show ?thesis by (rule ReadMove_loop_arc)
qed

lemma ReadMove_arc_last:
  assumes "doingArcMove (moveState st)" "segmentsLeft (moveState st) = 1"
  shows "\<exists>m. fst (ReadMove cfg env st) = Some m \<and> canPauseAfter m"
proof -
  obtain r st' where r: "ReadMove_last cfg (RawMove.truncate (moveState st)) st = (r, st')"
    by (cases "ReadMove_last cfg (RawMove.truncate (moveState st)) st")
  have "ReadMove cfg env st = (r, st')"
    using assms(2) r by (simp add: ReadMove_def ReadMove_loop.simps [of cfg env st])
  with ReadMove_last_arc(1) [OF assms(1) r] show ?thesis by simp
qed

text \<open>
  Claim C10. A committed arc move has \<^verbatim>\<open>canPauseAfter\<close> false and \<^verbatim>\<open>doingArcMove\<close> true,
  and it is published with \<^verbatim>\<open>segmentsLeft = totalSegments\<close>, at least 1, unless the
  current object is cancelled. From such a state \<^verbatim>\<open>ReadMove\<close> hands over a copy that
  allows pausing exactly when it is the final segment (afterwards no segment is left);
  while segments remain the move keeps \<^verbatim>\<open>canPauseAfter\<close> false. When exactly one segment
  remains, \<^verbatim>\<open>ReadMove\<close> does hand over a copy, and it has \<^verbatim>\<open>canPauseAfter\<close> true.
\<close>

theorem arc_canPauseAfter_final_segment:
  "(DoArcMove cfg env gb cmd clockwise st = (Finished, st1) \<longrightarrow>
      \<not> canPauseAfter (moveState st1) \<and> doingArcMove (moveState st1) \<and>
      1 \<le> totalSegments (moveState st1) \<and>
      (\<not> IsCurrentObjectCancelled env \<longrightarrow>
         segmentsLeft (moveState st1) = totalSegments (moveState st1))) \<and>
   (doingArcMove (moveState st2) \<and> \<not> canPauseAfter (moveState st2) \<and>
    0 < segmentsLeft (moveState st2) \<and> segmentsLeft (moveState st2) < 4294967296 \<and>
    ReadMove cfg env st2 = (Some m, st3) \<longrightarrow>
      (canPauseAfter m \<longleftrightarrow> segmentsLeft (moveState st3) = 0) \<and>
      segmentsLeft (moveState st3) < segmentsLeft (moveState st2) \<and>
      (segmentsLeft (moveState st3) \<noteq> 0 \<longrightarrow>
         doingArcMove (moveState st3) \<and> \<not> canPauseAfter (moveState st3))) \<and>
   (doingArcMove (moveState st2) \<and> segmentsLeft (moveState st2) = 1 \<longrightarrow>
      (\<exists>m'. fst (ReadMove cfg env st2) = Some m' \<and> canPauseAfter m'))"
proof (intro conjI impI)
  assume a: "DoArcMove cfg env gb cmd clockwise st = (Finished, st1)"
  show "\<not> canPauseAfter (moveState st1)" using a by (rule DoArcMove_Finished_flags)
  show "doingArcMove (moveState st1)" using a by (rule DoArcMove_Finished_flags)
  show "1 \<le> totalSegments (moveState st1)" using a by (rule DoArcMove_Finished_flags)
  show "segmentsLeft (moveState st1) = totalSegments (moveState st1)"
    if "\<not> IsCurrentObjectCancelled env"
    using a that by (rule DoArcMove_Finished_flags)
next
  assume a: "doingArcMove (moveState st2) \<and> \<not> canPauseAfter (moveState st2) \<and>
    0 < segmentsLeft (moveState st2) \<and> segmentsLeft (moveState st2) < 4294967296 \<and>
    ReadMove cfg env st2 = (Some m, st3)"
  then have r: "(canPauseAfter m \<longleftrightarrow> segmentsLeft (moveState st3) = 0) \<and>
      segmentsLeft (moveState st3) < segmentsLeft (moveState st2) \<and>
      (segmentsLeft (moveState st3) \<noteq> 0 \<longrightarrow>
         doingArcMove (moveState st3) \<and> \<not> canPauseAfter (moveState st3))"
    using ReadMove_arc [of st2 cfg env m st3] by simp
  from r show "canPauseAfter m \<longleftrightarrow> segmentsLeft (moveState st3) = 0" by simp
  from r show "segmentsLeft (moveState st3) < segmentsLeft (moveState st2)" by simp
  from r show "doingArcMove (moveState st3)" if "segmentsLeft (moveState st3) \<noteq> 0"
    using that by simp
  from r show "\<not> canPauseAfter (moveState st3)" if "segmentsLeft (moveState st3) \<noteq> 0"
    using that by simp
next
  assume "doingArcMove (moveState st2) \<and> segmentsLeft (moveState st2) = 1"
  then show "\<exists>m'. fst (ReadMove cfg env st2) = Some m' \<and> canPauseAfter m'"
    using ReadMove_arc_last by blast
qed

lemma earlierArcSegment_read:
  "\<exists>m. fst (ReadMove duetConfig idleEnv earlierArcSegment) = Some m"
  by (simp add: ReadMove_def ReadMove_loop.simps [of duetConfig idleEnv earlierArcSegment]
      earlierArcSegment_def ReadMove_advance_def ReadMove_deliver_def idleEnv_def Let_def
      idleGCodes_def idleMove_def)

theorem arc_canPauseAfter_final_segment_witness:
  "fst (DoArcMove duetConfig idleEnv 0 semicircleCmd False idleGCodes) = Finished \<and>
   \<not> canPauseAfter (moveState (snd (DoArcMove duetConfig idleEnv 0 semicircleCmd False idleGCodes))) \<and>
   segmentsLeft (moveState (snd (DoArcMove duetConfig idleEnv 0 semicircleCmd False idleGCodes))) =
     totalSegments (moveState (snd (DoArcMove duetConfig idleEnv 0 semicircleCmd False idleGCodes))) \<and>
   (\<exists>m. fst (ReadMove duetConfig idleEnv earlierArcSegment) = Some m \<and> \<not> canPauseAfter m) \<and>
   (\<exists>m. fst (ReadMove duetConfig idleEnv lastArcSegment) = Some m \<and> canPauseAfter m)"
proof -
  let ?semi = "DoArcMove duetConfig idleEnv 0 semicircleCmd False idleGCodes"
  have f1: "fst ?semi = Finished"
    using idle_begin_semicircle(1) by (rule DoArcMove_idle_Finished)
  then have r1: "?semi = (Finished, snd ?semi)" by (simp add: prod_eq_iff)
  have nc: "\<not> IsCurrentObjectCancelled idleEnv" by (simp add: idleEnv_def)
  have a: "\<not> canPauseAfter (moveState (snd ?semi)) \<and>
      segmentsLeft (moveState (snd ?semi)) = totalSegments (moveState (snd ?semi))"
    using arc_canPauseAfter_final_segment
      [of duetConfig idleEnv 0 semicircleCmd False idleGCodes "snd ?semi"] r1 nc
    by simp
  obtain m where m: "fst (ReadMove duetConfig idleEnv earlierArcSegment) = Some m"
    using earlierArcSegment_read by blast
  let ?st3 = "snd (ReadMove duetConfig idleEnv earlierArcSegment)"
  have rm: "ReadMove duetConfig idleEnv earlierArcSegment = (Some m, ?st3)"
    using m by (simp add: prod_eq_iff)
  have e: "doingArcMove (moveState earlierArcSegment)" "\<not> canPauseAfter (moveState earlierArcSegment)"
    "segmentsLeft (moveState earlierArcSegment) = 2"
    by (simp_all add: earlierArcSegment_def idleMove_def)
  have inst: "(canPauseAfter m \<longleftrightarrow> segmentsLeft (moveState ?st3) = 0) \<and>
      (segmentsLeft (moveState ?st3) \<noteq> 0 \<longrightarrow> \<not> canPauseAfter (moveState ?st3))"
    using arc_canPauseAfter_final_segment
      [of duetConfig idleEnv 0 semicircleCmd False idleGCodes "snd ?semi" earlierArcSegment m ?st3]
      rm e
    by simp
  have left: "segmentsLeft (moveState ?st3) = 1"
    by (simp add: ReadMove_def ReadMove_loop.simps [of duetConfig idleEnv earlierArcSegment]
      earlierArcSegment_def ReadMove_advance_def ReadMove_deliver_def idleEnv_def Let_def
      idleGCodes_def idleMove_def dec32_def)
  have b: "\<exists>m. fst (ReadMove duetConfig idleEnv earlierArcSegment) = Some m \<and> \<not> canPauseAfter m"
    using m inst left by simp
  have l: "doingArcMove (moveState lastArcSegment)" "segmentsLeft (moveState lastArcSegment) = 1"
    by (simp_all add: lastArcSegment_def idleMove_def)
  have c: "\<exists>m. fst (ReadMove duetConfig idleEnv lastArcSegment) = Some m \<and> canPauseAfter m"
    using arc_canPauseAfter_final_segment
      [of duetConfig idleEnv 0 semicircleCmd False idleGCodes "snd ?semi" lastArcSegment]
      l
    by simp
  show ?thesis using f1 a b c by simp
qed

section \<open>Properties of arcs given by a radius\<close>

lemma tolerance_arith:
  fixes R D :: real
  shows "(4.08 * R < D) = (R - D / 4 < - 0.02 * R)"
    and "4 * R < D \<Longrightarrow> \<not> 0 \<le> R - D / 4"
    and "0 \<le> R \<Longrightarrow> 4 * R < D \<Longrightarrow> D \<noteq> 0"
  by (simp_all add: field_simps)

lemma arcFromRadius_too_small:
  assumes "fsquare dx + fsquare dy \<noteq> 0" and "4.08 * fsquare r < fsquare dx + fsquare dy"
  shows "arcFromRadius clockwise r dx dy = Inl ''G2/G3: radius is too small to reach endpoint''"
proof -
  have r: "0 \<le> fsquare r" by (simp add: fsquare_def)
  have a: "fsquare r - (fsquare dx + fsquare dy) / 4 < - 0.02 * fsquare r"
    using assms(2) by (simp only: tolerance_arith(1))
  have "4 * fsquare r \<le> 4.08 * fsquare r" using r by simp
  then have "4 * fsquare r < fsquare dx + fsquare dy" using assms(2) by simp
  then have b: "\<not> 0 \<le> fsquare r - (fsquare dx + fsquare dy) / 4"
    by (rule tolerance_arith(2))
  show ?thesis using assms(1) a b by (simp add: arcFromRadius_def Let_def)
qed

lemma arcFromRadius_half_circle:
  assumes "fsquare dx + fsquare dy \<noteq> 0" and "fsquare dx + fsquare dy = 4 * fsquare r"
  shows "arcFromRadius clockwise r dx dy = Inr (0, dx / 2, dy / 2)"
  using assms by (simp add: arcFromRadius_def Let_def)

lemma arcFromRadius_clamped:
  assumes "4 * fsquare r < fsquare dx + fsquare dy"
    and "fsquare dx + fsquare dy \<le> 4.08 * fsquare r"
  shows "arcFromRadius clockwise r dx dy = Inr (0, dx / 2, dy / 2)"
proof -
  have "0 \<le> fsquare r" by (simp add: fsquare_def)
  then have a: "fsquare dx + fsquare dy \<noteq> 0" using assms(1) by (rule tolerance_arith(3))
  have b: "\<not> 0 \<le> fsquare r - (fsquare dx + fsquare dy) / 4"
    using assms(1) by (rule tolerance_arith(2))
  have c: "\<not> fsquare r - (fsquare dx + fsquare dy) / 4 < - 0.02 * fsquare r"
  proof
    assume "fsquare r - (fsquare dx + fsquare dy) / 4 < - 0.02 * fsquare r"
    then have "4.08 * fsquare r < fsquare dx + fsquare dy"
      by (simp only: tolerance_arith(1))
    with assms(2) show False by simp
  qed
  show ?thesis using a b c by (simp add: arcFromRadius_def Let_def)
qed

lemma DoArcMove_endpoints_frame:
  assumes "DoArcMove_endpoints env gb cmd st = (st1, axis0, axis1, e0, e1)"
  shows "segmentsLeft (moveState st1) = segmentsLeft (moveState st)"
    and "totalSegments (moveState st1) = totalSegments (moveState st)"
    and "calls st1 = calls st"
  using assms by (auto simp: DoArcMove_endpoints_def Let_def split: if_splits)

lemma DoArcMove_begin_radius:
  assumes "DoArcMove_endpoints env gb cmd st = (st1, axis0, axis1, e0, e1)"
    and "cmd CHR ''R'' = Some r"
    and "arcFromRadius clockwise r (e0 - initialUserC0 (moveState st1))
           (e1 - initialUserC1 (moveState st1)) = Inr (h, i, j)"
  shows "DoArcMove_begin env gb cmd clockwise st = (st1, Inr (axis0, axis1, e0, e1, i, j))"
  using assms by (simp add: DoArcMove_begin_def arcOffsets_def)

text \<open>
  Claim C6, as the code has it. For an arc given by a radius \<open>R\<close>, with \<open>dSquared\<close> the
  square of the distance between start and end point, not zero: when \<open>dSquared\<close> exceeds
  \<open>4.08 R\<^sup>2\<close> (the discriminant \<open>R\<^sup>2 - dSquared / 4\<close> is below \<open>- 0.02 R\<^sup>2\<close>), the move
  returns the error that the radius is too small, and no move is committed: the segment
  counters are unchanged and the motion system is not notified. When \<open>dSquared\<close> equals
  \<open>4 R\<^sup>2\<close>, and when it lies above \<open>4 R\<^sup>2\<close> but not above \<open>4.08 R\<^sup>2\<close> (a negative
  discriminant within the tolerance), \<open>hDivD\<close> is 0, the centre is the midpoint of the
  chord and the radius check passes.
\<close>

theorem DoArcMove_radius_tolerance:
  assumes "DoArcMove_endpoints env gb cmd st = (st1, axis0, axis1, e0, e1)"
    and "cmd CHR ''R'' = Some rParam"
    and "deltaAxis0 = e0 - initialUserC0 (moveState st1)"
    and "deltaAxis1 = e1 - initialUserC1 (moveState st1)"
    and "dSquared = fsquare deltaAxis0 + fsquare deltaAxis1"
    and "dSquared \<noteq> 0"
  shows "(4.08 * fsquare rParam < dSquared \<longrightarrow>
            DoArcMove cfg env gb cmd clockwise st =
              (Failed ''G2/G3: radius is too small to reach endpoint'', st1) \<and>
            segmentsLeft (moveState st1) = segmentsLeft (moveState st) \<and>
            totalSegments (moveState st1) = totalSegments (moveState st) \<and>
            calls st1 = calls st) \<and>
         (dSquared = 4 * fsquare rParam \<or>
          (4 * fsquare rParam < dSquared \<and> dSquared \<le> 4.08 * fsquare rParam) \<longrightarrow>
            arcFromRadius clockwise rParam deltaAxis0 deltaAxis1 =
              Inr (0, deltaAxis0 / 2, deltaAxis1 / 2) \<and>
            DoArcMove_begin env gb cmd clockwise st =
              (st1, Inr (axis0, axis1, e0, e1, deltaAxis0 / 2, deltaAxis1 / 2)))"
proof (intro conjI impI)
  assume a: "4.08 * fsquare rParam < dSquared"
  have "arcFromRadius clockwise rParam deltaAxis0 deltaAxis1 =
      Inl ''G2/G3: radius is too small to reach endpoint''"
    using assms(5,6) a by (intro arcFromRadius_too_small) simp_all
  then show "DoArcMove cfg env gb cmd clockwise st =
      (Failed ''G2/G3: radius is too small to reach endpoint'', st1)"
    using assms(1-4) by (simp add: DoArcMove_def DoArcMove_begin_def arcOffsets_def)
  show "segmentsLeft (moveState st1) = segmentsLeft (moveState st)"
    and "totalSegments (moveState st1) = totalSegments (moveState st)"
    and "calls st1 = calls st"
    using DoArcMove_endpoints_frame [OF assms(1)] by simp_all
next
  assume a: "dSquared = 4 * fsquare rParam \<or>
    (4 * fsquare rParam < dSquared \<and> dSquared \<le> 4.08 * fsquare rParam)"
  then show r: "arcFromRadius clockwise rParam deltaAxis0 deltaAxis1 =
      Inr (0, deltaAxis0 / 2, deltaAxis1 / 2)"
    using assms(5,6) arcFromRadius_half_circle arcFromRadius_clamped by auto
  then show "DoArcMove_begin env gb cmd clockwise st =
      (st1, Inr (axis0, axis1, e0, e1, deltaAxis0 / 2, deltaAxis1 / 2))"
    using assms(1-4) by (intro DoArcMove_begin_radius) simp_all
qed

lemma idle_endpoints_radius:
  "DoArcMove_endpoints idleEnv 0 (radiusCmd x) idleGCodes =
     (fst (DoArcMove_endpoints idleEnv 0 (radiusCmd x) idleGCodes), 0, 1, x, 0)"
  "initialUserC0 (moveState (fst (DoArcMove_endpoints idleEnv 0 (radiusCmd x) idleGCodes))) = 0"
  "initialUserC1 (moveState (fst (DoArcMove_endpoints idleEnv 0 (radiusCmd x) idleGCodes))) = 0"
  "radiusCmd x CHR ''R'' = Some 100"
  by (simp_all add: DoArcMove_endpoints_def Let_def idleGCodes_def idleEnv_def radiusCmd_def
      LatestMachineState_def idleBuffer_def idleFrame_def idleMove_def X_AXIS_def Y_AXIS_def
      Z_AXIS_def arcNewAxisPos_def)

theorem DoArcMove_radius_tolerance_witness:
  "fst (DoArcMove duetConfig idleEnv 0 (radiusCmd 300) False idleGCodes) =
     Failed ''G2/G3: radius is too small to reach endpoint'' \<and>
   segmentsLeft (moveState (snd (DoArcMove duetConfig idleEnv 0 (radiusCmd 300) False idleGCodes))) = 0 \<and>
   calls (snd (DoArcMove duetConfig idleEnv 0 (radiusCmd 300) False idleGCodes)) = [] \<and>
   arcFromRadius False 100 200 0 = Inr (0, 100, 0) \<and>
   arcFromRadius False 100 201 0 = Inr (0, 201 / 2, 0)"
proof -
  let ?st1 = "\<lambda>x. fst (DoArcMove_endpoints idleEnv 0 (radiusCmd x) idleGCodes)"
  have i: "segmentsLeft (moveState idleGCodes) = 0" "calls idleGCodes = []"
    by (simp_all add: idleGCodes_def idleMove_def)
  have a: "DoArcMove duetConfig idleEnv 0 (radiusCmd 300) False idleGCodes =
      (Failed ''G2/G3: radius is too small to reach endpoint'', ?st1 300) \<and>
      segmentsLeft (moveState (?st1 300)) = 0 \<and> calls (?st1 300) = []"
    using DoArcMove_radius_tolerance [OF idle_endpoints_radius(1) idle_endpoints_radius(4)
        refl refl refl, of 300 duetConfig False] i
    by (simp add: idle_endpoints_radius(2,3,4) fsquare_def)
  have b: "arcFromRadius False 100 200 0 = Inr (0, 100, 0)"
    using DoArcMove_radius_tolerance [OF idle_endpoints_radius(1) idle_endpoints_radius(4)
        refl refl refl, of 200 duetConfig False]
    by (simp add: idle_endpoints_radius(2,3,4) fsquare_def)
  have c: "arcFromRadius False 100 201 0 = Inr (0, 201 / 2, 0)"
    using DoArcMove_radius_tolerance [OF idle_endpoints_radius(1) idle_endpoints_radius(4)
        refl refl refl, of 201 duetConfig False]
    by (simp add: idle_endpoints_radius(2,3,4) fsquare_def)
  show ?thesis using a b c by simp
qed

text \<open>
  The claim as worded rejects every \<open>dSquared > 4 R\<^sup>2\<close>. With \<open>R = 100\<close>, start \<open>(0, 0)\<close>
  and end \<open>(201, 0)\<close>, \<open>dSquared = 40401\<close> exceeds \<open>4 R\<^sup>2 = 40000\<close>, yet no error is
  returned: \<open>hDivD\<close> is clamped to 0 and the move is committed.
\<close>

theorem DoArcMove_radius_counterexample:
  "4 * fsquare 100 < fsquare 201 + fsquare 0 \<and>
   arcFromRadius False 100 201 0 = Inr (0, 201 / 2, 0) \<and>
   fst (DoArcMove duetConfig idleEnv 0 (radiusCmd 201) False idleGCodes) = Finished"
proof -
  have a: "arcFromRadius False 100 201 0 = Inr (0, 201 / 2, 0)"
    by (simp add: arcFromRadius_def fsquare_def Let_def)
  have "DoArcMove_begin idleEnv 0 (radiusCmd 201) False idleGCodes =
      (fst (DoArcMove_endpoints idleEnv 0 (radiusCmd 201) idleGCodes),
       Inr (0, 1, 201, 0, 201 / 2, 0))"
    using idle_endpoints_radius(1) idle_endpoints_radius(4)
  proof (rule DoArcMove_begin_radius)
    show "arcFromRadius False 100
        (201 - initialUserC0 (moveState (fst (DoArcMove_endpoints idleEnv 0 (radiusCmd 201) idleGCodes))))
        (0 - initialUserC1 (moveState (fst (DoArcMove_endpoints idleEnv 0 (radiusCmd 201) idleGCodes))))
        = Inr (0, 201 / 2, 0)"
      using a by (simp add: idle_endpoints_radius(2,3))
  qed
  then have "snd (DoArcMove_begin idleEnv 0 (radiusCmd 201) False idleGCodes) =
      Inr (0, 1, 201, 0, 201 / 2, 0)"
    by simp
  then have "fst (DoArcMove duetConfig idleEnv 0 (radiusCmd 201) False idleGCodes) = Finished"
    by (rule DoArcMove_idle_Finished)
  then show ?thesis using a by (simp add: fsquare_def)
qed

section \<open>Properties of straight moves\<close>

lemma FinaliseMove_frame:
  "currentUserPosition (moveState (FinaliseMove cfg env gb st)) = currentUserPosition (moveState st)"
  "isCoordinated (moveState (FinaliseMove cfg env gb st)) = isCoordinated (moveState st)"
  "hasPositiveExtrusion (moveState (FinaliseMove cfg env gb st)) = hasPositiveExtrusion (moveState st)"
  "moveFeedRate (moveState (FinaliseMove cfg env gb st)) = moveFeedRate (moveState st)"
  "machineType (FinaliseMove cfg env gb st) = machineType st"
  "simulationMode (FinaliseMove cfg env gb st) = simulationMode st"
  by (simp_all add: FinaliseMove_def Let_def NewMoveAvailable_def SetState_def)

lemma UnlockAll_body_frame [simp]:
  "machineType (UnlockAll_body cfg gb keep i st) = machineType st"
  "simulationMode (UnlockAll_body cfg gb keep i st) = simulationMode st"
  by (simp_all add: UnlockAll_body_def Let_def updLatest_def)

lemma UnlockAll_frame:
  "machineType (UnlockAll cfg gb st) = machineType st"
  "simulationMode (UnlockAll cfg gb st) = simulationMode st"
proof -
  have "machineType (fold (UnlockAll_body cfg gb keep) xs st) = machineType st
      \<and> simulationMode (fold (UnlockAll_body cfg gb keep) xs st) = simulationMode st"
    for keep xs
    by (induction xs arbitrary: st) simp_all
  then show "machineType (UnlockAll cfg gb st) = machineType st"
    and "simulationMode (UnlockAll cfg gb st) = simulationMode st"
    by (simp_all add: UnlockAll_def Let_def)
qed

lemma straightSegments_cong:
  assumes "currentUserPosition (moveState a) = currentUserPosition (moveState b)"
    "isCoordinated (moveState a) = isCoordinated (moveState b)"
    "hasPositiveExtrusion (moveState a) = hasPositiveExtrusion (moveState b)"
    "moveFeedRate (moveState a) = moveFeedRate (moveState b)"
    "machineType a = machineType b" "simulationMode a = simulationMode b"
  shows "straightSegments cfg env init a = straightSegments cfg env init b"
  by (simp only: straightSegments_def Let_def assms)

lemma nat_max_1: "1 \<le> nat (max 1 (k::int))"
  by simp

lemma straightSegments_ge_1: "1 \<le> straightSegments cfg env init st"
  by (auto simp: straightSegments_def Let_def max_def)

lemma DoStraightMove_finish_frame:
  "totalSegments (moveState (DoStraightMove_finish cfg env gb am st)) = totalSegments (moveState st)"
  "segmentsLeft (moveState (DoStraightMove_finish cfg env gb am st)) =
     (if IsCurrentObjectCancelled env then segmentsLeft (moveState st)
      else totalSegments (moveState st))"
  "straightSegments cfg env init (DoStraightMove_finish cfg env gb am st) =
     straightSegments cfg env init st"
proof -
  show "totalSegments (moveState (DoStraightMove_finish cfg env gb am st)) = totalSegments (moveState st)"
    by (simp add: DoStraightMove_finish_def Let_def FinaliseMove_totalSegments)
  show "segmentsLeft (moveState (DoStraightMove_finish cfg env gb am st)) =
     (if IsCurrentObjectCancelled env then segmentsLeft (moveState st)
      else totalSegments (moveState st))"
    by (simp add: DoStraightMove_finish_def Let_def FinaliseMove_segmentsLeft)
  show "straightSegments cfg env init (DoStraightMove_finish cfg env gb am st) =
     straightSegments cfg env init st"
    by (rule straightSegments_cong)
      (simp_all add: DoStraightMove_finish_def Let_def FinaliseMove_frame UnlockAll_frame)
qed

lemma DoStraightMove_setup_trivial:
  assumes "moveType (moveState st) \<noteq> 0 \<or> IsEmpty axesMentioned"
  shows "fst (DoStraightMove_setup cfg env gb axesMentioned init st) = Finished"
    and "totalSegments (moveState (snd (DoStraightMove_setup cfg env gb axesMentioned init st))) = 1"
    and "\<not> IsCurrentObjectCancelled env \<Longrightarrow>
         segmentsLeft (moveState (snd (DoStraightMove_setup cfg env gb axesMentioned init st))) = 1"
  using assms
  by (auto simp: DoStraightMove_setup_def Let_def DoStraightMove_finish_frame SetState_def)

lemma DoStraightMove_setup_segments:
  assumes "DoStraightMove_setup cfg env gb axesMentioned init st = (Finished, st')"
    and "moveType (moveState st) = 0" and "\<not> IsEmpty axesMentioned"
  shows "totalSegments (moveState st') = straightSegments cfg env init st'"
proof -
  let ?st1 = "(if g68Angle st \<noteq> 0 \<and> DoingCoordinateRotation env gb then
                      st\<lparr>moveState := (moveState st)\<lparr>coords :=
                            ToolOffsetTransform st
                              (RotateCoordinates env (g68Angle st) (currentUserPosition (moveState st)))
                              axesMentioned (coords (moveState st))\<rparr>\<rparr>
                    else
                      st\<lparr>moveState := (moveState st)\<lparr>coords :=
                            ToolOffsetTransform st (currentUserPosition (moveState st))
                              axesMentioned (coords (moveState st))\<rparr>\<rparr>)"
  let ?h = "(if doingManualBedProbe ?st1 then ClearBit Z_AXIS (axesVirtuallyHomed ?st1)
             else axesVirtuallyHomed ?st1)"
  obtain st2 where l: "DoStraightMove_limits env ?h ?st1 = Inr st2"
    using assms by (cases "DoStraightMove_limits env ?h ?st1")
      (auto simp: DoStraightMove_setup_def Let_def)
  let ?st3 = "(if compatibilityNanoDLP env gb \<and> \<not> DoingFileMacro env
               then SetState gb waitingForSpecialMoveToComplete st2 else st2)"
  let ?st4 = "?st3\<lparr>moveState := (moveState ?st3)\<lparr>usePressureAdvance :=
                 (hasPositiveExtrusion (moveState ?st3)
                  \<and> IsNonEmpty (ClearBit Z_AXIS axesMentioned))\<rparr>\<rparr>"
  let ?st5 = "?st4\<lparr>moveState := (moveState ?st4)\<lparr>totalSegments :=
                 straightSegments cfg env init ?st4\<rparr>\<rparr>"
  have st': "st' = DoStraightMove_finish cfg env gb axesMentioned ?st5"
    using assms l by (simp add: DoStraightMove_setup_def Let_def)
  have "straightSegments cfg env init ?st5 = straightSegments cfg env init ?st4"
    by (rule straightSegments_cong) simp_all
  then show ?thesis
    by (simp add: st' DoStraightMove_finish_frame)
qed

lemma min_float_Finite: "min_float a (Finite b) = Finite (min a b)"
  by (simp add: min_def)

lemma straightSegments_kinematic:
  assumes "useSegmentation env" "simulationMode st \<noteq> simNormal"
    "hasPositiveExtrusion (moveState st) \<or> isCoordinated (moveState st) \<or> useG0Segmentation env"
    "\<not> IsUsingMesh env"
    "moveFeedRate (moveState st) * StepClockRate cfg \<noteq> 0"
  shows "straightSegments cfg env init st =
     nat (max 1 (lrintf (min
       (straightMoveLength env init (moveState st) * GetReciprocalMinSegmentLength env)
       (straightMoveLength env init (moveState st)
          / (moveFeedRate (moveState st) * StepClockRate cfg) * GetSegmentsPerSecond env))))"
proof -
  let ?L = "straightMoveLength env init (moveState st)"
  have "straightSegments cfg env init st =
      nat (max 1 (lrintf_float env
        (min_float (?L * GetReciprocalMinSegmentLength env)
           (times_float (divide_float ?L (moveFeedRate (moveState st) * StepClockRate cfg))
              (GetSegmentsPerSecond env)))))"
    using assms(1-4)
    by (cases "useZSegmentation env") (simp_all add: straightSegments_def straightMoveLength_def Let_def)
  also have "divide_float ?L (moveFeedRate (moveState st) * StepClockRate cfg) =
      Finite (?L / (moveFeedRate (moveState st) * StepClockRate cfg))"
    using assms(5) by (simp add: divide_float_def)
  finally show ?thesis
    by (simp only: times_float.simps min_float_Finite lrintf_float.simps)
qed

text \<open>
  At feed rate zero the move time of a move of positive length is infinite, and the
  count that the length gives is the smaller one.
\<close>

lemma straightSegments_zero_feed_rate:
  assumes "useSegmentation env" "simulationMode st \<noteq> simNormal"
    "hasPositiveExtrusion (moveState st) \<or> isCoordinated (moveState st) \<or> useG0Segmentation env"
    "\<not> IsUsingMesh env"
    "moveFeedRate (moveState st) * StepClockRate cfg = 0"
    "0 < straightMoveLength env init (moveState st)" "0 < GetSegmentsPerSecond env"
  shows "straightSegments cfg env init st =
     nat (max 1 (lrintf
       (straightMoveLength env init (moveState st) * GetReciprocalMinSegmentLength env)))"
proof -
  let ?L = "straightMoveLength env init (moveState st)"
  have "straightSegments cfg env init st =
      nat (max 1 (lrintf_float env
        (min_float (?L * GetReciprocalMinSegmentLength env)
           (times_float (divide_float ?L (moveFeedRate (moveState st) * StepClockRate cfg))
              (GetSegmentsPerSecond env)))))"
    using assms(1-4)
    by (cases "useZSegmentation env") (simp_all add: straightSegments_def straightMoveLength_def Let_def)
  also have "divide_float ?L (moveFeedRate (moveState st) * StepClockRate cfg) = PlusInfinity"
    using assms(5,6) by (simp add: divide_float_def)
  also have "times_float PlusInfinity (GetSegmentsPerSecond env) = PlusInfinity"
    using assms(7) by simp
  finally show ?thesis
    by (simp only: min_float.simps lrintf_float.simps)
qed

lemma straightSegments_plain:
  assumes "\<not> useSegmentation env" "\<not> IsUsingMesh env"
  shows "straightSegments cfg env init st = 1"
  using assms by (simp add: straightSegments_def Let_def)

lemma sqrt_25: "sqrt 25 = 5"
proof -
  have "sqrt (5 * 5) = \<bar>5\<bar>" by (rule real_sqrt_abs2)
  then show ?thesis by simp
qed

lemma lrintf_5_4: "lrintf (5 / 4) = 1"
proof -
  have "\<lfloor>5 / 4 :: real\<rfloor> = 1" by linarith
  then show ?thesis by (simp add: lrintf_def Let_def)
qed

text \<open>
  Claim C5, as the code has it. A straight move that mentions no axis, and any special
  move (move type other than 0), is committed with \<^verbatim>\<open>totalSegments = 1\<close>, and published
  with one segment left unless the current object is cancelled. A normal move on
  mentioned axes is committed with at least one segment. On a kinematics that segments
  (and segmentation applies to this move), without mesh compensation and at a feed rate
  other than zero, the number of segments is the nearest integer, at least 1, to the
  smaller of the length times the reciprocal of the minimum segment length and the move
  time times the segments per second. The length is that of the displacement of the user
  position in X and Y, and in Z when the kinematics segments in Z; the move time is the
  length divided by the feed rate in step clocks. Without segmentation and without mesh
  compensation the number of segments is 1.
\<close>

theorem DoStraightMove_totalSegments:
  "(moveType (moveState st) \<noteq> 0 \<or> IsEmpty axesMentioned \<longrightarrow>
      fst (DoStraightMove_setup cfg env gb axesMentioned init st) = Finished \<and>
      totalSegments (moveState (snd (DoStraightMove_setup cfg env gb axesMentioned init st))) = 1 \<and>
      (\<not> IsCurrentObjectCancelled env \<longrightarrow>
         segmentsLeft (moveState (snd (DoStraightMove_setup cfg env gb axesMentioned init st))) = 1)) \<and>
   (DoStraightMove_setup cfg env gb axesMentioned init st = (Finished, st') \<and>
    moveType (moveState st) = 0 \<and> \<not> IsEmpty axesMentioned \<longrightarrow>
      1 \<le> totalSegments (moveState st') \<and>
      (useSegmentation env \<and> simulationMode st' \<noteq> simNormal \<and>
       (hasPositiveExtrusion (moveState st') \<or> isCoordinated (moveState st')
          \<or> useG0Segmentation env) \<and>
       \<not> IsUsingMesh env \<and> moveFeedRate (moveState st') * StepClockRate cfg \<noteq> 0 \<longrightarrow>
         totalSegments (moveState st') =
           nat (max 1 (lrintf (min
             (straightMoveLength env init (moveState st') * GetReciprocalMinSegmentLength env)
             (straightMoveLength env init (moveState st')
                / (moveFeedRate (moveState st') * StepClockRate cfg)
                * GetSegmentsPerSecond env))))) \<and>
      (\<not> useSegmentation env \<and> \<not> IsUsingMesh env \<longrightarrow> totalSegments (moveState st') = 1))"
proof (intro conjI impI)
  assume a: "moveType (moveState st) \<noteq> 0 \<or> IsEmpty axesMentioned"
  show "fst (DoStraightMove_setup cfg env gb axesMentioned init st) = Finished"
    using a by (rule DoStraightMove_setup_trivial)
  show "totalSegments (moveState (snd (DoStraightMove_setup cfg env gb axesMentioned init st))) = 1"
    using a by (rule DoStraightMove_setup_trivial)
  show "segmentsLeft (moveState (snd (DoStraightMove_setup cfg env gb axesMentioned init st))) = 1"
    if "\<not> IsCurrentObjectCancelled env"
    using a that by (rule DoStraightMove_setup_trivial)
next
  assume a: "DoStraightMove_setup cfg env gb axesMentioned init st = (Finished, st') \<and>
    moveType (moveState st) = 0 \<and> \<not> IsEmpty axesMentioned"
  then have t: "totalSegments (moveState st') = straightSegments cfg env init st'"
    using DoStraightMove_setup_segments [of cfg env gb axesMentioned init st st'] by simp
  show "1 \<le> totalSegments (moveState st')"
    using t straightSegments_ge_1 [of cfg env init st'] by simp
  show "totalSegments (moveState st') =
           nat (max 1 (lrintf (min
             (straightMoveLength env init (moveState st') * GetReciprocalMinSegmentLength env)
             (straightMoveLength env init (moveState st')
                / (moveFeedRate (moveState st') * StepClockRate cfg)
                * GetSegmentsPerSecond env))))"
    if "useSegmentation env \<and> simulationMode st' \<noteq> simNormal \<and>
       (hasPositiveExtrusion (moveState st') \<or> isCoordinated (moveState st')
          \<or> useG0Segmentation env) \<and>
       \<not> IsUsingMesh env \<and> moveFeedRate (moveState st') * StepClockRate cfg \<noteq> 0"
    using that t straightSegments_kinematic [of env st' cfg init] by simp
  show "totalSegments (moveState st') = 1" if "\<not> useSegmentation env \<and> \<not> IsUsingMesh env"
    using that t straightSegments_plain [of env cfg init st'] by simp
qed

lemma straight_example_finished:
  "fst (DoStraightMove_setup duetConfig scaraEnv 0 {0} (\<lambda>_. 0) straightMoveState) = Finished"
  by (simp add: DoStraightMove_setup_def DoStraightMove_limits_def scaraEnv_def idleEnv_def
      straightMoveState_def idleGCodes_def idleMove_def IsEmpty_def Let_def)

lemma straight_example_state:
  "currentUserPosition (moveState
     (snd (DoStraightMove_setup duetConfig scaraEnv 0 {0} (\<lambda>_. 0) straightMoveState))) X_AXIS = 5"
  "currentUserPosition (moveState
     (snd (DoStraightMove_setup duetConfig scaraEnv 0 {0} (\<lambda>_. 0) straightMoveState))) Y_AXIS = 0"
  "isCoordinated (moveState
     (snd (DoStraightMove_setup duetConfig scaraEnv 0 {0} (\<lambda>_. 0) straightMoveState)))"
  "moveFeedRate (moveState
     (snd (DoStraightMove_setup duetConfig scaraEnv 0 {0} (\<lambda>_. 0) straightMoveState))) = 1 / 750000"
  "simulationMode
     (snd (DoStraightMove_setup duetConfig scaraEnv 0 {0} (\<lambda>_. 0) straightMoveState)) = simOff"
  by (simp_all add: DoStraightMove_setup_def DoStraightMove_limits_def
      DoStraightMove_finish_def FinaliseMove_frame UnlockAll_frame scaraEnv_def idleEnv_def
      straightMoveState_def idleGCodes_def idleMove_def IsEmpty_def Let_def X_AXIS_def Y_AXIS_def)

lemma straight_example_length:
  "straightMoveLength scaraEnv (\<lambda>_. 0) (moveState
     (snd (DoStraightMove_setup duetConfig scaraEnv 0 {0} (\<lambda>_. 0) straightMoveState))) = 5"
proof -
  have "useZSegmentation scaraEnv = False" by (simp add: scaraEnv_def idleEnv_def)
  then show ?thesis
    by (simp add: straightMoveLength_def straight_example_state fsquare_def sqrt_25)
qed

lemma scaraEnv_facts:
  "useSegmentation scaraEnv" "\<not> IsUsingMesh scaraEnv" "\<not> IsCurrentObjectCancelled scaraEnv"
  "GetReciprocalMinSegmentLength scaraEnv = 1 / 4" "GetSegmentsPerSecond scaraEnv = 100"
  "StepClockRate duetConfig = 750000"
  by (simp_all add: scaraEnv_def idleEnv_def duetConfig_def)

theorem DoStraightMove_totalSegments_witness:
  "fst (DoStraightMove_setup duetConfig scaraEnv 0 {} (\<lambda>_. 0) straightMoveState) = Finished \<and>
   totalSegments (moveState
     (snd (DoStraightMove_setup duetConfig scaraEnv 0 {} (\<lambda>_. 0) straightMoveState))) = 1 \<and>
   segmentsLeft (moveState
     (snd (DoStraightMove_setup duetConfig scaraEnv 0 {} (\<lambda>_. 0) straightMoveState))) = 1 \<and>
   fst (DoStraightMove_setup duetConfig scaraEnv 0 {0} (\<lambda>_. 0) straightMoveState) = Finished \<and>
   totalSegments (moveState
     (snd (DoStraightMove_setup duetConfig scaraEnv 0 {0} (\<lambda>_. 0) straightMoveState))) = 1"
proof -
  let ?r = "DoStraightMove_setup duetConfig scaraEnv 0 {0} (\<lambda>_. 0) straightMoveState"
  have e: "IsEmpty {}" "\<not> IsEmpty {0}" "moveType (moveState straightMoveState) = 0"
    by (simp_all add: IsEmpty_def straightMoveState_def idleMove_def)
  have 1: "fst (DoStraightMove_setup duetConfig scaraEnv 0 {} (\<lambda>_. 0) straightMoveState) = Finished \<and>
     totalSegments (moveState
       (snd (DoStraightMove_setup duetConfig scaraEnv 0 {} (\<lambda>_. 0) straightMoveState))) = 1 \<and>
     segmentsLeft (moveState
       (snd (DoStraightMove_setup duetConfig scaraEnv 0 {} (\<lambda>_. 0) straightMoveState))) = 1"
    using DoStraightMove_totalSegments
      [of straightMoveState "{}" duetConfig scaraEnv 0 "\<lambda>_. 0" straightMoveState]
      e scaraEnv_facts
    by simp
  have r: "?r = (Finished, snd ?r)"
    using straight_example_finished by (simp add: prod_eq_iff)
  have m: "min (5 * (1 / 4)) (5 / (1 / 750000 * 750000) * 100) = (5 / 4 :: real)" by simp
  have 2: "totalSegments (moveState (snd ?r)) = 1"
    using DoStraightMove_totalSegments
      [of straightMoveState "{0}" duetConfig scaraEnv 0 "\<lambda>_. 0" "snd ?r"]
      r e scaraEnv_facts straight_example_state straight_example_length
    by (simp add: m lrintf_5_4)
  show ?thesis using 1 2 straight_example_finished by simp
qed

text \<open>
  The claim as worded gives \<open>ceil(L / S)\<close> segments. On a segmenting kinematics with
  minimum segment length \<open>S = 4\<close>, a move of length \<open>L = 5\<close> at 1 mm/s is committed with
  one segment, since 1.25 rounds to 1, while \<open>ceil(5 / 4) = 2\<close>.
\<close>

theorem DoStraightMove_ceil_counterexample:
  "fst (DoStraightMove_setup duetConfig scaraEnv 0 {0} (\<lambda>_. 0) straightMoveState) = Finished \<and>
   straightMoveLength scaraEnv (\<lambda>_. 0) (moveState
     (snd (DoStraightMove_setup duetConfig scaraEnv 0 {0} (\<lambda>_. 0) straightMoveState))) = 5 \<and>
   1 / GetReciprocalMinSegmentLength scaraEnv = 4 \<and>
   totalSegments (moveState
     (snd (DoStraightMove_setup duetConfig scaraEnv 0 {0} (\<lambda>_. 0) straightMoveState))) = 1 \<and>
   nat \<lceil>5 / 4 :: real\<rceil> = 2"
proof -
  let ?r = "DoStraightMove_setup duetConfig scaraEnv 0 {0} (\<lambda>_. 0) straightMoveState"
  have r: "?r = (Finished, snd ?r)"
    using straight_example_finished by (simp add: prod_eq_iff)
  have e: "\<not> IsEmpty {0}" "moveType (moveState straightMoveState) = 0"
    by (simp_all add: IsEmpty_def straightMoveState_def idleMove_def)
  have "totalSegments (moveState (snd ?r)) = straightSegments duetConfig scaraEnv (\<lambda>_. 0) (snd ?r)"
    using r e(2) e(1) by (rule DoStraightMove_setup_segments)
  also have "\<dots> = nat (max 1 (lrintf (min
       (straightMoveLength scaraEnv (\<lambda>_. 0) (moveState (snd ?r)) * GetReciprocalMinSegmentLength scaraEnv)
       (straightMoveLength scaraEnv (\<lambda>_. 0) (moveState (snd ?r))
          / (moveFeedRate (moveState (snd ?r)) * StepClockRate duetConfig)
          * GetSegmentsPerSecond scaraEnv))))"
    by (rule straightSegments_kinematic)
      (simp_all add: scaraEnv_facts straight_example_state)
  also have "\<dots> = 1"
    by (simp add: straight_example_length straight_example_state scaraEnv_facts lrintf_5_4)
  finally have t: "totalSegments (moveState (snd ?r)) = 1" .
  have c: "\<lceil>5 / 4 :: real\<rceil> = 2" by linarith
  show ?thesis
    using straight_example_finished straight_example_length t c
    by (simp add: scaraEnv_facts)
qed

lemma sqrt_10000: "sqrt 10000 = 100"
proof -
  have "sqrt (100 * 100) = \<bar>100\<bar>" by (rule real_sqrt_abs2)
  then show ?thesis by simp
qed

lemma lrintf_25: "lrintf 25 = 25"
  by (simp add: lrintf_def Let_def)

text \<open>
  A move of X from 0 to 100 at feed rate zero on a segmenting kinematics with minimum
  segment length 4: the move time is infinite, so the length decides, and the move is
  committed with 25 segments.
\<close>

lemma zero_feed_rate_example_finished:
  "fst (DoStraightMove_setup duetConfig scaraEnv 0 {0} (\<lambda>_. 0) zeroFeedRateState) = Finished"
  by (simp add: DoStraightMove_setup_def DoStraightMove_limits_def scaraEnv_def idleEnv_def
      zeroFeedRateState_def idleGCodes_def idleMove_def IsEmpty_def Let_def)

lemma zero_feed_rate_example_state:
  "currentUserPosition (moveState
     (snd (DoStraightMove_setup duetConfig scaraEnv 0 {0} (\<lambda>_. 0) zeroFeedRateState))) X_AXIS = 100"
  "currentUserPosition (moveState
     (snd (DoStraightMove_setup duetConfig scaraEnv 0 {0} (\<lambda>_. 0) zeroFeedRateState))) Y_AXIS = 0"
  "isCoordinated (moveState
     (snd (DoStraightMove_setup duetConfig scaraEnv 0 {0} (\<lambda>_. 0) zeroFeedRateState)))"
  "moveFeedRate (moveState
     (snd (DoStraightMove_setup duetConfig scaraEnv 0 {0} (\<lambda>_. 0) zeroFeedRateState))) = 0"
  "simulationMode
     (snd (DoStraightMove_setup duetConfig scaraEnv 0 {0} (\<lambda>_. 0) zeroFeedRateState)) = simOff"
  by (simp_all add: DoStraightMove_setup_def DoStraightMove_limits_def
      DoStraightMove_finish_def FinaliseMove_frame UnlockAll_frame scaraEnv_def idleEnv_def
      zeroFeedRateState_def idleGCodes_def idleMove_def IsEmpty_def Let_def X_AXIS_def Y_AXIS_def)

lemma zero_feed_rate_example_length:
  "straightMoveLength scaraEnv (\<lambda>_. 0) (moveState
     (snd (DoStraightMove_setup duetConfig scaraEnv 0 {0} (\<lambda>_. 0) zeroFeedRateState))) = 100"
proof -
  have "useZSegmentation scaraEnv = False" by (simp add: scaraEnv_def idleEnv_def)
  then show ?thesis
    by (simp add: straightMoveLength_def zero_feed_rate_example_state fsquare_def sqrt_10000)
qed

lemma DoStraightMove_zero_feed_rate_example:
  "totalSegments (moveState
     (snd (DoStraightMove_setup duetConfig scaraEnv 0 {0} (\<lambda>_. 0) zeroFeedRateState))) = 25"
proof -
  let ?r = "DoStraightMove_setup duetConfig scaraEnv 0 {0} (\<lambda>_. 0) zeroFeedRateState"
  have r: "?r = (Finished, snd ?r)"
    using zero_feed_rate_example_finished by (simp add: prod_eq_iff)
  have e: "\<not> IsEmpty {0}" "moveType (moveState zeroFeedRateState) = 0"
    by (simp_all add: IsEmpty_def zeroFeedRateState_def idleMove_def)
  have "totalSegments (moveState (snd ?r)) = straightSegments duetConfig scaraEnv (\<lambda>_. 0) (snd ?r)"
    using r e(2) e(1) by (rule DoStraightMove_setup_segments)
  also have "\<dots> = nat (max 1 (lrintf
       (straightMoveLength scaraEnv (\<lambda>_. 0) (moveState (snd ?r))
          * GetReciprocalMinSegmentLength scaraEnv)))"
    by (rule straightSegments_zero_feed_rate)
      (simp_all add: scaraEnv_facts zero_feed_rate_example_state zero_feed_rate_example_length)
  also have "\<dots> = 25"
    by (simp add: zero_feed_rate_example_length scaraEnv_facts lrintf_25)
  finally show ?thesis .
qed

section \<open>Publishing a move while none is in flight\<close>

text \<open>
  The sequential part of the hand-over protocol. While a move is in flight
  (\<^verbatim>\<open>segmentsLeft\<close> is not zero) \<^verbatim>\<open>LockMovementAndWaitForStandstill\<close> returns false and
  leaves the pending move alone, so \<^verbatim>\<open>TravelToStartPoint\<close> publishes nothing.
  \<^verbatim>\<open>NewMoveAvailable\<close> assigns \<^verbatim>\<open>segmentsLeft\<close> and no other member of the move;
  \<^verbatim>\<open>NewSingleSegmentMoveAvailable\<close> assigns \<^verbatim>\<open>totalSegments\<close> and then \<^verbatim>\<open>segmentsLeft\<close>.
  What a consumer running concurrently observes between these assignments depends on
  the memory barrier and is outside a sequential model.
\<close>

lemma LockResource_moveState [simp]:
  "moveState (snd (LockResource gb r st)) = moveState st"
  by (simp add: LockResource_def)

lemma LockMovementAndWaitForStandstill_in_flight:
  assumes "segmentsLeft (moveState st) \<noteq> 0"
  shows "fst (LockMovementAndWaitForStandstill cfg env gb st) = False"
    and "moveState (snd (LockMovementAndWaitForStandstill cfg env gb st)) = moveState st"
proof -
  obtain b st1 where l: "LockMovement cfg gb st = (b, st1)"
    by (cases "LockMovement cfg gb st")
  then have m: "moveState st1 = moveState st"
    using LockResource_moveState [of gb "MoveResource cfg" st] by (simp add: LockMovement_def)
  show "fst (LockMovementAndWaitForStandstill cfg env gb st) = False"
    using assms l m by (cases b) (simp_all add: LockMovementAndWaitForStandstill_def)
  show "moveState (snd (LockMovementAndWaitForStandstill cfg env gb st)) = moveState st"
    using assms l m by (cases b) (simp_all add: LockMovementAndWaitForStandstill_def)
qed

lemma TravelToStartPoint_in_flight:
  assumes "segmentsLeft (moveState st) \<noteq> 0"
  shows "fst (TravelToStartPoint cfg env gb st) = False"
    and "moveState (snd (TravelToStartPoint cfg env gb st)) = moveState st"
proof -
  obtain b st1 where l: "LockMovementAndWaitForStandstill cfg env gb st = (b, st1)"
    by (cases "LockMovementAndWaitForStandstill cfg env gb st")
  have "b = False" "moveState st1 = moveState st"
    using LockMovementAndWaitForStandstill_in_flight [OF assms, of cfg env gb] l by simp_all
  then show "fst (TravelToStartPoint cfg env gb st) = False"
    and "moveState (snd (TravelToStartPoint cfg env gb st)) = moveState st"
    using l by (simp_all add: TravelToStartPoint_def)
qed

lemma NewSingleSegmentMoveAvailable_moveState:
  "moveState (NewSingleSegmentMoveAvailable st) =
     (moveState st)\<lparr>totalSegments := 1, segmentsLeft := 1\<rparr>"
  by (simp add: NewSingleSegmentMoveAvailable_def Let_def)

end
